theory Spec2Isabelle
  imports Main "HOL-Library.Sublist"
begin

section \<open>JavaScript string primitives\<close>

text \<open>
  Selector strings are lists of code units. The primitives below are the
  \<^verbatim>\<open>String.prototype\<close> methods the drivers call: \<^verbatim>\<open>startsWith\<close>, \<^verbatim>\<open>includes\<close>,
  \<^verbatim>\<open>substring(n)\<close>, \<^verbatim>\<open>split(sep)\<close> with a one-character separator, and
  \<^verbatim>\<open>toLowerCase\<close> on ASCII letters.
\<close>

definition startsWith :: "string \<Rightarrow> string \<Rightarrow> bool" where
  "startsWith s p = prefix p s"

definition str_includes :: "string \<Rightarrow> string \<Rightarrow> bool" where
  "str_includes s p = sublist p s"

definition substring :: "string \<Rightarrow> nat \<Rightarrow> string" where
  "substring s n = drop n s"

text \<open>\<open>split_from c acc s\<close> scans \<open>s\<close> with the current piece \<open>acc\<close> (reversed).\<close>

fun split_from :: "char \<Rightarrow> string \<Rightarrow> string \<Rightarrow> string list" where
  "split_from c acc [] = [rev acc]"
| "split_from c acc (x # xs) =
     (if x = c then rev acc # split_from c [] xs else split_from c (x # acc) xs)"

definition split :: "char \<Rightarrow> string \<Rightarrow> string list" where
  "split c s = split_from c [] s"

text \<open>
  Array destructuring \<^verbatim>\<open>const [attr, value] = parts\<close> reads indices 0 and 1; a
  missing index is \<^verbatim>\<open>undefined\<close>, which a template literal renders as the
  text \<^verbatim>\<open>undefined\<close>.
\<close>

definition at_index :: "string list \<Rightarrow> nat \<Rightarrow> string option" where
  "at_index parts i = (if i < length parts then Some (parts ! i) else None)"

definition interpolate :: "string option \<Rightarrow> string" where
  "interpolate v = (case v of None \<Rightarrow> ''undefined'' | Some s \<Rightarrow> s)"

definition lower_char :: "char \<Rightarrow> char" where
  "lower_char c =
     (case map_of (zip ''ABCDEFGHIJKLMNOPQRSTUVWXYZ'' ''abcdefghijklmnopqrstuvwxyz'') c of
        Some l \<Rightarrow> l
      | None \<Rightarrow> c)"

definition toLowerCase :: "string \<Rightarrow> string" where
  "toLowerCase s = map lower_char s"

section \<open>Locator descriptors\<close>

text \<open>The four \<^verbatim>\<open>By\<close> factories of the WebDriver binding that the code uses.\<close>

datatype By = By_xpath string | By_id string | By_className string | By_css string

text \<open>The template \<^verbatim>\<open>[${attr}="${value}"]\<close> over \<^verbatim>\<open>selector.split('=')\<close>.\<close>

definition attr_equals_css :: "string \<Rightarrow> string" where
  "attr_equals_css selector =
     (let parts = split CHR ''='' selector;
          attr = at_index parts 0;
          val = at_index parts 1
      in ''['' @ interpolate attr @ ''=\"'' @ interpolate val @ ''\"]'')"

text \<open>The template \<^verbatim>\<open>//*[contains(text(), "${text}")]\<close>.\<close>

definition contains_text_xpath :: "string \<Rightarrow> string" where
  "contains_text_xpath t = ''//*[contains(text(), \"'' @ t @ ''\")]''"

subsection \<open>\<^verbatim>\<open>SeleniumUtils.getSmartSelector\<close>\<close>

definition getSmartSelector :: "string \<Rightarrow> By" where
  "getSmartSelector selector =
     (if startsWith selector ''//'' \<or> startsWith selector ''(//'' then By_xpath selector
      else if startsWith selector ''#'' then By_id (substring selector 1)
      else if startsWith selector ''.'' then By_className (substring selector 1)
      else if str_includes selector ''='' \<and> \<not> str_includes selector ''['' \<and> \<not> str_includes selector '' ''
        then By_css (attr_equals_css selector)
      else if startsWith selector ''text:'' then By_xpath (contains_text_xpath (substring selector 5))
      else if startsWith selector ''partial-text:''
        then By_xpath (contains_text_xpath (substring selector 13))
      else By_css selector)"

subsection \<open>The selector dispatch inside \<^verbatim>\<open>BaseSeleniumDriver.findElement\<close> and \<^verbatim>\<open>findElements\<close>\<close>

definition findElement_by :: "string \<Rightarrow> By" where
  "findElement_by selector =
     (if startsWith selector ''//'' \<or> startsWith selector ''(//'' then By_xpath selector
      else if startsWith selector ''#'' then By_id (substring selector 1)
      else if startsWith selector ''.'' then By_className (substring selector 1)
      else if str_includes selector ''='' then By_css (attr_equals_css selector)
      else By_css selector)"

definition findElements_by :: "string \<Rightarrow> By" where
  "findElements_by selector =
     (if startsWith selector ''//'' \<or> startsWith selector ''(//'' then By_xpath selector
      else if startsWith selector ''#'' then By_id (substring selector 1)
      else if startsWith selector ''.'' then By_className (substring selector 1)
      else By_css selector)"

subsection \<open>\<^verbatim>\<open>PlaywrightUtils.getSelectorInfo\<close>\<close>

text \<open>
  The DevTools driver hands selector strings to the engine as they are; this
  helper only labels a selector. Its \<^verbatim>\<open>data-testid=\<close> branch rebuilds the
  selector from \<^verbatim>\<open>selector.substring(13)\<close>.
\<close>

record selector_info =
  info_type :: string
  info_selector :: string
  info_strategy :: string

definition getSelectorInfo :: "string \<Rightarrow> selector_info" where
  "getSelectorInfo selector =
     (if startsWith selector ''//'' \<or> startsWith selector ''(//'' then
        \<lparr> info_type = ''xpath'', info_selector = selector, info_strategy = ''xpath'' \<rparr>
      else if startsWith selector ''text='' then
        \<lparr> info_type = ''text'', info_selector = selector, info_strategy = ''text'' \<rparr>
      else if str_includes selector ''text='' then
        \<lparr> info_type = ''text'', info_selector = selector, info_strategy = ''partial-text'' \<rparr>
      else if startsWith selector ''role='' then
        \<lparr> info_type = ''role'', info_selector = selector, info_strategy = ''role'' \<rparr>
      else if startsWith selector ''label='' then
        \<lparr> info_type = ''label'', info_selector = selector, info_strategy = ''label'' \<rparr>
      else if startsWith selector ''placeholder='' then
        \<lparr> info_type = ''placeholder'', info_selector = selector,
          info_strategy = ''placeholder'' \<rparr>
      else if startsWith selector ''data-testid='' then
        \<lparr> info_type = ''testid'',
          info_selector = ''[data-testid=\"'' @ substring selector 13 @ ''\"]'',
          info_strategy = ''testid'' \<rparr>
      else \<lparr> info_type = ''css'', info_selector = selector, info_strategy = ''css'' \<rparr>)"

subsection \<open>The resolution order as the specification lists it\<close>

text \<open>
  The specification's section 4.1 lists the text rule (rule 4) before the
  attribute rule (rule 5). \<open>resolve_spec\<close> follows that wording; it is compared
  with \<open>getSmartSelector\<close> below.
\<close>

definition resolve_spec :: "string \<Rightarrow> By" where
  "resolve_spec raw =
     (if startsWith raw ''//'' \<or> startsWith raw ''(//'' then By_xpath raw
      else if startsWith raw ''#'' then By_id (substring raw 1)
      else if startsWith raw ''.'' then By_className (substring raw 1)
      else if startsWith raw ''text:'' then By_xpath (contains_text_xpath (substring raw 5))
      else if str_includes raw ''='' \<and> \<not> str_includes raw ''['' \<and> \<not> str_includes raw '' ''
        then By_css (attr_equals_css raw)
      else By_css raw)"

section \<open>Filenames of captured artifacts\<close>

text \<open>
  \<^verbatim>\<open>_generateFilename\<close> (identical in both drivers) reads the clock with
  \<^verbatim>\<open>new Date().toISOString()\<close> and takes the name apart with Node's
  \<^verbatim>\<open>path.extname\<close> and \<^verbatim>\<open>path.basename\<close>. The clock value is an argument
  of the model; the two library functions are fields of \<open>path_module\<close>, so every
  statement below holds for whatever the platform's \<^verbatim>\<open>path\<close> computes.
\<close>

record path_module =
  extname :: "string \<Rightarrow> string"
  basename :: "string \<Rightarrow> string \<Rightarrow> string"
  isAbsolute :: "string \<Rightarrow> bool"
  resolve :: "string \<Rightarrow> string \<Rightarrow> string"
  join :: "string \<Rightarrow> string \<Rightarrow> string"
  projectRoot :: string

text \<open>A UTC instant by its calendar fields, as \<^verbatim>\<open>toISOString\<close> prints them.\<close>

record utc_time =
  utc_year :: nat
  utc_month :: nat
  utc_day :: nat
  utc_hours :: nat
  utc_minutes :: nat
  utc_seconds :: nat
  utc_millis :: nat

definition valid_time :: "utc_time \<Rightarrow> bool" where
  "valid_time t =
     (utc_year t \<le> 9999 \<and> 1 \<le> utc_month t \<and> utc_month t \<le> 12
      \<and> 1 \<le> utc_day t \<and> utc_day t \<le> 31 \<and> utc_hours t < 24
      \<and> utc_minutes t < 60 \<and> utc_seconds t < 60 \<and> utc_millis t < 1000)"

definition digit_char :: "nat \<Rightarrow> char" where
  "digit_char d = ''0123456789'' ! (d mod 10)"

fun decimal :: "nat \<Rightarrow> string" where
  "decimal n = (if n < 10 then [digit_char n] else decimal (n div 10) @ [digit_char (n mod 10)])"

declare decimal.simps [simp del]

definition padStart :: "nat \<Rightarrow> string \<Rightarrow> string" where
  "padStart w s = replicate (w - length s) CHR ''0'' @ s"

text \<open>
  \<^verbatim>\<open>Date.prototype.toISOString\<close>: \<^verbatim>\<open>YYYY-MM-DDTHH:mm:ss.sssZ\<close>, with the expanded
  six-digit year \<^verbatim>\<open>+YYYYYY\<close> beyond the year 9999.
\<close>

definition toISOString :: "utc_time \<Rightarrow> string" where
  "toISOString t =
     (if utc_year t \<le> 9999 then padStart 4 (decimal (utc_year t))
      else ''+'' @ padStart 6 (decimal (utc_year t)))
     @ ''-'' @ padStart 2 (decimal (utc_month t))
     @ ''-'' @ padStart 2 (decimal (utc_day t))
     @ ''T'' @ padStart 2 (decimal (utc_hours t))
     @ '':'' @ padStart 2 (decimal (utc_minutes t))
     @ '':'' @ padStart 2 (decimal (utc_seconds t))
     @ ''.'' @ padStart 3 (decimal (utc_millis t)) @ ''Z''"

text \<open>\<^verbatim>\<open>.replace(/[:.]/g, '-')\<close>, \<^verbatim>\<open>.replace(/T/, '_')\<close> (first match only) and
  \<^verbatim>\<open>.slice(0, -5)\<close>.\<close>

definition replace_colons_dots :: "string \<Rightarrow> string" where
  "replace_colons_dots s = map (\<lambda>c. if c = CHR '':'' \<or> c = CHR ''.'' then CHR ''-'' else c) s"

fun replace_first_T :: "string \<Rightarrow> string" where
  "replace_first_T [] = []"
| "replace_first_T (c # cs) = (if c = CHR ''T'' then CHR ''_'' # cs else c # replace_first_T cs)"

definition slice_off_end :: "nat \<Rightarrow> string \<Rightarrow> string" where
  "slice_off_end k s = take (length s - k) s"

definition timestamp_of :: "utc_time \<Rightarrow> string" where
  "timestamp_of now = slice_off_end 5 (replace_first_T (replace_colons_dots (toISOString now)))"

definition generateFilename :: "path_module \<Rightarrow> utc_time \<Rightarrow> string \<Rightarrow> bool \<Rightarrow> string" where
  "generateFilename pm now baseName includeTimestamp =
     (let filename = baseName
      in if includeTimestamp then
           (let timestamp = timestamp_of now;
                extension = extname pm filename;
                nameWithoutExt = basename pm filename extension
            in nameWithoutExt @ ''_'' @ timestamp @ extension)
         else filename)"

text \<open>
  The timestamp as the specification describes it: the ISO-8601 fields down
  to whole seconds, every separator a dash, date and time joined by an
  underscore: \<^verbatim>\<open>YYYY-MM-DD_HH-MM-SS\<close>.
\<close>

definition two_digits :: "nat \<Rightarrow> string" where
  "two_digits n = [digit_char (n div 10), digit_char n]"

definition four_digits :: "nat \<Rightarrow> string" where
  "four_digits n =
     [digit_char (n div 1000), digit_char (n div 100), digit_char (n div 10), digit_char n]"

definition seconds_stamp_spec :: "utc_time \<Rightarrow> string" where
  "seconds_stamp_spec t =
     four_digits (utc_year t) @ ''-'' @ two_digits (utc_month t) @ ''-'' @ two_digits (utc_day t)
     @ ''_'' @ two_digits (utc_hours t) @ ''-'' @ two_digits (utc_minutes t)
     @ ''-'' @ two_digits (utc_seconds t)"

definition same_second :: "utc_time \<Rightarrow> utc_time \<Rightarrow> bool" where
  "same_second a b =
     (utc_year a = utc_year b \<and> utc_month a = utc_month b \<and> utc_day a = utc_day b
      \<and> utc_hours a = utc_hours b \<and> utc_minutes a = utc_minutes b
      \<and> utc_seconds a = utc_seconds b)"

text \<open>
  Node's POSIX \<^verbatim>\<open>path.extname\<close> and \<^verbatim>\<open>path.basename\<close>, used for the examples:
  the extension runs from the last dot of the last path component, unless
  that dot is the component's first character or the component is \<^verbatim>\<open>..\<close>.
\<close>

definition last_component :: "string \<Rightarrow> string" where
  "last_component p =
     rev (takeWhile (\<lambda>c. c \<noteq> CHR ''/'') (dropWhile (\<lambda>c. c = CHR ''/'') (rev p)))"

definition posix_extname :: "string \<Rightarrow> string" where
  "posix_extname p =
     (let c = last_component p;
          e = rev (takeWhile (\<lambda>x. x \<noteq> CHR ''.'') (rev c))
      in if CHR ''.'' \<notin> set c \<or> length e + 1 = length c \<or> c = ''..'' then []
         else CHR ''.'' # e)"

definition posix_basename :: "string \<Rightarrow> string \<Rightarrow> string" where
  "posix_basename p ext =
     (let c = last_component p
      in if ext \<noteq> [] \<and> length ext < length c \<and> drop (length c - length ext) c = ext
         then take (length c - length ext) c
         else if ext \<noteq> [] \<and> ext = p then [] else c)"

text \<open>Joining onto a base directory, dropping a leading \<^verbatim>\<open>./\<close> of the relative part.\<close>

definition posix_join :: "string \<Rightarrow> string \<Rightarrow> string" where
  "posix_join a b = a @ ''/'' @ (if startsWith b ''./'' then drop 2 b else b)"

definition posix_path :: path_module where
  "posix_path =
     \<lparr> extname = posix_extname, basename = posix_basename,
       isAbsolute = (\<lambda>p. startsWith p ''/''),
       resolve = (\<lambda>a b. if startsWith b ''/'' then b else posix_join a b),
       join = posix_join,
       projectRoot = ''/app'' \<rparr>"

text \<open>Sample capture instants on 2024-01-15 at 10:30 UTC.\<close>

definition capture_time :: "nat \<Rightarrow> nat \<Rightarrow> utc_time" where
  "capture_time s ms =
     \<lparr> utc_year = 2024, utc_month = 1, utc_day = 15, utc_hours = 10, utc_minutes = 30,
       utc_seconds = s, utc_millis = ms \<rparr>"

section \<open>Values, effects and the environment\<close>

text \<open>
  The drivers are thin layers over an external browser engine, the file
  system and the logger. Values that cross that boundary are dynamically
  typed; \<open>jsval\<close> is the part of JavaScript's value space the code handles.
  \<open>Ref n\<close> is an opaque object of the engine (a session, a page, an element),
  \<open>Module m\<close> a library object, \<open>Locator by\<close> a \<^verbatim>\<open>By\<close> instance.
\<close>

datatype jsval =
    Undefined
  | Null
  | Bool bool
  | Num nat
  | Str string
  | Ref nat
  | Module string
  | Locator By
  | Arr "jsval list"
  | Obj "(string \<times> jsval) list"

text \<open>Truthiness as \<^verbatim>\<open>!x\<close>, \<^verbatim>\<open>x || y\<close> and \<^verbatim>\<open>if (x)\<close> test it.\<close>

fun truthy :: "jsval \<Rightarrow> bool" where
  "truthy Undefined = False"
| "truthy Null = False"
| "truthy (Bool b) = b"
| "truthy (Num n) = (n \<noteq> 0)"
| "truthy (Str s) = (s \<noteq> [])"
| "truthy _ = True"

text \<open>A value inside a template literal.\<close>

fun text_of :: "jsval \<Rightarrow> string" where
  "text_of Undefined = ''undefined''"
| "text_of Null = ''null''"
| "text_of (Bool b) = (if b then ''true'' else ''false'')"
| "text_of (Num n) = decimal n"
| "text_of (Str s) = s"
| "text_of _ = ''[object Object]''"

text \<open>Every exception the code throws or catches is an \<^verbatim>\<open>Error\<close> with a message.\<close>

datatype error = Error (message: string)

datatype level = Debug | Info | Warn | Err

text \<open>
  What a run does to the outside world, in order: a log line (level and
  arguments), a call \<^verbatim>\<open>receiver.method(args)\<close> into the engine, the file
  system or a library, or a \<^verbatim>\<open>setTimeout\<close> sleep in milliseconds.
\<close>

datatype effect =
    Log level "string list"
  | Invoke jsval string "jsval list"
  | Sleep nat

text \<open>
  The environment answers each external call with a value or a thrown error.
  The answer may depend on everything that happened before (the trace), so
  any deterministic engine is an instance, and statements quantified over the
  environment cover every engine behaviour.
\<close>

record environment =
  respond :: "effect list \<Rightarrow> jsval \<Rightarrow> string \<Rightarrow> jsval list \<Rightarrow> error + jsval"
  clock :: "effect list \<Rightarrow> utc_time"
  path :: path_module
  process_env :: "string \<Rightarrow> string option"

text \<open>
  An \<^verbatim>\<open>async\<close> method is a function from the object's state and the trace so
  far to a result (\<open>Inl\<close>: it threw), the new state and the extended trace.
\<close>

type_synonym ('a, 's) prog = "'s \<times> effect list \<Rightarrow> (error + 'a) \<times> 's \<times> effect list"

definition ret :: "'a \<Rightarrow> ('a, 's) prog" where
  "ret x = (\<lambda>(s, tr). (Inr x, s, tr))"

definition throw :: "error \<Rightarrow> ('a, 's) prog" where
  "throw e = (\<lambda>(s, tr). (Inl e, s, tr))"

definition bind :: "('a, 's) prog \<Rightarrow> ('a \<Rightarrow> ('b, 's) prog) \<Rightarrow> ('b, 's) prog" where
  "bind m f =
     (\<lambda>st. case m st of
        (Inl e, s', tr') \<Rightarrow> (Inl e, s', tr')
      | (Inr x, s', tr') \<Rightarrow> f x (s', tr'))"

definition andThen :: "('a, 's) prog \<Rightarrow> ('b, 's) prog \<Rightarrow> ('b, 's) prog" where
  "andThen m n = bind m (\<lambda>_. n)"

definition try_catch :: "('a, 's) prog \<Rightarrow> (error \<Rightarrow> ('a, 's) prog) \<Rightarrow> ('a, 's) prog" where
  "try_catch m h =
     (\<lambda>st. case m st of
        (Inl e, s', tr') \<Rightarrow> h e (s', tr')
      | (Inr x, s', tr') \<Rightarrow> (Inr x, s', tr'))"

definition this :: "('s, 's) prog" where
  "this = (\<lambda>(s, tr). (Inr s, s, tr))"

definition assign :: "('s \<Rightarrow> 's) \<Rightarrow> (unit, 's) prog" where
  "assign f = (\<lambda>(s, tr). (Inr (), f s, tr))"

definition emit :: "effect \<Rightarrow> (unit, 's) prog" where
  "emit e = (\<lambda>(s, tr). (Inr (), s, tr @ [e]))"

definition logger :: "level \<Rightarrow> string list \<Rightarrow> (unit, 's) prog" where
  "logger lv args = emit (Log lv args)"

definition wait_ms :: "nat \<Rightarrow> (unit, 's) prog" where
  "wait_ms ms = emit (Sleep ms)"

definition invoke :: "environment \<Rightarrow> jsval \<Rightarrow> string \<Rightarrow> jsval list \<Rightarrow> (jsval, 's) prog" where
  "invoke env recv meth args =
     (\<lambda>(s, tr). (respond env tr recv meth args, s, tr @ [Invoke recv meth args]))"

definition new_Date :: "environment \<Rightarrow> (utc_time, 's) prog" where
  "new_Date env = (\<lambda>(s, tr). (Inr (clock env tr), s, tr))"

text \<open>\<^verbatim>\<open>timeout || this.options.timeout\<close> for an optional numeric argument.\<close>

definition or_default :: "nat option \<Rightarrow> nat \<Rightarrow> nat" where
  "or_default t d = (case t of None \<Rightarrow> d | Some n \<Rightarrow> if n = 0 then d else n)"

text \<open>\<^verbatim>\<open>x || y\<close> for an optional string argument (\<^verbatim>\<open>null\<close> and \<^verbatim>\<open>''\<close> are falsy).\<close>

definition str_or :: "string option \<Rightarrow> string \<Rightarrow> string" where
  "str_or x d = (case x of None \<Rightarrow> d | Some s \<Rightarrow> if s = [] then d else s)"

definition bool_text :: "bool \<Rightarrow> string" where
  "bool_text b = (if b then ''true'' else ''false'')"

text \<open>Object spread \<^verbatim>\<open>{...a, ...b}\<close>: the keys of \<open>b\<close> override those of \<open>a\<close>.\<close>

fun obj_update :: "string \<Rightarrow> jsval \<Rightarrow> (string \<times> jsval) list \<Rightarrow> (string \<times> jsval) list" where
  "obj_update k v [] = [(k, v)]"
| "obj_update k v ((k', v') # kvs) =
     (if k = k' then (k, v) # kvs else (k', v') # obj_update k v kvs)"

definition obj_merge :: "(string \<times> jsval) list \<Rightarrow> (string \<times> jsval) list \<Rightarrow> (string \<times> jsval) list" where
  "obj_merge a b = fold (\<lambda>(k, v) acc. obj_update k v acc) b a"

section \<open>Driver configuration and session state\<close>

text \<open>
  The options common to both drivers, then the fields each constructor adds.
  \<^verbatim>\<open>chromeSpecific\<close>, \<^verbatim>\<open>edgeSpecific\<close> and \<^verbatim>\<open>firefoxSpecific\<close> are the sub-objects
  the browser-specific subclasses keep inside \<^verbatim>\<open>this.options\<close>; \<open>None\<close> is
  \<^verbatim>\<open>undefined\<close>.
\<close>

record options =
  browser :: string
  headless :: bool
  windowSize_width :: nat
  windowSize_height :: nat
  timeout :: nat
  userAgent :: "string option"
  downloadsPath :: string
  outputPath :: string
  disableImages :: bool
  disableJavaScript :: bool
  acceptInsecureCerts :: bool

record selenium_options = options +
  implicitWait :: nat
  chromeSpecific :: "(string \<times> jsval) list option"
  edgeSpecific :: "(string \<times> jsval) list option"
  firefoxSpecific :: "(string \<times> jsval) list option"

record playwright_options = options +
  navigationTimeout :: nat
  recordVideo :: bool
  slowMo :: nat

definition selenium_defaults :: selenium_options where
  "selenium_defaults =
     \<lparr> browser = ''chrome'', headless = True, windowSize_width = 1920,
       windowSize_height = 1080, timeout = 30000, userAgent = None,
       downloadsPath = ''./downloads'', outputPath = ''./output'', disableImages = False,
       disableJavaScript = False, acceptInsecureCerts = True, implicitWait = 10000,
       chromeSpecific = None, edgeSpecific = None, firefoxSpecific = None \<rparr>"

definition playwright_defaults :: playwright_options where
  "playwright_defaults =
     \<lparr> browser = ''chromium'', headless = True, windowSize_width = 1920,
       windowSize_height = 1080, timeout = 30000, userAgent = None,
       downloadsPath = ''./downloads'', outputPath = ''./output'', disableImages = False,
       disableJavaScript = False, acceptInsecureCerts = True, navigationTimeout = 30000,
       recordVideo = False, slowMo = 0 \<rparr>"

record 'o driver_state =
  options :: 'o
  isStarted :: bool
  currentUrl :: jsval
  outputDirectoryBasePath :: string
  downloadDirectoryBasePath :: string
  screenshotsDirectory :: string
  videosDirectory :: string

record selenium_driver = "selenium_options driver_state" +
  driver :: jsval

record playwright_driver = "playwright_options driver_state" +
  browser_handle :: jsval
  context_handle :: jsval
  page_handle :: jsval

definition resolve_from_root :: "path_module \<Rightarrow> string \<Rightarrow> string" where
  "resolve_from_root pm p = (if isAbsolute pm p then p else resolve pm (projectRoot pm) p)"

text \<open>The constructors, applied to the merged options object.\<close>

definition BaseSeleniumDriver :: "path_module \<Rightarrow> selenium_options \<Rightarrow> selenium_driver" where
  "BaseSeleniumDriver pm opts =
     \<lparr> options = opts, isStarted = False, currentUrl = Null,
       outputDirectoryBasePath = resolve_from_root pm (outputPath opts),
       downloadDirectoryBasePath = resolve_from_root pm (downloadsPath opts),
       screenshotsDirectory = ''screenshots'', videosDirectory = ''videos'',
       driver = Null \<rparr>"

definition PlaywrightDriver :: "path_module \<Rightarrow> playwright_options \<Rightarrow> playwright_driver" where
  "PlaywrightDriver pm opts =
     \<lparr> options = opts, isStarted = False, currentUrl = Null,
       outputDirectoryBasePath = resolve_from_root pm (outputPath opts),
       downloadDirectoryBasePath = resolve_from_root pm (downloadsPath opts),
       screenshotsDirectory = ''screenshots'', videosDirectory = ''videos'',
       browser_handle = Null, context_handle = Null, page_handle = Null \<rparr>"

text \<open>The first log line of \<^verbatim>\<open>start()\<close> in both drivers.\<close>

definition starting_text :: "'a options_scheme \<Rightarrow> string" where
  "starting_text opts =
     ''Starting '' @ browser opts @ '' browser (headless: '' @ bool_text (headless opts) @ '')''"

text \<open>The \<^verbatim>\<open>catch\<close> block of \<^verbatim>\<open>start()\<close> in both drivers.\<close>

definition startup_handler :: "error \<Rightarrow> ('a, 's) prog" where
  "startup_handler e =
     andThen (logger Err [''Failed to start browser driver:'', message e])
       (throw (Error (''Driver startup failed: '' @ message e)))"

definition not_started_error :: error where
  "not_started_error = Error ''Driver not started. Call start() first.''"

section \<open>The WebDriver-protocol driver (\<^verbatim>\<open>BaseSeleniumDriver\<close>)\<close>

definition Selenium_ensureStarted :: "(unit, selenium_driver) prog" where
  "Selenium_ensureStarted =
     bind this (\<lambda>d.
       if \<not> isStarted d \<or> \<not> truthy (driver d) then throw not_started_error else ret ())"

definition download_prefs :: "selenium_driver \<Rightarrow> jsval" where
  "download_prefs d =
     Obj [(''download.default_directory'', Str (downloadDirectoryBasePath d)),
          (''download.prompt_for_download'', Bool False),
          (''download.directory_upgrade'', Bool True),
          (''safebrowsing.enabled'', Bool True)]"

definition window_size_arg :: "selenium_options \<Rightarrow> string" where
  "window_size_arg opts =
     ''--window-size='' @ decimal (windowSize_width opts) @ '','' @ decimal (windowSize_height opts)"

definition chrome_arguments :: "selenium_options \<Rightarrow> string list" where
  "chrome_arguments opts =
     (if headless opts then [''--headless=new''] else [])
     @ [window_size_arg opts, ''--no-sandbox'', ''--disable-dev-shm-usage'', ''--disable-gpu'',
        ''--disable-web-security'', ''--allow-running-insecure-content'']
     @ (case userAgent opts of
          None \<Rightarrow> []
        | Some ua \<Rightarrow> if ua = [] then [] else [''--user-agent='' @ ua])
     @ (if disableImages opts then [''--blink-settings=imagesEnabled=false''] else [])
     @ (if disableJavaScript opts then [''--disable-javascript''] else [])"

definition firefox_arguments :: "selenium_options \<Rightarrow> string list" where
  "firefox_arguments opts =
     (if headless opts then [''--headless''] else [])
     @ [''--width='' @ decimal (windowSize_width opts),
        ''--height='' @ decimal (windowSize_height opts)]"

definition firefox_prefs :: "selenium_driver \<Rightarrow> jsval" where
  "firefox_prefs d =
     Obj [(''browser.download.dir'', Str (downloadDirectoryBasePath d)),
          (''browser.download.folderList'', Num 2),
          (''browser.download.useDownloadDir'', Bool True),
          (''browser.helperApps.neverAsk.saveToDisk'',
           Str ''application/pdf,application/zip,text/csv,application/xml,application/octet-stream'')]"

definition edge_arguments :: "selenium_options \<Rightarrow> string list" where
  "edge_arguments opts =
     (if headless opts then [''--headless''] else []) @ [window_size_arg opts]"

text \<open>
  The \<^verbatim>\<open>switch\<close> of \<^verbatim>\<open>start()\<close>: the browser name given to the builder with the
  options object built for it, or \<open>None\<close> in the \<^verbatim>\<open>default\<close> case.
\<close>

definition builder_setup :: "selenium_driver \<Rightarrow> (string \<times> string \<times> jsval) option" where
  "builder_setup d =
     (let opts = options d;
          name = toLowerCase (browser opts);
          dl = downloadsPath opts \<noteq> []
      in if name = ''chrome'' then
           Some (''chrome'', ''Chrome'',
                 Obj [(''args'', Arr (map Str (chrome_arguments opts))),
                      (''prefs'', if dl then download_prefs d else Undefined)])
         else if name = ''firefox'' then
           Some (''firefox'', ''Firefox'',
                 Obj [(''args'', Arr (map Str (firefox_arguments opts))),
                      (''prefs'', if dl then firefox_prefs d else Undefined)])
         else if name = ''edge'' then
           Some (''MicrosoftEdge'', ''Edge'',
                 Obj [(''args'', Arr (map Str (edge_arguments opts))),
                      (''prefs'', if dl then download_prefs d else Undefined)])
         else None)"

definition fs_mkdir :: "environment \<Rightarrow> string \<Rightarrow> (jsval, 's) prog" where
  "fs_mkdir env dir = invoke env (Module ''fs'') ''mkdir'' [Str dir, Obj [(''recursive'', Bool True)]]"

definition Selenium_start_body :: "environment \<Rightarrow> (jsval, selenium_driver) prog" where
  "Selenium_start_body env =
     bind this (\<lambda>d.
       case builder_setup d of
         None \<Rightarrow> throw (Error (''Unsupported browser: '' @ browser (options d)))
       | Some (name, label, browser_options) \<Rightarrow>
           andThen
             (if downloadsPath (options d) \<noteq> [] then
                andThen (fs_mkdir env (downloadDirectoryBasePath d))
                  (logger Info [label @ '' download directory set to: ''
                                 @ downloadDirectoryBasePath d])
              else ret ())
           (bind (invoke env (Module ''Builder'') ''build'' [Str name, browser_options]) (\<lambda>h.
            andThen (assign (\<lambda>s. s\<lparr>driver := h\<rparr>))
           (andThen (invoke env h ''manage().setTimeouts''
                       [Obj [(''implicit'', Num (implicitWait (options d))),
                             (''pageLoad'', Num (timeout (options d))),
                             (''script'', Num (timeout (options d)))]])
           (andThen (assign (\<lambda>s. s\<lparr>isStarted := True\<rparr>))
           (andThen (logger Info [''Browser driver started successfully''])
             (ret Undefined)))))))"

definition Selenium_start :: "environment \<Rightarrow> (jsval, selenium_driver) prog" where
  "Selenium_start env =
     bind this (\<lambda>d.
       if isStarted d then andThen (logger Warn [''Driver already started'']) (ret Undefined)
       else
         andThen (logger Info [starting_text (options d)])
           (try_catch (Selenium_start_body env) startup_handler))"

definition Selenium_quit :: "environment \<Rightarrow> (jsval, selenium_driver) prog" where
  "Selenium_quit env =
     bind this (\<lambda>d.
       if \<not> isStarted d \<or> \<not> truthy (driver d) then
         andThen (logger Warn [''Driver not started or already quit'']) (ret Undefined)
       else
         try_catch
           (andThen (invoke env (driver d) ''quit'' [])
           (andThen (assign (\<lambda>s. s\<lparr>driver := Null, isStarted := False, currentUrl := Null\<rparr>))
           (andThen (logger Info [''Browser driver quit successfully''])
             (ret Undefined))))
           (\<lambda>e. andThen (logger Err [''Error quitting driver:'', message e]) (throw e)))"

definition Selenium_navigateTo :: "environment \<Rightarrow> string \<Rightarrow> (jsval, selenium_driver) prog" where
  "Selenium_navigateTo env url =
     andThen Selenium_ensureStarted
    (andThen (logger Info [''Navigating to: '' @ url])
    (try_catch
       (bind this (\<lambda>d.
        andThen (invoke env (driver d) ''get'' [Str url])
       (andThen (assign (\<lambda>s. s\<lparr>currentUrl := Str url\<rparr>))
       (andThen (logger Info [''Navigation completed successfully''])
       (bind (invoke env (driver d) ''getCurrentUrl'' []) (\<lambda>u.
        bind (invoke env (driver d) ''getTitle'' []) (\<lambda>t.
        ret (Obj [(''url'', u), (''title'', t), (''success'', Bool True)]))))))))
       (\<lambda>e. andThen (logger Err [''Navigation failed: '' @ message e])
              (throw (Error (''Failed to navigate to '' @ url @ '': '' @ message e))))))"

definition Selenium_findElement ::
  "environment \<Rightarrow> string \<Rightarrow> nat option \<Rightarrow> (jsval, selenium_driver) prog" where
  "Selenium_findElement env selector tmo =
     andThen Selenium_ensureStarted
    (try_catch
       (bind this (\<lambda>d.
          let timeoutMs = or_default tmo (timeout (options d));
              by = findElement_by selector
          in invoke env (driver d) ''wait'' [Str ''elementLocated'', Locator by, Num timeoutMs]))
       (\<lambda>e. andThen (logger Err [''Element not found: '' @ selector, message e])
              (throw (Error (''Element not found: '' @ selector)))))"

definition Selenium_findElements :: "environment \<Rightarrow> string \<Rightarrow> (jsval, selenium_driver) prog" where
  "Selenium_findElements env selector =
     andThen Selenium_ensureStarted
    (try_catch
       (bind this (\<lambda>d.
          let by = findElements_by selector
          in invoke env (driver d) ''findElements'' [Locator by]))
       (\<lambda>e. andThen (logger Err [''Elements not found: '' @ selector, message e])
              (ret (Arr []))))"

definition Selenium_click ::
  "environment \<Rightarrow> string \<Rightarrow> nat option \<Rightarrow> (jsval, selenium_driver) prog" where
  "Selenium_click env selector tmo =
     andThen Selenium_ensureStarted
    (try_catch
       (bind (Selenium_findElement env selector tmo) (\<lambda>element.
        bind this (\<lambda>d.
        andThen (invoke env (driver d) ''wait''
                   [Str ''elementIsEnabled'', element, Num (or_default tmo (timeout (options d)))])
       (andThen (invoke env element ''click'' [])
       (andThen (logger Info [''Clicked element: '' @ selector])
         (ret (Obj [(''success'', Bool True), (''selector'', Str selector)])))))))
       (\<lambda>e. andThen (logger Err [''Click failed: '' @ selector, message e])
              (throw (Error (''Failed to click '' @ selector @ '': '' @ message e)))))"

definition Selenium_sendKeys ::
  "environment \<Rightarrow> string \<Rightarrow> string \<Rightarrow> nat option \<Rightarrow> (jsval, selenium_driver) prog" where
  "Selenium_sendKeys env selector text tmo =
     andThen Selenium_ensureStarted
    (try_catch
       (bind (Selenium_findElement env selector tmo) (\<lambda>element.
        bind this (\<lambda>d.
        andThen (invoke env (driver d) ''wait''
                   [Str ''elementIsEnabled'', element, Num (or_default tmo (timeout (options d)))])
       (andThen (invoke env element ''sendKeys'' [Str text])
       (andThen (logger Info [''Sent keys to element: '' @ selector])
         (ret (Obj [(''success'', Bool True), (''selector'', Str selector),
                    (''text'', Str text)])))))))
       (\<lambda>e. andThen (logger Err [''Send keys failed: '' @ selector, message e])
              (throw (Error (''Failed to send keys to '' @ selector @ '': '' @ message e)))))"

definition Selenium_clearText ::
  "environment \<Rightarrow> string \<Rightarrow> nat option \<Rightarrow> (jsval, selenium_driver) prog" where
  "Selenium_clearText env selector tmo =
     andThen Selenium_ensureStarted
    (try_catch
       (bind (Selenium_findElement env selector tmo) (\<lambda>element.
        andThen (invoke env element ''clear'' [])
       (andThen (logger Info [''Cleared text from element: '' @ selector])
         (ret (Obj [(''success'', Bool True), (''selector'', Str selector)])))))
       (\<lambda>e. andThen (logger Err [''Clear text failed: '' @ selector, message e])
              (throw (Error (''Failed to clear text from '' @ selector @ '': '' @ message e)))))"

definition Selenium_getText ::
  "environment \<Rightarrow> string \<Rightarrow> nat option \<Rightarrow> (jsval, selenium_driver) prog" where
  "Selenium_getText env selector tmo =
     andThen Selenium_ensureStarted
    (try_catch
       (bind (Selenium_findElement env selector tmo) (\<lambda>element.
        invoke env element ''getText'' []))
       (\<lambda>e. andThen (logger Err [''Get text failed: '' @ selector, message e])
              (throw (Error (''Failed to get text from '' @ selector @ '': '' @ message e)))))"

definition Selenium_executeScript ::
  "environment \<Rightarrow> string \<Rightarrow> jsval list \<Rightarrow> (jsval, selenium_driver) prog" where
  "Selenium_executeScript env script args =
     andThen Selenium_ensureStarted
    (try_catch
       (bind this (\<lambda>d. invoke env (driver d) ''executeScript'' (Str script # args)))
       (\<lambda>e. andThen (logger Err [''Execute script failed:'', message e])
              (throw (Error (''Failed to execute script: '' @ message e)))))"

text \<open>
  \<^verbatim>\<open>createScreenshotsDirectory\<close> and \<^verbatim>\<open>createVideosDirectory\<close> (the same code in
  both drivers, with \<^verbatim>\<open>createDirectories\<close> left at its default \<^verbatim>\<open>true\<close>): they
  return the resolved directory.
\<close>

definition createOutputDirectory ::
  "environment \<Rightarrow> string \<Rightarrow> string \<Rightarrow> string \<Rightarrow> string \<Rightarrow> string \<Rightarrow> (string, 's) prog" where
  "createOutputDirectory env created failed failure baseDirectory subDirectory =
     try_catch
       (let resolvedBaseDirectory = resolve_from_root (path env) baseDirectory;
            outPath = resolve (path env) resolvedBaseDirectory subDirectory
        in andThen (fs_mkdir env outPath)
          (andThen (logger Info [created @ outPath])
            (ret outPath)))
       (\<lambda>e. andThen (logger Err [failed, message e])
              (throw (Error (failure @ message e))))"

definition createScreenshotsDirectory :: "environment \<Rightarrow> string \<Rightarrow> string \<Rightarrow> (string, 's) prog" where
  "createScreenshotsDirectory env =
     createOutputDirectory env ''Screenshots output directory created: ''
       ''Screenshots directory creation failed:'' ''Failed to create screenshots directory: ''"

definition createVideosDirectory :: "environment \<Rightarrow> string \<Rightarrow> string \<Rightarrow> (string, 's) prog" where
  "createVideosDirectory env =
     createOutputDirectory env ''Videos output directory created: ''
       ''Video directory creation failed:'' ''Failed to create video directory: ''"

text \<open>
  The destination of a named screenshot (the same code in both drivers). The
  clock is read by \<^verbatim>\<open>_generateFilename\<close>, which uses it only with
  \<^verbatim>\<open>includeTimestamp\<close>.
\<close>

definition screenshot_path ::
  "environment \<Rightarrow> string \<Rightarrow> bool \<Rightarrow> string \<Rightarrow> (string, 's) prog" where
  "screenshot_path env filename includeTimestamp screenshotsPath =
     bind (new_Date env) (\<lambda>now.
       let finalFilename = generateFilename (path env) now filename includeTimestamp;
           filepath = join (path env) screenshotsPath finalFilename;
           ext = extname (path env) filepath
       in ret (if ext \<noteq> [] then filepath else filepath @ ''.png''))"

definition Selenium_takeScreenshot ::
  "environment \<Rightarrow> string option \<Rightarrow> bool \<Rightarrow> string option \<Rightarrow> string option
    \<Rightarrow> (jsval, selenium_driver) prog" where
  "Selenium_takeScreenshot env filename includeTimestamp baseDirectory screenshotsDir =
     andThen Selenium_ensureStarted
    (try_catch
       (bind this (\<lambda>d.
        bind (invoke env (driver d) ''takeScreenshot'' []) (\<lambda>screenshot.
          if str_or filename [] \<noteq> [] then
            bind (createScreenshotsDirectory env
                    (str_or baseDirectory (outputDirectoryBasePath d))
                    (str_or screenshotsDir (screenshotsDirectory d))) (\<lambda>screenshotsPath.
            bind (screenshot_path env (str_or filename []) includeTimestamp screenshotsPath)
              (\<lambda>finalPath.
            andThen (invoke env (Module ''fs'') ''writeFile''
                       [Str finalPath, screenshot, Str ''base64''])
           (andThen (logger Info [''Screenshot saved: '' @ finalPath])
             (ret (Str finalPath)))))
          else ret screenshot)))
       (\<lambda>e. andThen (logger Err [''Screenshot failed:'', message e])
              (throw (Error (''Failed to take screenshot: '' @ message e)))))"

definition Selenium_startVideoRecording ::
  "environment \<Rightarrow> string option \<Rightarrow> string option \<Rightarrow> (jsval, selenium_driver) prog" where
  "Selenium_startVideoRecording env baseDirectory videosDir =
     bind this (\<lambda>d.
     andThen (createVideosDirectory env
                (str_or baseDirectory (outputDirectoryBasePath d))
                (str_or videosDir (videosDirectory d)))
       (throw (Error ''Video recording not yet implemented. Use startVideoRecording() when this feature is added.'')))"

definition Selenium_stopVideoRecording :: "(jsval, selenium_driver) prog" where
  "Selenium_stopVideoRecording =
     throw (Error ''Video recording not yet implemented. Use stopVideoRecording() when this feature is added.'')"

section \<open>The browser-specific WebDriver subclasses\<close>

text \<open>
  \<^verbatim>\<open>ChromeSeleniumDriver\<close>, \<^verbatim>\<open>EdgeSeleniumDriver\<close> and \<^verbatim>\<open>FirefoxSeleniumDriver\<close>
  override \<^verbatim>\<open>start()\<close>: they first write their defaults, merged with what is
  already there, into \<^verbatim>\<open>this.options\<close>, call the base \<^verbatim>\<open>start()\<close>, and then
  tune the page when the driver is started. \<^verbatim>\<open>this.logger\<close> is never set, so
  the \<^verbatim>\<open>catch\<close> of the tuning step logs nothing.
\<close>

definition chrome_specific_defaults :: "(string \<times> jsval) list" where
  "chrome_specific_defaults =
     [(''disableExtensions'', Bool True), (''disablePlugins'', Bool True),
      (''disableBackgroundTimer'', Bool True), (''disableRendererBackgrounding'', Bool True),
      (''disableBackgroundNetworking'', Bool True)]"

definition browser_specific_defaults :: "(string \<times> jsval) list" where
  "browser_specific_defaults = [(''disableExtensions'', Bool True), (''enableLogging'', Bool False)]"

definition spread_over :: "(string \<times> jsval) list \<Rightarrow> (string \<times> jsval) list option \<Rightarrow> (string \<times> jsval) list" where
  "spread_over defaults existing =
     (case existing of None \<Rightarrow> defaults | Some kvs \<Rightarrow> obj_merge defaults kvs)"

text \<open>
  The two style-injecting scripts are passed to the engine as they are; only
  their identity matters here.
\<close>

definition chrome_animation_script :: string where
  "chrome_animation_script = ''<style: no animation, no transition, no delays>''"

definition animation_script :: string where
  "animation_script = ''<style: no animation, no transition>''"

definition set_window_rect :: "environment \<Rightarrow> (jsval, selenium_driver) prog" where
  "set_window_rect env =
     bind this (\<lambda>d.
       if \<not> headless (options d) then
         invoke env (driver d) ''manage().window().setRect''
           [Obj [(''width'', Num (windowSize_width (options d))),
                 (''height'', Num (windowSize_height (options d))),
                 (''x'', Num 0), (''y'', Num 0)]]
       else ret Undefined)"

definition configureChromePerformance :: "environment \<Rightarrow> (jsval, selenium_driver) prog" where
  "configureChromePerformance env =
     try_catch
       (andThen (Selenium_executeScript env chrome_animation_script []) (set_window_rect env))
       (\<lambda>e. ret Undefined)"

definition configureEdgePerformance :: "environment \<Rightarrow> (jsval, selenium_driver) prog" where
  "configureEdgePerformance env =
     try_catch
       (andThen (Selenium_executeScript env animation_script []) (set_window_rect env))
       (\<lambda>e. ret Undefined)"

definition configureFirefoxPerformance :: "environment \<Rightarrow> (jsval, selenium_driver) prog" where
  "configureFirefoxPerformance env =
     try_catch (Selenium_executeScript env animation_script []) (\<lambda>e. ret Undefined)"

text \<open>
  What the page tuning adds to the trace \<open>tr\<close> on a driver whose \<open>isStarted\<close> is
  set, read off the engine's answers: nothing when the driver holds no
  session; otherwise the \<^verbatim>\<open>executeScript\<close> call, followed by the error log when
  it throws, and by the window resize (Chrome and Edge only) when it returns
  and the driver is not headless.
\<close>

definition retuning_steps ::
  "environment \<Rightarrow> selenium_driver \<Rightarrow> string \<Rightarrow> bool \<Rightarrow> effect list \<Rightarrow> effect list" where
  "retuning_steps env d script resize tr =
     (if \<not> truthy (driver d) then []
      else
        (case respond env tr (driver d) ''executeScript'' [Str script] of
           Inl e \<Rightarrow>
             [Invoke (driver d) ''executeScript'' [Str script],
              Log Err [''Execute script failed:'', message e]]
         | Inr done \<Rightarrow>
             Invoke (driver d) ''executeScript'' [Str script]
             # (if resize \<and> \<not> headless (options d) then
                  [Invoke (driver d) ''manage().window().setRect''
                     [Obj [(''width'', Num (windowSize_width (options d))),
                           (''height'', Num (windowSize_height (options d))),
                           (''x'', Num 0), (''y'', Num 0)]]]
                else [])))"

definition ChromeSeleniumDriver_start :: "environment \<Rightarrow> (jsval, selenium_driver) prog" where
  "ChromeSeleniumDriver_start env =
     andThen
       (assign (\<lambda>s. s\<lparr>options := (options s)\<lparr>chromeSpecific :=
                  Some (spread_over chrome_specific_defaults (chromeSpecific (options s)))\<rparr>\<rparr>))
    (andThen (Selenium_start env)
    (bind this (\<lambda>d.
       if isStarted d then andThen (configureChromePerformance env) (ret Undefined)
       else ret Undefined)))"

definition EdgeSeleniumDriver_start :: "environment \<Rightarrow> (jsval, selenium_driver) prog" where
  "EdgeSeleniumDriver_start env =
     andThen
       (assign (\<lambda>s. s\<lparr>options := (options s)\<lparr>edgeSpecific :=
                  Some (spread_over browser_specific_defaults (edgeSpecific (options s)))\<rparr>\<rparr>))
    (andThen (Selenium_start env)
    (bind this (\<lambda>d.
       if isStarted d then andThen (configureEdgePerformance env) (ret Undefined)
       else ret Undefined)))"

definition FirefoxSeleniumDriver_start :: "environment \<Rightarrow> (jsval, selenium_driver) prog" where
  "FirefoxSeleniumDriver_start env =
     andThen
       (assign (\<lambda>s. s\<lparr>options := (options s)\<lparr>firefoxSpecific :=
                  Some (spread_over browser_specific_defaults (firefoxSpecific (options s)))\<rparr>\<rparr>))
    (andThen (Selenium_start env)
    (bind this (\<lambda>d.
       if isStarted d then andThen (configureFirefoxPerformance env) (ret Undefined)
       else ret Undefined)))"

section \<open>\<^verbatim>\<open>SeleniumUtils\<close>: waiting and retrying on a raw WebDriver session\<close>

text \<open>
  \<^verbatim>\<open>smartWaitForElement\<close> with the condition \<^verbatim>\<open>'clickable'\<close>, the only one
  \<^verbatim>\<open>safeClick\<close> passes: locate the element, then wait until it is enabled.
\<close>

definition smartWaitForClickable ::
  "environment \<Rightarrow> jsval \<Rightarrow> string \<Rightarrow> nat \<Rightarrow> (jsval, 's) prog" where
  "smartWaitForClickable env drv selector tmo =
     (let by = getSmartSelector selector
      in bind (invoke env drv ''wait'' [Str ''elementLocated'', Locator by, Num tmo])
           (\<lambda>clickableElement.
         andThen (invoke env drv ''wait'' [Str ''elementIsEnabled'', clickableElement, Num tmo])
           (ret clickableElement)))"

definition scroll_into_view_script :: string where
  "scroll_into_view_script = ''arguments[0].scrollIntoView({block: \"center\"});''"

text \<open>The body of the \<^verbatim>\<open>try\<close> block of one \<^verbatim>\<open>safeClick\<close> attempt.\<close>

definition click_attempt :: "environment \<Rightarrow> jsval \<Rightarrow> string \<Rightarrow> (bool, 's) prog" where
  "click_attempt env drv selector =
     bind (smartWaitForClickable env drv selector 5000) (\<lambda>element.
     andThen (invoke env drv ''executeScript'' [Str scroll_into_view_script, element])
    (andThen (wait_ms 500)
    (andThen (invoke env element ''click'' [])
    (andThen (logger Info [''Successfully clicked element: '' @ selector])
      (ret True)))))"

definition attempt_failed_message :: "nat \<Rightarrow> nat \<Rightarrow> string \<Rightarrow> error \<Rightarrow> string" where
  "attempt_failed_message attempt maxRetries selector e =
     ''Click attempt '' @ decimal attempt @ ''/'' @ decimal maxRetries @ '' failed for ''
     @ selector @ '': '' @ message e"

definition click_exhausted_error :: "string \<Rightarrow> nat \<Rightarrow> error" where
  "click_exhausted_error selector maxRetries =
     Error (''Failed to click '' @ selector @ '' after '' @ decimal maxRetries @ '' attempts'')"

text \<open>
  The loop \<^verbatim>\<open>for (let attempt = 1; attempt <= maxRetries; attempt++)\<close>, from the
  current value of \<^verbatim>\<open>attempt\<close>; falling out of the loop returns \<^verbatim>\<open>false\<close>. The
  retry count and the delay are natural numbers here: a negative, fractional
  or non-numeric count is outside this model.
\<close>

function safeClick_from ::
  "environment \<Rightarrow> jsval \<Rightarrow> string \<Rightarrow> nat \<Rightarrow> nat \<Rightarrow> nat \<Rightarrow> (bool, 's) prog" where
  "safeClick_from env drv selector maxRetries retryDelay attempt =
     (if attempt \<le> maxRetries then
        (\<lambda>st. case click_attempt env drv selector st of
           (Inr r, st') \<Rightarrow> (Inr r, st')
         | (Inl e, st') \<Rightarrow>
             (case logger Warn [attempt_failed_message attempt maxRetries selector e] st' of
                (_, st'') \<Rightarrow>
                  if attempt < maxRetries then
                    (case wait_ms retryDelay st'' of
                       (_, st3) \<Rightarrow>
                         safeClick_from env drv selector maxRetries retryDelay (Suc attempt) st3)
                  else throw (click_exhausted_error selector maxRetries) st''))
      else ret False)"
  by pat_completeness auto
termination
  by (relation "measure (\<lambda>(env, drv, selector, maxRetries, retryDelay, attempt).
        Suc maxRetries - attempt)") auto

declare safeClick_from.simps [simp del]

definition safeClick ::
  "environment \<Rightarrow> jsval \<Rightarrow> string \<Rightarrow> nat \<Rightarrow> nat \<Rightarrow> (bool, 's) prog" where
  "safeClick env drv selector maxRetries retryDelay =
     safeClick_from env drv selector maxRetries retryDelay 1"

text \<open>The defaults \<^verbatim>\<open>maxRetries = 3\<close> and \<^verbatim>\<open>retryDelay = 1000\<close>.\<close>

definition safeClick_default :: "environment \<Rightarrow> jsval \<Rightarrow> string \<Rightarrow> (bool, 's) prog" where
  "safeClick_default env drv selector = safeClick env drv selector 3 1000"

subsection \<open>An exhausted retry run, from the engine's answers alone\<close>

text \<open>
  The steps of one attempt in order: locate the element again, wait until it
  is enabled, scroll it to the centre of the viewport, let the scroll settle,
  click.
\<close>

definition attempt_steps :: "jsval \<Rightarrow> string \<Rightarrow> jsval \<Rightarrow> effect list" where
  "attempt_steps drv selector element =
     [Invoke drv ''wait'' [Str ''elementLocated'', Locator (getSmartSelector selector), Num 5000],
      Invoke drv ''wait'' [Str ''elementIsEnabled'', element, Num 5000],
      Invoke drv ''executeScript'' [Str scroll_into_view_script, element],
      Sleep 500,
      Invoke element ''click'' []]"

definition locate_call :: "jsval \<Rightarrow> string \<Rightarrow> effect" where
  "locate_call drv selector =
     Invoke drv ''wait'' [Str ''elementLocated'', Locator (getSmartSelector selector), Num 5000]"

text \<open>
  What the engine makes of an attempt that starts after the trace \<open>tr\<close>: the
  first of the four engine calls that throws ends the attempt, with the steps
  taken so far and the error; \<open>None\<close> when all four calls succeed. This is read
  off the environment, not off the driver code.
\<close>

definition attempt_failure ::
  "environment \<Rightarrow> jsval \<Rightarrow> string \<Rightarrow> effect list \<Rightarrow> (effect list \<times> error) option" where
  "attempt_failure env drv selector tr =
     (case respond env tr drv ''wait''
             [Str ''elementLocated'', Locator (getSmartSelector selector), Num 5000] of
        Inl e \<Rightarrow> Some ([locate_call drv selector], e)
      | Inr element \<Rightarrow>
          (let steps = attempt_steps drv selector element
           in case respond env (tr @ take 1 steps) drv ''wait''
                     [Str ''elementIsEnabled'', element, Num 5000] of
                Inl e \<Rightarrow> Some (take 2 steps, e)
              | Inr enabled \<Rightarrow>
                  (case respond env (tr @ take 2 steps) drv ''executeScript''
                          [Str scroll_into_view_script, element] of
                     Inl e \<Rightarrow> Some (take 3 steps, e)
                   | Inr scrolled \<Rightarrow>
                       (case respond env (tr @ take 4 steps) element ''click'' [] of
                          Inl e \<Rightarrow> Some (steps, e)
                        | Inr clicked \<Rightarrow> None))))"

text \<open>
  The element never becomes clickable: whatever happened before, the engine
  either does not locate it or, having located it, does not find it enabled.
\<close>

definition never_clickable :: "environment \<Rightarrow> jsval \<Rightarrow> string \<Rightarrow> bool" where
  "never_clickable env drv selector =
     (\<forall>tr. case respond env tr drv ''wait''
                  [Str ''elementLocated'', Locator (getSmartSelector selector), Num 5000] of
             Inl e \<Rightarrow> True
           | Inr element \<Rightarrow>
               isl (respond env (tr @ [locate_call drv selector]) drv ''wait''
                      [Str ''elementIsEnabled'', element, Num 5000]))"

text \<open>
  What a retry run with \<open>left\<close> attempts to go adds to the trace when each of
  them fails: the steps of the attempt, its warning, and the delay before the
  next attempt if there is one. The attempt in hand has the number
  \<open>maxRetries - left + 1\<close>.
\<close>

fun exhausted_steps ::
  "environment \<Rightarrow> jsval \<Rightarrow> string \<Rightarrow> nat \<Rightarrow> nat \<Rightarrow> nat \<Rightarrow> effect list \<Rightarrow> effect list" where
  "exhausted_steps env drv selector maxRetries retryDelay 0 tr = []"
| "exhausted_steps env drv selector maxRetries retryDelay (Suc left) tr =
     (case attempt_failure env drv selector tr of
        None \<Rightarrow> []
      | Some (steps, e) \<Rightarrow>
          (let failed = steps @ [Log Warn [attempt_failed_message (maxRetries - left) maxRetries
                                            selector e]]
           in if left = 0 then failed
              else failed @ [Sleep retryDelay]
                   @ exhausted_steps env drv selector maxRetries retryDelay left
                       (tr @ failed @ [Sleep retryDelay])))"

fun is_warning :: "effect \<Rightarrow> bool" where
  "is_warning (Log lv args) = (lv = Warn)"
| "is_warning _ = False"

fun is_sleep :: "effect \<Rightarrow> bool" where
  "is_sleep (Sleep ms) = True"
| "is_sleep _ = False"

fun is_scroll_or_click :: "effect \<Rightarrow> bool" where
  "is_scroll_or_click (Invoke recv meth args) = (meth = ''executeScript'' \<or> meth = ''click'')"
| "is_scroll_or_click _ = False"

section \<open>The DevTools-protocol driver (\<^verbatim>\<open>PlaywrightDriver\<close>)\<close>

definition Playwright_ensureStarted :: "(unit, playwright_driver) prog" where
  "Playwright_ensureStarted =
     bind this (\<lambda>d.
       if \<not> isStarted d \<or> \<not> truthy (page_handle d) then throw not_started_error else ret ())"

text \<open>The engine chosen by the \<^verbatim>\<open>switch\<close> on \<^verbatim>\<open>browser.toLowerCase()\<close>.\<close>

definition browserEngine :: "string \<Rightarrow> jsval option" where
  "browserEngine name =
     (let n = toLowerCase name
      in if n = ''chromium'' \<or> n = ''chrome'' then Some (Module ''chromium'')
         else if n = ''firefox'' then Some (Module ''firefox'')
         else if n = ''webkit'' \<or> n = ''safari'' then Some (Module ''webkit'')
         else None)"

text \<open>
  \<^verbatim>\<open>process.env.AWS_LAMBDA_FUNCTION_NAME || process.env.AWS_EXECUTION_ENV\<close>: set
  and non-empty.
\<close>

definition env_set :: "environment \<Rightarrow> string \<Rightarrow> bool" where
  "env_set env name = (case process_env env name of None \<Rightarrow> False | Some v \<Rightarrow> v \<noteq> [])"

definition isLambda :: "environment \<Rightarrow> bool" where
  "isLambda env = (env_set env ''AWS_LAMBDA_FUNCTION_NAME'' \<or> env_set env ''AWS_EXECUTION_ENV'')"

text \<open>Reading a property, and spreading a value into an array literal.\<close>

definition get_prop :: "jsval \<Rightarrow> string \<Rightarrow> (jsval, 's) prog" where
  "get_prop v k =
     (case v of
        Obj kvs \<Rightarrow> ret (case map_of kvs k of Some x \<Rightarrow> x | None \<Rightarrow> Undefined)
      | Undefined \<Rightarrow> throw (Error (''Cannot read properties of undefined (reading '' @ k @ '')''))
      | Null \<Rightarrow> throw (Error (''Cannot read properties of null (reading '' @ k @ '')''))
      | _ \<Rightarrow> ret Undefined)"

definition spread_array :: "jsval \<Rightarrow> (jsval list, 's) prog" where
  "spread_array v =
     (case v of
        Arr xs \<Rightarrow> ret xs
      | Str s \<Rightarrow> ret (map (\<lambda>c. Str [c]) s)
      | _ \<Rightarrow> throw (Error ''Spread syntax requires ...iterable[Symbol.iterator] to be a function''))"

definition lambda_unavailable_error :: error where
  "lambda_unavailable_error =
     Error ''Lambda environment detected but serverless Chromium not available. Install @sparticuz/chromium package.''"

definition is_chromium_option :: "string \<Rightarrow> bool" where
  "is_chromium_option b = (b = ''chromium'' \<or> b = ''chrome'')"

text \<open>
  The environment-dependent part of \<^verbatim>\<open>start()\<close>: the executable path to put
  into the launch options (if any) and the launch arguments so far.
\<close>

definition acquire_executable ::
  "environment \<Rightarrow> string \<Rightarrow> (jsval option \<times> jsval list, 's) prog" where
  "acquire_executable env browser_option =
     (if isLambda env then
        try_catch
          (bind (invoke env (Module ''require'') ''require'' [Str ''@sparticuz/chromium''])
             (\<lambda>chromium.
           bind (invoke env chromium ''executablePath'' []) (\<lambda>exe.
           bind (get_prop chromium ''args'') (\<lambda>chromium_args.
           bind (spread_array chromium_args) (\<lambda>extra.
           andThen (logger Info [''Using serverless Chromium for AWS Lambda environment''])
             (ret (Some exe, extra)))))))
          (\<lambda>e. andThen (logger Warn [''Serverless Chromium not available in Lambda: ''
                                      @ message e])
                 (throw lambda_unavailable_error))
      else
        (case process_env env ''PLAYWRIGHT_CHROMIUM_EXECUTABLE_PATH'' of
           Some executablePath \<Rightarrow>
             if executablePath \<noteq> [] \<and> is_chromium_option browser_option then
               andThen (logger Info [''Using custom Chromium executable: '' @ executablePath])
                 (ret (Some (Str executablePath), []))
             else andThen (logger Info [''Using default Playwright browser installation''])
                    (ret (None, []))
         | None \<Rightarrow>
             andThen (logger Info [''Using default Playwright browser installation''])
               (ret (None, []))))"

text \<open>
  The serverless Chromium cannot be acquired, seen from the environment: after
  the trace \<open>tr\<close>, loading the package throws, or asking it for the executable
  path throws, or its \<^verbatim>\<open>args\<close> cannot be spread into the launch arguments.
\<close>

definition spreadable_args :: "jsval \<Rightarrow> bool" where
  "spreadable_args chromium =
     (case chromium of
        Obj kvs \<Rightarrow>
          (case map_of kvs ''args'' of
             Some (Arr xs) \<Rightarrow> True
           | Some (Str s) \<Rightarrow> True
           | _ \<Rightarrow> False)
      | _ \<Rightarrow> False)"

definition serverless_chromium_unavailable :: "environment \<Rightarrow> effect list \<Rightarrow> bool" where
  "serverless_chromium_unavailable env tr =
     (case respond env tr (Module ''require'') ''require'' [Str ''@sparticuz/chromium''] of
        Inl e \<Rightarrow> True
      | Inr chromium \<Rightarrow>
          (case respond env
                  (tr @ [Invoke (Module ''require'') ''require'' [Str ''@sparticuz/chromium'']])
                  chromium ''executablePath'' [] of
             Inl e \<Rightarrow> True
           | Inr exe \<Rightarrow> \<not> spreadable_args chromium))"

definition chromium_flags :: "jsval list" where
  "chromium_flags =
     map Str [''--no-sandbox'', ''--disable-dev-shm-usage'', ''--disable-gpu'',
              ''--disable-web-security'', ''--allow-running-insecure-content'']"

definition launch_options :: "playwright_options \<Rightarrow> jsval option \<Rightarrow> jsval list \<Rightarrow> jsval" where
  "launch_options opts exe args =
     Obj ([(''headless'', Bool (headless opts)), (''slowMo'', Num (slowMo opts)),
           (''args'', Arr (args @ (if is_chromium_option (browser opts) then chromium_flags else [])))]
          @ (case exe of None \<Rightarrow> [] | Some p \<Rightarrow> [(''executablePath'', p)]))"

definition is_whitespace :: "char \<Rightarrow> bool" where
  "is_whitespace c = (c \<in> set [CHR '' '', CHR 0x09, CHR 0x0A, CHR 0x0B, CHR 0x0C, CHR 0x0D])"

text \<open>\<^verbatim>\<open>typeof userAgent === 'string' && userAgent.trim()\<close>.\<close>

definition user_agent_entry :: "playwright_options \<Rightarrow> (string \<times> jsval) list" where
  "user_agent_entry opts =
     (case userAgent opts of
        None \<Rightarrow> []
      | Some ua \<Rightarrow> if list_ex (\<lambda>c. \<not> is_whitespace c) ua then [(''userAgent'', Str ua)] else [])"

definition context_options :: "playwright_driver \<Rightarrow> string option \<Rightarrow> jsval" where
  "context_options d videoDir =
     (let opts = options d;
          size = Obj [(''width'', Num (windowSize_width opts)),
                      (''height'', Num (windowSize_height opts))]
      in Obj ([(''viewport'', size), (''ignoreHTTPSErrors'', Bool (acceptInsecureCerts opts))]
              @ user_agent_entry opts
              @ (case videoDir of
                   None \<Rightarrow> []
                 | Some dir \<Rightarrow> [(''recordVideo'', Obj [(''dir'', Str dir), (''size'', size)])])
              @ (if downloadsPath opts \<noteq> [] then
                   [(''acceptDownloads'', Bool True),
                    (''downloadsPath'', Str (downloadDirectoryBasePath d))]
                 else [])))"

text \<open>The rest of \<^verbatim>\<open>start()\<close> once \<^verbatim>\<open>browserEngine.launch\<close> has returned the browser.\<close>

definition Playwright_after_launch ::
  "environment \<Rightarrow> playwright_driver \<Rightarrow> jsval \<Rightarrow> (jsval, playwright_driver) prog" where
  "Playwright_after_launch env d b =
     andThen (assign (\<lambda>s. s\<lparr>browser_handle := b\<rparr>))
    (bind (if recordVideo (options d) then
             bind (createVideosDirectory env (outputDirectoryBasePath d) (videosDirectory d))
               (\<lambda>dir. ret (Some dir))
           else ret None) (\<lambda>videoDir.
     andThen (if downloadsPath (options d) \<noteq> [] then
                andThen (fs_mkdir env (downloadDirectoryBasePath d))
                  (logger Info [''Download directory set to: '' @ downloadDirectoryBasePath d])
              else ret ())
    (bind (invoke env b ''newContext'' [context_options d videoDir]) (\<lambda>c.
     andThen (assign (\<lambda>s. s\<lparr>context_handle := c\<rparr>))
    (andThen (invoke env c ''setDefaultTimeout'' [Num (timeout (options d))])
    (andThen (invoke env c ''setDefaultNavigationTimeout'' [Num (navigationTimeout (options d))])
    (bind (invoke env c ''newPage'' []) (\<lambda>p.
     andThen (assign (\<lambda>s. s\<lparr>page_handle := p\<rparr>))
    (andThen (if disableImages (options d) then
                invoke env p ''route'' [Str ''**/*'', Str ''abort images'']
              else ret Undefined)
    (andThen (if disableJavaScript (options d) then
                invoke env c ''addInitScript'' [Str ''window.addEventListener = () => {};'']
              else ret Undefined)
    (andThen (assign (\<lambda>s. s\<lparr>isStarted := True\<rparr>))
    (andThen (logger Info [''Browser driver started successfully''])
      (ret Undefined)))))))))))))"

definition Playwright_start_body :: "environment \<Rightarrow> (jsval, playwright_driver) prog" where
  "Playwright_start_body env =
     bind this (\<lambda>d.
       case browserEngine (browser (options d)) of
         None \<Rightarrow> throw (Error (''Unsupported browser: '' @ browser (options d)))
       | Some engine \<Rightarrow>
           bind (acquire_executable env (browser (options d))) (\<lambda>(exe, args).
           bind (invoke env engine ''launch'' [launch_options (options d) exe args])
             (Playwright_after_launch env d)))"

definition Playwright_start :: "environment \<Rightarrow> (jsval, playwright_driver) prog" where
  "Playwright_start env =
     bind this (\<lambda>d.
       if isStarted d then andThen (logger Warn [''Driver already started'']) (ret Undefined)
       else
         andThen (logger Info [starting_text (options d)])
           (try_catch (Playwright_start_body env) startup_handler))"

definition Playwright_quit :: "environment \<Rightarrow> (jsval, playwright_driver) prog" where
  "Playwright_quit env =
     bind this (\<lambda>d.
       if \<not> isStarted d then
         andThen (logger Warn [''Driver not started or already quit'']) (ret Undefined)
       else
         try_catch
           (andThen (if truthy (page_handle d) then
                       andThen (invoke env (page_handle d) ''close'' [])
                         (assign (\<lambda>s. s\<lparr>page_handle := Null\<rparr>))
                     else ret ())
           (andThen (if truthy (context_handle d) then
                       andThen (invoke env (context_handle d) ''close'' [])
                         (assign (\<lambda>s. s\<lparr>context_handle := Null\<rparr>))
                     else ret ())
           (andThen (if truthy (browser_handle d) then
                       andThen (invoke env (browser_handle d) ''close'' [])
                         (assign (\<lambda>s. s\<lparr>browser_handle := Null\<rparr>))
                     else ret ())
           (andThen (assign (\<lambda>s. s\<lparr>isStarted := False, currentUrl := Null\<rparr>))
           (andThen (logger Info [''Browser driver quit successfully''])
             (ret Undefined))))))
           (\<lambda>e. andThen (logger Err [''Error quitting driver:'', message e]) (throw e)))"

definition timeout_option :: "playwright_driver \<Rightarrow> nat option \<Rightarrow> (string \<times> jsval)" where
  "timeout_option d tmo = (''timeout'', Num (or_default tmo (timeout (options d))))"

definition Playwright_navigateTo :: "environment \<Rightarrow> string \<Rightarrow> (jsval, playwright_driver) prog" where
  "Playwright_navigateTo env url =
     andThen Playwright_ensureStarted
    (andThen (logger Info [''Navigating to: '' @ url])
    (try_catch
       (bind this (\<lambda>d.
        bind (invoke env (page_handle d) ''goto''
                [Str url, Obj [(''waitUntil'', Str ''domcontentloaded''),
                               (''timeout'', Num (navigationTimeout (options d)))]]) (\<lambda>response.
        andThen (assign (\<lambda>s. s\<lparr>currentUrl := Str url\<rparr>))
       (andThen (logger Info [''Navigation completed successfully''])
       (bind (invoke env (page_handle d) ''url'' []) (\<lambda>u.
        bind (invoke env (page_handle d) ''title'' []) (\<lambda>t.
        bind (invoke env response ''ok'' []) (\<lambda>ok.
        bind (invoke env response ''status'' []) (\<lambda>status.
        ret (Obj [(''url'', u), (''title'', t), (''success'', ok), (''status'', status)]))))))))))
       (\<lambda>e. andThen (logger Err [''Navigation failed: '' @ message e])
              (throw (Error (''Failed to navigate to '' @ url @ '': '' @ message e))))))"

definition Playwright_findElement ::
  "environment \<Rightarrow> string \<Rightarrow> nat option \<Rightarrow> (jsval, playwright_driver) prog" where
  "Playwright_findElement env selector tmo =
     andThen Playwright_ensureStarted
    (try_catch
       (bind this (\<lambda>d.
        bind (invoke env (page_handle d) ''waitForSelector''
                [Str selector, Obj [timeout_option d tmo, (''state'', Str ''attached'')]])
          (\<lambda>element.
            if \<not> truthy element then throw (Error (''Element not found: '' @ selector))
            else ret element)))
       (\<lambda>e. andThen (logger Err [''Element not found: '' @ selector, message e])
              (throw (Error (''Element not found: '' @ selector)))))"

definition Playwright_findElements :: "environment \<Rightarrow> string \<Rightarrow> (jsval, playwright_driver) prog" where
  "Playwright_findElements env selector =
     andThen Playwright_ensureStarted
    (try_catch
       (bind this (\<lambda>d. invoke env (page_handle d) ''locator().all'' [Str selector]))
       (\<lambda>e. andThen (logger Err [''Elements not found: '' @ selector, message e])
              (ret (Arr []))))"

definition Playwright_click ::
  "environment \<Rightarrow> string \<Rightarrow> nat option \<Rightarrow> (jsval, playwright_driver) prog" where
  "Playwright_click env selector tmo =
     andThen Playwright_ensureStarted
    (try_catch
       (bind this (\<lambda>d.
        andThen (invoke env (page_handle d) ''click'' [Str selector, Obj [timeout_option d tmo]])
       (andThen (logger Info [''Clicked element: '' @ selector])
         (ret (Obj [(''success'', Bool True), (''selector'', Str selector)])))))
       (\<lambda>e. andThen (logger Err [''Click failed: '' @ selector, message e])
              (throw (Error (''Failed to click '' @ selector @ '': '' @ message e)))))"

definition Playwright_sendKeys ::
  "environment \<Rightarrow> string \<Rightarrow> string \<Rightarrow> nat option \<Rightarrow> (jsval, playwright_driver) prog" where
  "Playwright_sendKeys env selector text tmo =
     andThen Playwright_ensureStarted
    (try_catch
       (bind this (\<lambda>d.
        andThen (invoke env (page_handle d) ''fill''
                   [Str selector, Str text, Obj [timeout_option d tmo]])
       (andThen (logger Info [''Sent keys to element: '' @ selector])
         (ret (Obj [(''success'', Bool True), (''selector'', Str selector),
                    (''text'', Str text)])))))
       (\<lambda>e. andThen (logger Err [''Send keys failed: '' @ selector, message e])
              (throw (Error (''Failed to send keys to '' @ selector @ '': '' @ message e)))))"

definition Playwright_clearText ::
  "environment \<Rightarrow> string \<Rightarrow> nat option \<Rightarrow> (jsval, playwright_driver) prog" where
  "Playwright_clearText env selector tmo =
     andThen Playwright_ensureStarted
    (try_catch
       (bind this (\<lambda>d.
        andThen (invoke env (page_handle d) ''fill''
                   [Str selector, Str [], Obj [timeout_option d tmo]])
       (andThen (logger Info [''Cleared text from element: '' @ selector])
         (ret (Obj [(''success'', Bool True), (''selector'', Str selector)])))))
       (\<lambda>e. andThen (logger Err [''Clear text failed: '' @ selector, message e])
              (throw (Error (''Failed to clear text from '' @ selector @ '': '' @ message e)))))"

definition Playwright_getText ::
  "environment \<Rightarrow> string \<Rightarrow> nat option \<Rightarrow> (jsval, playwright_driver) prog" where
  "Playwright_getText env selector tmo =
     andThen Playwright_ensureStarted
    (try_catch
       (bind this (\<lambda>d.
        bind (invoke env (page_handle d) ''textContent'' [Str selector, Obj [timeout_option d tmo]])
          (\<lambda>text. ret (if truthy text then text else Str []))))
       (\<lambda>e. andThen (logger Err [''Get text failed: '' @ selector, message e])
              (throw (Error (''Failed to get text from '' @ selector @ '': '' @ message e)))))"

definition Playwright_executeScript ::
  "environment \<Rightarrow> string \<Rightarrow> jsval list \<Rightarrow> (jsval, playwright_driver) prog" where
  "Playwright_executeScript env script args =
     andThen Playwright_ensureStarted
    (try_catch
       (bind this (\<lambda>d. invoke env (page_handle d) ''evaluate'' (Str script # args)))
       (\<lambda>e. andThen (logger Err [''Execute script failed:'', message e])
              (throw (Error (''Failed to execute script: '' @ message e)))))"

definition Playwright_takeScreenshot ::
  "environment \<Rightarrow> string option \<Rightarrow> bool \<Rightarrow> string option \<Rightarrow> string option
    \<Rightarrow> (jsval, playwright_driver) prog" where
  "Playwright_takeScreenshot env filename includeTimestamp baseDirectory screenshotsDir =
     andThen Playwright_ensureStarted
    (try_catch
       (bind this (\<lambda>d.
          if str_or filename [] \<noteq> [] then
            bind (createScreenshotsDirectory env
                    (str_or baseDirectory (outputDirectoryBasePath d))
                    (str_or screenshotsDir (screenshotsDirectory d))) (\<lambda>screenshotsPath.
            bind (screenshot_path env (str_or filename []) includeTimestamp screenshotsPath)
              (\<lambda>finalPath.
            andThen (invoke env (page_handle d) ''screenshot''
                       [Obj [(''path'', Str finalPath), (''fullPage'', Bool True)]])
           (andThen (logger Info [''Screenshot saved: '' @ finalPath])
             (ret (Str finalPath)))))
          else invoke env (page_handle d) ''screenshot'' [Obj [(''fullPage'', Bool True)]]))
       (\<lambda>e. andThen (logger Err [''Screenshot failed:'', message e])
              (throw (Error (''Failed to take screenshot: '' @ message e)))))"

definition Playwright_startVideoRecording :: "(jsval, playwright_driver) prog" where
  "Playwright_startVideoRecording =
     andThen Playwright_ensureStarted
    (andThen (logger Warn [''Video recording should be enabled at browser start. Use recordVideo: true in options and restart browser.''])
    (bind this (\<lambda>d.
       if \<not> recordVideo (options d) then
         throw (Error ''Video recording not enabled. Set recordVideo: true in options and restart browser.'')
       else
         andThen (logger Info [''Video recording is active (managed by Playwright context)''])
           (ret (Obj [(''success'', Bool True), (''message'', Str ''Video recording active'')])))))"

definition Playwright_stopVideoRecording :: "environment \<Rightarrow> (jsval, playwright_driver) prog" where
  "Playwright_stopVideoRecording env =
     andThen Playwright_ensureStarted
    (bind this (\<lambda>d.
       if \<not> recordVideo (options d) then throw (Error ''Video recording not enabled'')
       else
         try_catch
           (bind (invoke env (page_handle d) ''video().path'' []) (\<lambda>videoPath.
            andThen (logger Info [''Video recording saved: '' @ text_of videoPath])
              (ret videoPath)))
           (\<lambda>e. andThen (logger Err [''Failed to get video path:'', message e])
                  (throw (Error (''Failed to stop video recording: '' @ message e))))))"

section \<open>Sequences of driver operations\<close>

text \<open>
  The calls a client can make on a driver, with their arguments. \<open>Start\<close> and
  \<open>Quit\<close> are the lifecycle operations; all others are interaction operations.
\<close>

datatype operation =
    Start
  | Quit
  | NavigateTo string
  | FindElement string "nat option"
  | FindElements string
  | Click string "nat option"
  | SendKeys string string "nat option"
  | ClearText string "nat option"
  | GetText string "nat option"
  | ExecuteScript string "jsval list"
  | TakeScreenshot "string option" bool "string option" "string option"
  | StartVideoRecording "string option" "string option"
  | StopVideoRecording

fun is_lifecycle :: "operation \<Rightarrow> bool" where
  "is_lifecycle Start = True"
| "is_lifecycle Quit = True"
| "is_lifecycle _ = False"

fun is_video :: "operation \<Rightarrow> bool" where
  "is_video (StartVideoRecording b v) = True"
| "is_video StopVideoRecording = True"
| "is_video _ = False"

fun Selenium_perform :: "environment \<Rightarrow> operation \<Rightarrow> (jsval, selenium_driver) prog" where
  "Selenium_perform env Start = Selenium_start env"
| "Selenium_perform env Quit = Selenium_quit env"
| "Selenium_perform env (NavigateTo url) = Selenium_navigateTo env url"
| "Selenium_perform env (FindElement sel t) = Selenium_findElement env sel t"
| "Selenium_perform env (FindElements sel) = Selenium_findElements env sel"
| "Selenium_perform env (Click sel t) = Selenium_click env sel t"
| "Selenium_perform env (SendKeys sel text t) = Selenium_sendKeys env sel text t"
| "Selenium_perform env (ClearText sel t) = Selenium_clearText env sel t"
| "Selenium_perform env (GetText sel t) = Selenium_getText env sel t"
| "Selenium_perform env (ExecuteScript script args) = Selenium_executeScript env script args"
| "Selenium_perform env (TakeScreenshot f ts b s) = Selenium_takeScreenshot env f ts b s"
| "Selenium_perform env (StartVideoRecording b v) = Selenium_startVideoRecording env b v"
| "Selenium_perform env StopVideoRecording = Selenium_stopVideoRecording"

fun Playwright_perform :: "environment \<Rightarrow> operation \<Rightarrow> (jsval, playwright_driver) prog" where
  "Playwright_perform env Start = Playwright_start env"
| "Playwright_perform env Quit = Playwright_quit env"
| "Playwright_perform env (NavigateTo url) = Playwright_navigateTo env url"
| "Playwright_perform env (FindElement sel t) = Playwright_findElement env sel t"
| "Playwright_perform env (FindElements sel) = Playwright_findElements env sel"
| "Playwright_perform env (Click sel t) = Playwright_click env sel t"
| "Playwright_perform env (SendKeys sel text t) = Playwright_sendKeys env sel text t"
| "Playwright_perform env (ClearText sel t) = Playwright_clearText env sel t"
| "Playwright_perform env (GetText sel t) = Playwright_getText env sel t"
| "Playwright_perform env (ExecuteScript script args) = Playwright_executeScript env script args"
| "Playwright_perform env (TakeScreenshot f ts b s) = Playwright_takeScreenshot env f ts b s"
| "Playwright_perform env (StartVideoRecording b v) = Playwright_startVideoRecording"
| "Playwright_perform env StopVideoRecording = Playwright_stopVideoRecording env"

text \<open>
  A client running operations one after the other, going on after an
  operation that threw (it caught the error).
\<close>

fun run_all :: "(operation \<Rightarrow> (jsval, 's) prog) \<Rightarrow> operation list \<Rightarrow> 's \<times> effect list \<Rightarrow> 's \<times> effect list" where
  "run_all perform [] st = st"
| "run_all perform (op # ops) st = run_all perform ops (snd (perform op st))"

text \<open>How many engine sessions a trace opens (\<^verbatim>\<open>build\<close> or \<^verbatim>\<open>launch\<close> calls).\<close>

fun opens_session :: "effect \<Rightarrow> bool" where
  "opens_session (Invoke recv meth args) = (meth = ''build'' \<or> meth = ''launch'')"
| "opens_session _ = False"

definition sessions_opened :: "effect list \<Rightarrow> nat" where
  "sessions_opened tr = length (filter opens_session tr)"

section \<open>Sample environments and drivers\<close>

text \<open>
  An environment where every external call succeeds: calls that open a
  session, a context or a page return an object, all others \<^verbatim>\<open>undefined\<close>.
\<close>

definition obliging_respond :: "effect list \<Rightarrow> jsval \<Rightarrow> string \<Rightarrow> jsval list \<Rightarrow> error + jsval" where
  "obliging_respond tr recv meth args =
     (if meth \<in> set [''build'', ''launch'', ''newContext'', ''newPage'', ''wait'']
      then Inr (Ref (length tr)) else Inr Undefined)"

definition local_env :: "(string \<Rightarrow> string option) \<Rightarrow> environment" where
  "local_env vars =
     \<lparr> respond = obliging_respond, clock = (\<lambda>tr. capture_time 45 123), path = posix_path,
       process_env = vars \<rparr>"

text \<open>An environment where every external call throws.\<close>

definition failing_env :: "(string \<Rightarrow> string option) \<Rightarrow> environment" where
  "failing_env vars =
     \<lparr> respond = (\<lambda>tr recv meth args. Inl (Error (meth @ '' failed''))),
       clock = (\<lambda>tr. capture_time 45 123), path = posix_path, process_env = vars \<rparr>"

text \<open>
  An environment where the element is located but never enabled, one where the
  element is located, enabled and scrolled to but every click on it throws,
  and one where the serverless package loads but has no executable.
\<close>

definition disabled_env :: environment where
  "disabled_env =
     \<lparr> respond = (\<lambda>tr recv meth args.
         if meth = ''wait'' \<and> take 1 args = [Str ''elementLocated''] then Inr (Ref 7)
         else Inl (Error ''element not interactable'')),
       clock = (\<lambda>tr. capture_time 45 123), path = posix_path, process_env = (\<lambda>name. None) \<rparr>"

definition intercepted_env :: environment where
  "intercepted_env =
     \<lparr> respond = (\<lambda>tr recv meth args.
         if meth = ''wait'' then Inr (Ref 7)
         else if meth = ''click'' then Inl (Error ''element click intercepted'')
         else Inr Undefined),
       clock = (\<lambda>tr. capture_time 45 123), path = posix_path, process_env = (\<lambda>name. None) \<rparr>"

definition no_executable_env :: "(string \<Rightarrow> string option) \<Rightarrow> environment" where
  "no_executable_env vars =
     \<lparr> respond = (\<lambda>tr recv meth args.
         if meth = ''require'' then Inr (Obj [(''args'', Arr [Str ''--single-process''])])
         else if meth = ''executablePath'' then Inl (Error ''no chromium binary'')
         else if meth \<in> set [''launch'', ''newContext'', ''newPage''] then Inr (Ref (length tr))
         else Inr Undefined),
       clock = (\<lambda>tr. capture_time 45 123), path = posix_path, process_env = vars \<rparr>"

definition no_vars :: "string \<Rightarrow> string option" where
  "no_vars = (\<lambda>name. None)"

definition lambda_vars :: "string \<Rightarrow> string option" where
  "lambda_vars = (\<lambda>name. if name = ''AWS_LAMBDA_FUNCTION_NAME'' then Some ''extract'' else None)"

definition chromium_path_vars :: "string \<Rightarrow> string option" where
  "chromium_path_vars =
     (\<lambda>name. if name = ''PLAYWRIGHT_CHROMIUM_EXECUTABLE_PATH'' then Some ''/usr/bin/chromium''
              else None)"

definition fresh_selenium :: selenium_driver where
  "fresh_selenium = BaseSeleniumDriver posix_path selenium_defaults"

definition fresh_playwright :: playwright_driver where
  "fresh_playwright = PlaywrightDriver posix_path playwright_defaults"

definition firefox_playwright :: playwright_driver where
  "firefox_playwright = PlaywrightDriver posix_path (playwright_defaults\<lparr>browser := ''firefox''\<rparr>)"

definition started_selenium :: selenium_driver where
  "started_selenium = fresh_selenium\<lparr>isStarted := True, driver := Ref 1\<rparr>"

text \<open>
  A \<^verbatim>\<open>ChromeSeleniumDriver\<close> after its first \<^verbatim>\<open>start()\<close> in \<open>local_env\<close>: the
  subclass defaults are in the options and the session is the object the
  builder returned.
\<close>

definition started_chrome :: selenium_driver where
  "started_chrome =
     fresh_selenium\<lparr>options := selenium_defaults\<lparr>chromeSpecific := Some chrome_specific_defaults\<rparr>,
                    isStarted := True, driver := Ref 3\<rparr>"

definition started_playwright :: playwright_driver where
  "started_playwright =
     fresh_playwright\<lparr>isStarted := True, browser_handle := Ref 1, context_handle := Ref 2,
       page_handle := Ref 3\<rparr>"

section \<open>Invariants of a run\<close>

text \<open>
  \<open>stable P m\<close>: a property of the object's state and the trace that holds before
  \<open>m\<close> runs still holds after it, whether \<open>m\<close> returns or throws.
\<close>

definition stable :: "('s \<times> effect list \<Rightarrow> bool) \<Rightarrow> ('a, 's) prog \<Rightarrow> bool" where
  "stable P m = (\<forall>st. P st \<longrightarrow> P (snd (m st)))"

section \<open>Facts about the string primitives\<close>

lemma str_includes_char: "str_includes s [c] \<longleftrightarrow> c \<in> set s"
  unfolding str_includes_def sublist_def
  by (metis append_Cons append_Nil in_set_conv_decomp)

lemma startsWith_iff: "startsWith s p \<longleftrightarrow> (\<exists>r. s = p @ r)"
  by (auto simp: startsWith_def prefix_def)

lemma split_from_nonempty: "split_from c acc s \<noteq> []"
  by (induction s arbitrary: acc) auto

lemma split_from_hd: "hd (split_from c acc s) = rev acc @ takeWhile (\<lambda>x. x \<noteq> c) s"
  by (induction s arbitrary: acc) auto

lemma split_from_tl:
  "c \<in> set s \<Longrightarrow>
   tl (split_from c acc s) = split_from c [] (tl (dropWhile (\<lambda>x. x \<noteq> c) s))"
  by (induction s arbitrary: acc) auto

lemma split_nonempty: "split c s \<noteq> []"
  by (simp add: split_def split_from_nonempty)

lemma split_hd: "hd (split c s) = takeWhile (\<lambda>x. x \<noteq> c) s"
  by (simp add: split_def split_from_hd)

lemma split_tl: "c \<in> set s \<Longrightarrow> tl (split c s) = split c (tl (dropWhile (\<lambda>x. x \<noteq> c) s))"
  by (simp add: split_def split_from_tl)

lemma at_index_0: "at_index (split c s) 0 = Some (takeWhile (\<lambda>x. x \<noteq> c) s)"
  using split_nonempty [of c s] split_hd [of c s]
  by (cases "split c s") (auto simp: at_index_def)

lemma at_index_1:
  assumes "c \<in> set s"
  shows "at_index (split c s) 1 =
    Some (takeWhile (\<lambda>x. x \<noteq> c) (tl (dropWhile (\<lambda>x. x \<noteq> c) s)))"
proof -
  let ?r = "tl (dropWhile (\<lambda>x. x \<noteq> c) s)"
  obtain p ps where sp: "split c s = p # ps"
    using split_nonempty [of c s] by (cases "split c s") auto
  have "ps = split c ?r" using split_tl [OF assms] sp by simp
  moreover obtain q qs where "split c ?r = q # qs"
    using split_nonempty [of c ?r] by (cases "split c ?r") auto
  moreover have "hd (split c ?r) = takeWhile (\<lambda>x. x \<noteq> c) ?r" by (rule split_hd)
  ultimately show ?thesis using sp by (simp add: at_index_def)
qed

text \<open>
  With an \<^verbatim>\<open>=\<close> in the selector, the attribute is the text before the first
  \<^verbatim>\<open>=\<close> and the value is the text between the first and the second \<^verbatim>\<open>=\<close>
  (or the end); anything after a second \<^verbatim>\<open>=\<close> is dropped.
\<close>

lemma attr_equals_css_eq:
  assumes "CHR ''='' \<in> set s"
  shows "attr_equals_css s =
    ''['' @ takeWhile (\<lambda>x. x \<noteq> CHR ''='') s @ ''=\"'' @
    takeWhile (\<lambda>x. x \<noteq> CHR ''='') (tl (dropWhile (\<lambda>x. x \<noteq> CHR ''='') s)) @ ''\"]''"
  using at_index_0 [of "CHR ''=''" s] at_index_1 [OF assms]
  by (simp add: attr_equals_css_def interpolate_def Let_def)

lemma attr_equals_css_neq:
  assumes "CHR ''='' \<in> set s"
  shows "attr_equals_css s \<noteq> s"
proof
  assume eq: "attr_equals_css s = s"
  let ?a = "takeWhile (\<lambda>x. x \<noteq> CHR ''='') s"
  have "takeWhile (\<lambda>x. x \<noteq> CHR ''='') (attr_equals_css s) = ''['' @ ?a"
    unfolding attr_equals_css_eq [OF assms]
    by (simp add: takeWhile_append1 takeWhile_tail)
  then have "length (takeWhile (\<lambda>x. x \<noteq> CHR ''='') (attr_equals_css s)) = Suc (length ?a)"
    by simp
  then show False using eq by simp
qed

lemmas selector_eval =
  startsWith_def str_includes_char attr_equals_css_def split_def at_index_def interpolate_def
  contains_text_xpath_def substring_def

section \<open>Selector resolution\<close>

text \<open>
  Claim C1 (as amended). \<open>getSmartSelector\<close> applies its rules in first-match-wins
  order: a selector starting with \<^verbatim>\<open>//\<close> or \<^verbatim>\<open>(//\<close> is an XPath; else one
  starting with \<^verbatim>\<open>#\<close> is an ID with the prefix stripped; else one starting with
  \<^verbatim>\<open>.\<close> is a class name with the prefix stripped; else one containing \<^verbatim>\<open>=\<close>
  and neither \<^verbatim>\<open>[\<close> nor a space is the attribute-equality CSS selector built
  from the text before the first \<^verbatim>\<open>=\<close> and the text up to the next \<^verbatim>\<open>=\<close>;
  else one starting with \<^verbatim>\<open>text:\<close>, and after that one starting with
  \<^verbatim>\<open>partial-text:\<close>, is the contains-based text XPath; otherwise the raw string is
  a CSS selector. The attribute rule is tried before the text rule, so for
  every selector \<^verbatim>\<open>text:v\<close> whose \<open>v\<close> matches the attribute rule, the attribute
  rule wins.
\<close>

theorem getSmartSelector_rule_order:
  "getSmartSelector s =
     (if (\<exists>r. s = ''//'' @ r) \<or> (\<exists>r. s = ''(//'' @ r) then By_xpath s
      else if (\<exists>r. s = ''#'' @ r) then By_id (tl s)
      else if (\<exists>r. s = ''.'' @ r) then By_className (tl s)
      else if CHR ''='' \<in> set s \<and> CHR ''['' \<notin> set s \<and> CHR '' '' \<notin> set s
        then By_css (''['' @ takeWhile (\<lambda>x. x \<noteq> CHR ''='') s @ ''=\"'' @
               takeWhile (\<lambda>x. x \<noteq> CHR ''='') (tl (dropWhile (\<lambda>x. x \<noteq> CHR ''='') s)) @ ''\"]'')
      else if (\<exists>r. s = ''text:'' @ r)
        then By_xpath (''//*[contains(text(), \"'' @ drop 5 s @ ''\")]'')
      else if (\<exists>r. s = ''partial-text:'' @ r)
        then By_xpath (''//*[contains(text(), \"'' @ drop 13 s @ ''\")]'')
      else By_css s)
   \<and> (CHR ''='' \<in> set v \<and> CHR ''['' \<notin> set v \<and> CHR '' '' \<notin> set v \<longrightarrow>
        getSmartSelector (''text:'' @ v) =
          By_css (''[text:'' @ takeWhile (\<lambda>x. x \<noteq> CHR ''='') v @ ''=\"'' @
               takeWhile (\<lambda>x. x \<noteq> CHR ''='') (tl (dropWhile (\<lambda>x. x \<noteq> CHR ''='') v)) @ ''\"]''))"
proof
  show "getSmartSelector s =
     (if (\<exists>r. s = ''//'' @ r) \<or> (\<exists>r. s = ''(//'' @ r) then By_xpath s
      else if (\<exists>r. s = ''#'' @ r) then By_id (tl s)
      else if (\<exists>r. s = ''.'' @ r) then By_className (tl s)
      else if CHR ''='' \<in> set s \<and> CHR ''['' \<notin> set s \<and> CHR '' '' \<notin> set s
        then By_css (''['' @ takeWhile (\<lambda>x. x \<noteq> CHR ''='') s @ ''=\"'' @
               takeWhile (\<lambda>x. x \<noteq> CHR ''='') (tl (dropWhile (\<lambda>x. x \<noteq> CHR ''='') s)) @ ''\"]'')
      else if (\<exists>r. s = ''text:'' @ r)
        then By_xpath (''//*[contains(text(), \"'' @ drop 5 s @ ''\")]'')
      else if (\<exists>r. s = ''partial-text:'' @ r)
        then By_xpath (''//*[contains(text(), \"'' @ drop 13 s @ ''\")]'')
      else By_css s)"
    unfolding getSmartSelector_def startsWith_iff str_includes_char substring_def
      contains_text_xpath_def
    by (simp add: attr_equals_css_eq drop_Suc)
next
  show "CHR ''='' \<in> set v \<and> CHR ''['' \<notin> set v \<and> CHR '' '' \<notin> set v \<longrightarrow>
        getSmartSelector (''text:'' @ v) =
          By_css (''[text:'' @ takeWhile (\<lambda>x. x \<noteq> CHR ''='') v @ ''=\"'' @
               takeWhile (\<lambda>x. x \<noteq> CHR ''='') (tl (dropWhile (\<lambda>x. x \<noteq> CHR ''='') v)) @ ''\"]'')"
    unfolding getSmartSelector_def startsWith_iff str_includes_char
    by (simp add: attr_equals_css_eq)
qed

text \<open>Instances of C1 at \<^verbatim>\<open>data-testid=login\<close> and at \<^verbatim>\<open>text:a=b\<close>.\<close>

theorem getSmartSelector_rule_order_witness:
  "getSmartSelector ''data-testid=login'' = By_css ''[data-testid=\"login\"]''
   \<and> getSmartSelector ''text:a=b'' = By_css ''[text:a=\"b\"]''"
  using getSmartSelector_rule_order [of "''data-testid=login''" "''a=b''"]
  by simp

text \<open>
  Claim C1 as stated puts the text rule before the attribute rule. The selector
  \<^verbatim>\<open>text:a=b\<close> matches both; the specification's order gives the text XPath, the
  code gives the attribute CSS selector.
\<close>

theorem text_rule_first_counterexample:
  "startsWith ''text:a=b'' ''text:''
   \<and> str_includes ''text:a=b'' ''='' \<and> \<not> str_includes ''text:a=b'' ''[''
   \<and> \<not> str_includes ''text:a=b'' '' ''
   \<and> resolve_spec ''text:a=b'' = By_xpath ''//*[contains(text(), \"a=b\")]''
   \<and> getSmartSelector ''text:a=b'' = By_css ''[text:a=\"b\"]''
   \<and> getSmartSelector ''text:a=b'' \<noteq> resolve_spec ''text:a=b''"
  by (simp add: getSmartSelector_def resolve_spec_def selector_eval)

text \<open>
  Claim C8 as stated says \<^verbatim>\<open>text:v\<close> and \<^verbatim>\<open>partial-text:v\<close> resolve to the same
  descriptor for every \<open>v\<close>. At \<open>v = a=b\<close> the attribute rule fires first for
  both, and the two attribute names differ.
\<close>

theorem text_prefixes_differ_counterexample:
  "getSmartSelector ''text:a=b'' = By_css ''[text:a=\"b\"]''
   \<and> getSmartSelector ''partial-text:a=b'' = By_css ''[partial-text:a=\"b\"]''
   \<and> getSmartSelector ''text:a=b'' \<noteq> getSmartSelector ''partial-text:a=b''"
proof -
  have a: "getSmartSelector ''text:a=b'' = By_css ''[text:a=\"b\"]''"
    by (simp add: getSmartSelector_def selector_eval)
  have b: "getSmartSelector ''partial-text:a=b'' = By_css ''[partial-text:a=\"b\"]''"
    by (simp add: getSmartSelector_def selector_eval)
  show ?thesis unfolding a b by simp
qed

text \<open>
  Claim C8 (as amended). For every value \<open>v\<close> that does not match the attribute
  rule (it has no \<^verbatim>\<open>=\<close>, or it has a \<^verbatim>\<open>[\<close> or a space), \<^verbatim>\<open>text:v\<close> and
  \<^verbatim>\<open>partial-text:v\<close> both resolve to the XPath
  \<^verbatim>\<open>//*[contains(text(), "v")]\<close>. For every other \<open>v\<close> the two descriptors
  differ.
\<close>

theorem text_prefixes_same_xpath:
  "(CHR ''='' \<notin> set v \<or> CHR ''['' \<in> set v \<or> CHR '' '' \<in> set v \<longrightarrow>
      getSmartSelector (''text:'' @ v) = By_xpath (''//*[contains(text(), \"'' @ v @ ''\")]'')
      \<and> getSmartSelector (''partial-text:'' @ v) = getSmartSelector (''text:'' @ v))
   \<and> (CHR ''='' \<in> set v \<and> CHR ''['' \<notin> set v \<and> CHR '' '' \<notin> set v \<longrightarrow>
      getSmartSelector (''partial-text:'' @ v) \<noteq> getSmartSelector (''text:'' @ v))"
  unfolding getSmartSelector_def startsWith_iff str_includes_char substring_def
      contains_text_xpath_def
  by (auto simp add: attr_equals_css_eq)

text \<open>Instances of C8 at \<open>v = Sign in\<close> and at \<open>v = a=b\<close>.\<close>

theorem text_prefixes_same_xpath_witness:
  "getSmartSelector ''text:Sign in'' = By_xpath ''//*[contains(text(), \"Sign in\")]''
   \<and> getSmartSelector ''partial-text:Sign in'' = getSmartSelector ''text:Sign in''
   \<and> getSmartSelector ''partial-text:a=b'' \<noteq> getSmartSelector ''text:a=b''"
  using text_prefixes_same_xpath [of "''Sign in''"] text_prefixes_same_xpath [of "''a=b''"]
  by simp

text \<open>
  Claim C10. In \<^verbatim>\<open>BaseSeleniumDriver\<close>, for a selector that is not an XPath, an
  ID or a class selector and that contains \<^verbatim>\<open>=\<close> (whether or not it has a
  \<^verbatim>\<open>[\<close> or a space), \<open>findElement\<close> builds the attribute-equality CSS selector
  from the text before the first \<^verbatim>\<open>=\<close> and the text between the first and the
  second \<^verbatim>\<open>=\<close>, while \<open>findElements\<close> passes the raw selector as CSS; the two
  locators are different.
\<close>

theorem findElement_findElements_differ:
  assumes "\<not> startsWith s ''//''" and "\<not> startsWith s ''(//''"
    and "\<not> startsWith s ''#''" and "\<not> startsWith s ''.''"
    and "str_includes s ''=''"
  shows "findElement_by s =
           By_css (''['' @ takeWhile (\<lambda>x. x \<noteq> CHR ''='') s @ ''=\"'' @
             takeWhile (\<lambda>x. x \<noteq> CHR ''='') (tl (dropWhile (\<lambda>x. x \<noteq> CHR ''='') s)) @ ''\"]'')
         \<and> findElements_by s = By_css s
         \<and> findElement_by s \<noteq> findElements_by s"
proof -
  have m: "CHR ''='' \<in> set s" using assms(5) by (simp add: str_includes_char)
  have a: "findElement_by s = By_css (attr_equals_css s)"
    using assms by (simp add: findElement_by_def)
  have b: "findElements_by s = By_css s"
    using assms by (simp add: findElements_by_def)
  show ?thesis
    using a b attr_equals_css_neq [OF m] attr_equals_css_eq [OF m] by simp
qed

text \<open>Instance of C10 at \<^verbatim>\<open>name=q\<close>.\<close>

theorem findElement_findElements_differ_witness:
  "findElement_by ''name=q'' = By_css ''[name=\"q\"]''
   \<and> findElements_by ''name=q'' = By_css ''name=q''
   \<and> findElement_by ''name=q'' \<noteq> findElements_by ''name=q''"
  using findElement_findElements_differ [of "''name=q''"]
  by (simp add: startsWith_def str_includes_char)

text \<open>
  More instances: the text after a second \<^verbatim>\<open>=\<close> is dropped, and \<open>findElement\<close>
  rewrites selectors with \<^verbatim>\<open>[\<close> or a space that \<open>getSmartSelector\<close> leaves alone.
\<close>

lemma findElement_by_examples:
  "findElement_by ''a=b=c'' = By_css ''[a=\"b\"]''"
  "findElement_by ''input[name=q]'' = By_css ''[input[name=\"q]\"]''"
  "findElement_by ''a b=c'' = By_css ''[a b=\"c\"]''"
  "getSmartSelector ''input[name=q]'' = By_css ''input[name=q]''"
  by (simp_all add: findElement_by_def getSmartSelector_def selector_eval)

text \<open>
  The labelling helper of the DevTools driver leaves \<^verbatim>\<open>#foo\<close> as a CSS selector,
  and its \<^verbatim>\<open>data-testid=\<close> branch cuts one character too many: the prefix has 12
  characters, the code drops 13.
\<close>

lemma getSelectorInfo_examples:
  "getSelectorInfo ''#foo''
     = \<lparr> info_type = ''css'', info_selector = ''#foo'', info_strategy = ''css'' \<rparr>"
  "getSelectorInfo ''data-testid=login''
     = \<lparr> info_type = ''testid'', info_selector = ''[data-testid=\"ogin\"]'',
         info_strategy = ''testid'' \<rparr>"
proof -
  have a: "\<not> str_includes ''#foo'' ''text=''" "\<not> str_includes ''data-testid=login'' ''text=''"
    by (simp_all add: str_includes_def sublist_Cons_right prefix_Cons)
  show "getSelectorInfo ''#foo''
     = \<lparr> info_type = ''css'', info_selector = ''#foo'', info_strategy = ''css'' \<rparr>"
    by (simp add: getSelectorInfo_def startsWith_def a)
  show "getSelectorInfo ''data-testid=login''
     = \<lparr> info_type = ''testid'', info_selector = ''[data-testid=\"ogin\"]'',
         info_strategy = ''testid'' \<rparr>"
    by (simp add: getSelectorInfo_def startsWith_def a substring_def)
qed

section \<open>Filename generation\<close>

lemma digit_char_cases:
  "digit_char d \<in> set ''0123456789''"
proof -
  have "d mod 10 < length ''0123456789''" by simp
  then show ?thesis unfolding digit_char_def by (rule nth_mem)
qed

lemma digit_char_not_sep:
  "digit_char d \<noteq> CHR '':''" "digit_char d \<noteq> CHR ''.''" "digit_char d \<noteq> CHR ''T''"
  using digit_char_cases [of d] by auto

lemma digit_char_inj: "digit_char a = digit_char b \<longleftrightarrow> a mod 10 = b mod 10"
proof -
  have "distinct ''0123456789''" by simp
  then show ?thesis
    unfolding digit_char_def by (simp add: nth_eq_iff_index_eq)
qed

lemma digit_char_0: "digit_char 0 = CHR ''0''"
  by (simp add: digit_char_def)

lemma decimal_1: "n < 10 \<Longrightarrow> decimal n = [digit_char n]"
  by (simp add: decimal.simps)

lemma decimal_2: "10 \<le> n \<Longrightarrow> n < 100 \<Longrightarrow> decimal n = [digit_char (n div 10), digit_char n]"
  by (subst decimal.simps) (simp add: decimal_1 digit_char_def)

lemma decimal_3:
  "100 \<le> n \<Longrightarrow> n < 1000 \<Longrightarrow>
   decimal n = [digit_char (n div 100), digit_char (n div 10), digit_char n]"
  by (subst decimal.simps) (simp add: decimal_2 digit_char_def div_mult2_eq [symmetric])

lemma decimal_4:
  "1000 \<le> n \<Longrightarrow> n < 10000 \<Longrightarrow>
   decimal n = [digit_char (n div 1000), digit_char (n div 100), digit_char (n div 10), digit_char n]"
  by (subst decimal.simps) (simp add: decimal_3 digit_char_def div_mult2_eq [symmetric])

lemma pad2: "n < 100 \<Longrightarrow> padStart 2 (decimal n) = two_digits n"
  by (cases "n < 10") (simp_all add: padStart_def decimal_1 decimal_2 two_digits_def digit_char_0 [symmetric])

lemma pad3:
  "n < 1000 \<Longrightarrow> length (padStart 3 (decimal n)) = 3"
  by (cases "n < 10"; cases "n < 100") (simp_all add: padStart_def decimal_1 decimal_2 decimal_3)

lemma pad4: "n < 10000 \<Longrightarrow> padStart 4 (decimal n) = four_digits n"
  apply (cases "n < 10"; cases "n < 100"; cases "n < 1000")
  apply (simp_all add: padStart_def decimal_1 decimal_2 decimal_3 decimal_4 four_digits_def
      digit_char_0 [symmetric] numeral_2_eq_2 numeral_3_eq_3)
  done

lemma two_digits_inj:
  assumes "a < 100" "b < 100" "two_digits a = two_digits b"
  shows "a = b"
proof -
  have "(a div 10) mod 10 = (b div 10) mod 10" "a mod 10 = b mod 10"
    using assms(3) by (simp_all add: two_digits_def digit_char_inj)
  moreover have "a div 10 < 10" "b div 10 < 10" using assms(1,2) by simp_all
  ultimately have "a div 10 = b div 10" "a mod 10 = b mod 10" by simp_all
  then show ?thesis by (metis mult_div_mod_eq)
qed

lemma four_digits_split: "four_digits n = two_digits (n div 100) @ two_digits (n mod 100)"
proof -
  have "n div 100 div 10 = n div 1000" by (simp add: div_mult2_eq [symmetric])
  moreover have "(n mod 100) mod 10 = n mod 10" by (simp add: mod_mod_cancel)
  moreover have "(n mod 100 div 10) mod 10 = (n div 10) mod 10"
  proof -
    have "n mod 100 = 10 * (n div 10 mod 10) + n mod 10"
      using mod_mult2_eq [of n 10 10] by simp
    then have "n mod 100 div 10 = n div 10 mod 10" by simp
    then show ?thesis by simp
  qed
  ultimately show ?thesis
    by (simp add: four_digits_def two_digits_def digit_char_def)
qed

lemma four_digits_inj:
  assumes "a < 10000" "b < 10000" "four_digits a = four_digits b"
  shows "a = b"
proof -
  have "two_digits (a div 100) = two_digits (b div 100)"
    "two_digits (a mod 100) = two_digits (b mod 100)"
    using assms(3) by (simp_all add: four_digits_split two_digits_def)
  moreover have "a div 100 < 100" "b div 100 < 100" using assms(1,2) by simp_all
  moreover have "a mod 100 < 100" "b mod 100 < 100" by simp_all
  ultimately have "a div 100 = b div 100" "a mod 100 = b mod 100"
    using two_digits_inj by blast+
  then show ?thesis by (metis mult_div_mod_eq)
qed

lemma pad3_digits:
  "n < 1000 \<Longrightarrow>
   padStart 3 (decimal n) = [digit_char (n div 100), digit_char (n div 10), digit_char n]"
  apply (cases "n < 10"; cases "n < 100")
  apply (simp_all add: padStart_def decimal_1 decimal_2 decimal_3
      digit_char_0 [symmetric] numeral_2_eq_2 numeral_3_eq_3)
  done

lemma timestamp_of_eq:
  assumes "valid_time t"
  shows "timestamp_of t = seconds_stamp_spec t"
proof -
  have iso: "toISOString t =
     four_digits (utc_year t) @ ''-'' @ two_digits (utc_month t) @ ''-'' @ two_digits (utc_day t)
     @ ''T'' @ two_digits (utc_hours t) @ '':'' @ two_digits (utc_minutes t)
     @ '':'' @ two_digits (utc_seconds t) @ ''.''
     @ [digit_char (utc_millis t div 100), digit_char (utc_millis t div 10),
        digit_char (utc_millis t)] @ ''Z''"
    using assms by (simp add: toISOString_def valid_time_def pad2 pad4 pad3_digits)
  show ?thesis
    unfolding timestamp_of_def iso seconds_stamp_spec_def
    by (simp add: four_digits_def two_digits_def replace_colons_dots_def digit_char_not_sep
        slice_off_end_def)
qed

lemma seconds_stamp_spec_inj:
  assumes "valid_time a" "valid_time b" "seconds_stamp_spec a = seconds_stamp_spec b"
  shows "same_second a b"
proof -
  have len4: "\<And>n. length (four_digits n) = 4" by (simp add: four_digits_def)
  have len2: "\<And>n. length (two_digits n) = 2" by (simp add: two_digits_def)
  from assms(3) have e:
    "four_digits (utc_year a) = four_digits (utc_year b)"
    "two_digits (utc_month a) = two_digits (utc_month b)"
    "two_digits (utc_day a) = two_digits (utc_day b)"
    "two_digits (utc_hours a) = two_digits (utc_hours b)"
    "two_digits (utc_minutes a) = two_digits (utc_minutes b)"
    "two_digits (utc_seconds a) = two_digits (utc_seconds b)"
    unfolding seconds_stamp_spec_def by (simp_all add: len4 len2)
  have "utc_year a = utc_year b"
    using assms(1,2) e(1) by (intro four_digits_inj) (simp_all add: valid_time_def)
  moreover have "utc_month a = utc_month b"
    using assms(1,2) e(2) by (intro two_digits_inj) (simp_all add: valid_time_def)
  moreover have "utc_day a = utc_day b"
    using assms(1,2) e(3) by (intro two_digits_inj) (simp_all add: valid_time_def)
  moreover have "utc_hours a = utc_hours b"
    using assms(1,2) e(4) by (intro two_digits_inj) (simp_all add: valid_time_def)
  moreover have "utc_minutes a = utc_minutes b"
    using assms(1,2) e(5) by (intro two_digits_inj) (simp_all add: valid_time_def)
  moreover have "utc_seconds a = utc_seconds b"
    using assms(1,2) e(6) by (intro two_digits_inj) (simp_all add: valid_time_def)
  ultimately show ?thesis by (simp add: same_second_def)
qed

lemma seconds_stamp_spec_cong:
  "same_second a b \<Longrightarrow> seconds_stamp_spec a = seconds_stamp_spec b"
  by (simp add: same_second_def seconds_stamp_spec_def)

text \<open>
  Claim C7. With timestamping enabled the generated filename is the base name
  without its extension, an underscore, the capture instant as
  \<^verbatim>\<open>YYYY-MM-DD_HH-MM-SS\<close> (the ISO-8601 text with \<^verbatim>\<open>:\<close> and \<^verbatim>\<open>.\<close> replaced
  by dashes, cut to whole seconds) and the original extension. With
  timestamping disabled the name is returned unchanged, so repeated captures
  to one name target one file. Two captures of one base name get the same
  filename exactly when they fall in the same second.
\<close>

theorem generateFilename_timestamped:
  "(valid_time now \<longrightarrow>
      generateFilename pm now b True =
        basename pm b (extname pm b) @ ''_'' @ seconds_stamp_spec now @ extname pm b)
   \<and> generateFilename pm now b False = b
   \<and> (valid_time now \<and> valid_time now' \<and> same_second now now' \<longrightarrow>
        generateFilename pm now b True = generateFilename pm now' b True)
   \<and> (valid_time now \<and> valid_time now' \<and> \<not> same_second now now' \<longrightarrow>
        generateFilename pm now b True \<noteq> generateFilename pm now' b True)"
proof (intro conjI impI)
  assume "valid_time now"
  then show "generateFilename pm now b True =
        basename pm b (extname pm b) @ ''_'' @ seconds_stamp_spec now @ extname pm b"
    by (simp add: generateFilename_def timestamp_of_eq Let_def)
next
  show "generateFilename pm now b False = b"
    by (simp add: generateFilename_def)
next
  assume "valid_time now \<and> valid_time now' \<and> same_second now now'"
  then show "generateFilename pm now b True = generateFilename pm now' b True"
    by (simp add: generateFilename_def timestamp_of_eq seconds_stamp_spec_cong Let_def)
next
  assume h: "valid_time now \<and> valid_time now' \<and> \<not> same_second now now'"
  then have "seconds_stamp_spec now \<noteq> seconds_stamp_spec now'"
    using seconds_stamp_spec_inj by blast
  then show "generateFilename pm now b True \<noteq> generateFilename pm now' b True"
    using h by (simp add: generateFilename_def timestamp_of_eq Let_def)
qed

lemmas posix_eval =
  posix_path_def posix_extname_def posix_basename_def last_component_def

text \<open>Instance of C7 for \<^verbatim>\<open>a.png\<close> under POSIX path rules.\<close>

theorem generateFilename_timestamped_witness:
  "generateFilename posix_path (capture_time 45 123) ''a.png'' True = ''a_2024-01-15_10-30-45.png''
   \<and> generateFilename posix_path (capture_time 45 123) ''a.png'' False = ''a.png''
   \<and> generateFilename posix_path (capture_time 45 987) ''a.png'' True
       = generateFilename posix_path (capture_time 45 123) ''a.png'' True
   \<and> generateFilename posix_path (capture_time 46 123) ''a.png'' True
       \<noteq> generateFilename posix_path (capture_time 45 123) ''a.png'' True"
proof -
  have v: "valid_time (capture_time 45 123)" "valid_time (capture_time 45 987)"
    "valid_time (capture_time 46 123)"
    by (simp_all add: valid_time_def capture_time_def)
  have s: "same_second (capture_time 45 987) (capture_time 45 123)"
    "\<not> same_second (capture_time 46 123) (capture_time 45 123)"
    by (simp_all add: same_second_def capture_time_def)
  have e: "basename posix_path ''a.png'' (extname posix_path ''a.png'') = ''a''"
    "extname posix_path ''a.png'' = ''.png''"
    by (simp_all add: posix_eval)
  have st: "seconds_stamp_spec (capture_time 45 123) = ''2024-01-15_10-30-45''"
    by (simp add: seconds_stamp_spec_def capture_time_def four_digits_def two_digits_def
        digit_char_def)
  have a: "generateFilename posix_path (capture_time 45 123) ''a.png'' True
      = ''a_2024-01-15_10-30-45.png''"
    and b: "generateFilename posix_path (capture_time 45 123) ''a.png'' False = ''a.png''"
    using generateFilename_timestamped [of "capture_time 45 123" posix_path "''a.png''"]
      v(1) e st by simp_all
  have c: "generateFilename posix_path (capture_time 45 987) ''a.png'' True
       = generateFilename posix_path (capture_time 45 123) ''a.png'' True"
    using generateFilename_timestamped
      [of "capture_time 45 987" posix_path "''a.png''" "capture_time 45 123"] v s
    by blast
  have d: "generateFilename posix_path (capture_time 46 123) ''a.png'' True
       \<noteq> generateFilename posix_path (capture_time 45 123) ''a.png'' True"
    using generateFilename_timestamped
      [of "capture_time 46 123" posix_path "''a.png''" "capture_time 45 123"] v s
    by blast
  show ?thesis using a b c d by blast
qed

section \<open>Running programs\<close>

lemmas prog_defs =
  ret_def throw_def bind_def andThen_def try_catch_def this_def assign_def emit_def
  logger_def wait_ms_def invoke_def new_Date_def

named_theorems stable_intros

lemma stableD: "stable P m \<Longrightarrow> P st \<Longrightarrow> m st = (r, st') \<Longrightarrow> P st'"
  unfolding stable_def by (metis snd_conv)

lemma stable_ret [stable_intros]: "stable P (ret x)"
  by (simp add: stable_def ret_def split_def)

lemma stable_throw [stable_intros]: "stable P (throw e)"
  by (simp add: stable_def throw_def split_def)

lemma stable_emit: "(\<And>s tr. P (s, tr) \<Longrightarrow> P (s, tr @ [e])) \<Longrightarrow> stable P (emit e)"
  by (auto simp add: stable_def emit_def)

lemma stable_logger [stable_intros]:
  "(\<And>s tr. P (s, tr) \<Longrightarrow> P (s, tr @ [Log lv args])) \<Longrightarrow> stable P (logger lv args)"
  by (simp add: logger_def stable_emit)

lemma stable_wait_ms [stable_intros]:
  "(\<And>s tr. P (s, tr) \<Longrightarrow> P (s, tr @ [Sleep n])) \<Longrightarrow> stable P (wait_ms n)"
  by (simp add: wait_ms_def stable_emit)

lemma stable_invoke [stable_intros]:
  "(\<And>s tr. P (s, tr) \<Longrightarrow> P (s, tr @ [Invoke recv meth args])) \<Longrightarrow>
   stable P (invoke env recv meth args)"
  by (auto simp add: stable_def invoke_def)

lemma stable_new_Date [stable_intros]: "stable P (new_Date env)"
  by (simp add: stable_def new_Date_def split_def)

lemma stable_assign [stable_intros]:
  "(\<And>s tr. P (s, tr) \<Longrightarrow> P (f s, tr)) \<Longrightarrow> stable P (assign f)"
  by (auto simp add: stable_def assign_def)

lemma stable_bind [stable_intros]:
  assumes "stable P m" and "\<And>x. stable P (f x)"
  shows "stable P (bind m f)"
  unfolding stable_def
proof (intro allI impI)
  fix st assume p: "P st"
  obtain r st' where m: "m st = (r, st')" by (cases "m st") auto
  have p': "P st'" using stableD [OF assms(1) p m] .
  show "P (snd (bind m f st))"
  proof (cases r)
    case (Inl e)
    then show ?thesis using m p' by (cases st') (simp add: bind_def)
  next
    case (Inr x)
    obtain r2 st2 where f: "f x st' = (r2, st2)" by (cases "f x st'") auto
    have "P st2" using stableD [OF assms(2) p' f] .
    then show ?thesis using m Inr f by (cases st') (simp add: bind_def)
  qed
qed

lemma stable_this [stable_intros]: "(\<And>s. stable P (f s)) \<Longrightarrow> stable P (bind this f)"
  by (auto simp add: stable_def bind_def this_def)

lemma stable_andThen [stable_intros]: "stable P m \<Longrightarrow> stable P n \<Longrightarrow> stable P (andThen m n)"
  by (simp add: andThen_def stable_bind)

lemma stable_try_catch [stable_intros]:
  assumes "stable P m" and "\<And>e. stable P (h e)"
  shows "stable P (try_catch m h)"
  unfolding stable_def
proof (intro allI impI)
  fix st assume p: "P st"
  obtain r st' where m: "m st = (r, st')" by (cases "m st") auto
  have p': "P st'" using stableD [OF assms(1) p m] .
  show "P (snd (try_catch m h st))"
  proof (cases r)
    case (Inr x)
    then show ?thesis using m p' by (cases st') (simp add: try_catch_def)
  next
    case (Inl e)
    obtain r2 st2 where h: "h e st' = (r2, st2)" by (cases "h e st'") auto
    have "P st2" using stableD [OF assms(2) p' h] .
    then show ?thesis using m Inl h by (cases st') (simp add: try_catch_def)
  qed
qed

lemma stable_if [stable_intros]: "stable P a \<Longrightarrow> stable P b \<Longrightarrow> stable P (if c then a else b)"
  by simp

lemma stable_let [stable_intros]: "stable P (f v) \<Longrightarrow> stable P (Let v f)"
  by simp

lemma stable_case_option [stable_intros]:
  "stable P a \<Longrightarrow> (\<And>x. stable P (f x)) \<Longrightarrow> stable P (case v of None \<Rightarrow> a | Some x \<Rightarrow> f x)"
  by (cases v) simp_all

lemma stable_case_prod [stable_intros]:
  "(\<And>x y. stable P (f x y)) \<Longrightarrow> stable P (case v of (x, y) \<Rightarrow> f x y)"
  by (cases v) simp

lemma stable_get_prop [stable_intros]: "stable P (get_prop v k)"
  by (cases v) (simp_all add: get_prop_def stable_ret stable_throw)

lemma stable_spread_array [stable_intros]: "stable P (spread_array v)"
  by (cases v) (simp_all add: spread_array_def stable_ret stable_throw)

lemma stable_this0 [stable_intros]: "stable P this"
  by (simp add: stable_def this_def split_def)

lemmas helper_defs =
  startup_handler_def fs_mkdir_def createOutputDirectory_def createScreenshotsDirectory_def createVideosDirectory_def
  screenshot_path_def

lemmas Selenium_op_defs =
  Selenium_ensureStarted_def Selenium_start_def Selenium_start_body_def Selenium_quit_def
  Selenium_navigateTo_def Selenium_findElement_def Selenium_findElements_def Selenium_click_def
  Selenium_sendKeys_def Selenium_clearText_def Selenium_getText_def Selenium_executeScript_def
  Selenium_takeScreenshot_def Selenium_startVideoRecording_def Selenium_stopVideoRecording_def

lemmas Playwright_op_defs =
  Playwright_ensureStarted_def Playwright_start_def Playwright_start_body_def Playwright_quit_def
  Playwright_navigateTo_def Playwright_findElement_def Playwright_findElements_def
  Playwright_click_def Playwright_sendKeys_def Playwright_clearText_def Playwright_getText_def
  Playwright_executeScript_def Playwright_takeScreenshot_def Playwright_startVideoRecording_def
  Playwright_stopVideoRecording_def acquire_executable_def Playwright_after_launch_def

lemma options_stable_Selenium_perform:
  "stable (\<lambda>st. options (fst st) = v) (Selenium_perform env op)"
  by (cases op; simp only: Selenium_perform.simps; unfold Selenium_op_defs helper_defs)
     ((intro stable_intros; simp)+)

lemma options_stable_Playwright_perform:
  "stable (\<lambda>st. options (fst st) = v) (Playwright_perform env op)"
  by (cases op; simp only: Playwright_perform.simps; unfold Playwright_op_defs helper_defs)
     ((intro stable_intros; simp)+)

section \<open>The started check\<close>

lemma Selenium_ensureStarted_fails:
  "\<not> isStarted d \<Longrightarrow> Selenium_ensureStarted (d, tr) = (Inl not_started_error, d, tr)"
  by (simp add: Selenium_ensureStarted_def prog_defs)

lemma Playwright_ensureStarted_fails:
  "\<not> isStarted d \<Longrightarrow> Playwright_ensureStarted (d, tr) = (Inl not_started_error, d, tr)"
  by (simp add: Playwright_ensureStarted_def prog_defs)

lemma Selenium_guard:
  "\<not> isStarted d \<Longrightarrow> andThen Selenium_ensureStarted n (d, tr) = (Inl not_started_error, d, tr)"
  by (simp add: andThen_def bind_def Selenium_ensureStarted_fails)

lemma Playwright_guard:
  "\<not> isStarted d \<Longrightarrow> andThen Playwright_ensureStarted n (d, tr) = (Inl not_started_error, d, tr)"
  by (simp add: andThen_def bind_def Playwright_ensureStarted_fails)

lemmas Selenium_guarded_defs =
  Selenium_navigateTo_def Selenium_findElement_def Selenium_findElements_def Selenium_click_def
  Selenium_sendKeys_def Selenium_clearText_def Selenium_getText_def Selenium_executeScript_def
  Selenium_takeScreenshot_def

lemmas Playwright_guarded_defs =
  Playwright_navigateTo_def Playwright_findElement_def Playwright_findElements_def
  Playwright_click_def Playwright_sendKeys_def Playwright_clearText_def Playwright_getText_def
  Playwright_executeScript_def Playwright_takeScreenshot_def Playwright_startVideoRecording_def
  Playwright_stopVideoRecording_def

lemma Selenium_not_started:
  assumes "\<not> isStarted d" "\<not> is_lifecycle op" "\<not> is_video op"
  shows "Selenium_perform env op (d, tr) = (Inl not_started_error, d, tr)"
  using assms
  by (cases op)
     (simp_all add: Selenium_guarded_defs Selenium_guard)

lemma Playwright_not_started:
  assumes "\<not> isStarted d" "\<not> is_lifecycle op"
  shows "Playwright_perform env op (d, tr) = (Inl not_started_error, d, tr)"
  using assms
  by (cases op)
     (simp_all add: Playwright_guarded_defs Playwright_guard)

section \<open>Lifecycle and lookups\<close>

lemmas sample_defs =
  fresh_selenium_def fresh_playwright_def started_selenium_def started_playwright_def
  firefox_playwright_def
  BaseSeleniumDriver_def PlaywrightDriver_def selenium_defaults_def playwright_defaults_def
  resolve_from_root_def posix_path_def posix_join_def startsWith_def

lemmas env_defs =
  local_env_def failing_env_def no_vars_def lambda_vars_def chromium_path_vars_def
  isLambda_def env_set_def obliging_respond_def

text \<open>
  The two video-recording stubs of \<^verbatim>\<open>BaseSeleniumDriver\<close> never look at the
  session: whatever the state, they throw, and the error is not the
  not-started error.
\<close>

lemma Selenium_video_stub:
  assumes "is_video op"
  shows "\<exists>e tr'. Selenium_perform env op (d, tr) = (Inl e, d, tr') \<and> e \<noteq> not_started_error"
proof (cases op)
  case (StartVideoRecording b v)
  show ?thesis
    unfolding StartVideoRecording
    by (cases "respond env tr (Module ''fs'') ''mkdir''
                 [Str (resolve (path env) (resolve_from_root (path env)
                         (str_or b (outputDirectoryBasePath d))) (str_or v (videosDirectory d))),
                  Obj [(''recursive'', Bool True)]]")
       (simp_all add: Selenium_startVideoRecording_def createVideosDirectory_def
         createOutputDirectory_def fs_mkdir_def prog_defs Let_def not_started_error_def)
next
  case StopVideoRecording
  show ?thesis
    unfolding StopVideoRecording
    by (simp add: Selenium_stopVideoRecording_def prog_defs not_started_error_def)
qed (use assms in simp_all)

text \<open>
  Claim C2 (as amended). On a driver that is not started, every interaction
  operation of \<^verbatim>\<open>PlaywrightDriver\<close> (the video-recording operations included) and
  every interaction operation of \<^verbatim>\<open>BaseSeleniumDriver\<close> that uses the session
  (navigateTo, findElement, findElements, click, sendKeys, clearText, getText,
  executeScript, takeScreenshot) throws the not-started error before anything
  else happens: the state is unchanged and the trace gets no new entry.
  \<^verbatim>\<open>BaseSeleniumDriver\<close>'s \<^verbatim>\<open>startVideoRecording\<close> and \<^verbatim>\<open>stopVideoRecording\<close> are
  unimplemented stubs without a started check: they leave the session state
  unchanged and throw an error that is not the not-started error.
\<close>

theorem not_started_fails_fast:
  assumes "\<not> isStarted d" and "\<not> isStarted p" and "\<not> is_lifecycle op"
  shows "Playwright_perform env op (p, tr) = (Inl not_started_error, p, tr)
    \<and> (\<not> is_video op \<longrightarrow> Selenium_perform env op (d, tr) = (Inl not_started_error, d, tr))
    \<and> (is_video op \<longrightarrow>
          (\<exists>e tr'. Selenium_perform env op (d, tr) = (Inl e, d, tr') \<and> e \<noteq> not_started_error))"
  using assms Playwright_not_started Selenium_not_started Selenium_video_stub by blast

text \<open>Instances of C2 on freshly constructed drivers.\<close>

theorem not_started_fails_fast_witness:
  "Playwright_perform (local_env no_vars) (StartVideoRecording None None) (fresh_playwright, [])
     = (Inl not_started_error, fresh_playwright, [])
   \<and> Selenium_perform (local_env no_vars) (Click ''#go'' None) (fresh_selenium, [])
     = (Inl not_started_error, fresh_selenium, [])
   \<and> Playwright_perform (local_env no_vars) (Click ''#go'' None) (fresh_playwright, [])
     = (Inl not_started_error, fresh_playwright, [])"
proof -
  have a: "\<not> isStarted fresh_selenium" "\<not> isStarted fresh_playwright"
    by (simp_all add: sample_defs)
  show ?thesis
    using not_started_fails_fast [OF a, of "StartVideoRecording None None" "local_env no_vars" "[]"]
      not_started_fails_fast [OF a, of "Click ''#go'' None" "local_env no_vars" "[]"]
    by simp
qed

text \<open>
  Claim C2 as stated covers the capture operations of both drivers. On a
  \<^verbatim>\<open>BaseSeleniumDriver\<close> that was never started, \<^verbatim>\<open>startVideoRecording\<close> first
  creates the videos directory and then throws the not-implemented error, and
  \<^verbatim>\<open>stopVideoRecording\<close> throws the not-implemented error.
\<close>

theorem video_stub_counterexample:
  "\<not> isStarted fresh_selenium
   \<and> Selenium_perform (local_env no_vars) (StartVideoRecording None None) (fresh_selenium, [])
     = (Inl (Error ''Video recording not yet implemented. Use startVideoRecording() when this feature is added.''),
        fresh_selenium,
        [Invoke (Module ''fs'') ''mkdir'' [Str ''/app/output/videos'', Obj [(''recursive'', Bool True)]],
         Log Info [''Videos output directory created: /app/output/videos'']])
   \<and> Selenium_perform (local_env no_vars) StopVideoRecording (fresh_selenium, [])
     = (Inl (Error ''Video recording not yet implemented. Use stopVideoRecording() when this feature is added.''),
        fresh_selenium, [])"
  by (simp add: Selenium_startVideoRecording_def Selenium_stopVideoRecording_def
      createVideosDirectory_def createOutputDirectory_def fs_mkdir_def prog_defs Let_def
      local_env_def obliging_respond_def str_or_def sample_defs)

text \<open>
  A second \<^verbatim>\<open>start()\<close> of a browser-specific subclass: the base \<^verbatim>\<open>start()\<close> it
  calls warns and returns, and since the driver is started the subclass tunes
  the page again.
\<close>

lemma Chrome_second_start:
  assumes "isStarted d"
  shows "ChromeSeleniumDriver_start env (d, tr)
           = (Inr Undefined,
              d\<lparr>options := (options d)\<lparr>chromeSpecific :=
                  Some (spread_over chrome_specific_defaults (chromeSpecific (options d)))\<rparr>\<rparr>,
              tr @ Log Warn [''Driver already started'']
                 # retuning_steps env d chrome_animation_script True
                     (tr @ [Log Warn [''Driver already started'']]))"
  using assms
  by (auto simp add: ChromeSeleniumDriver_start_def Selenium_start_def configureChromePerformance_def
      Selenium_executeScript_def Selenium_ensureStarted_def set_window_rect_def prog_defs
      retuning_steps_def split: sum.splits)

lemma Edge_second_start:
  assumes "isStarted d"
  shows "EdgeSeleniumDriver_start env (d, tr)
           = (Inr Undefined,
              d\<lparr>options := (options d)\<lparr>edgeSpecific :=
                  Some (spread_over browser_specific_defaults (edgeSpecific (options d)))\<rparr>\<rparr>,
              tr @ Log Warn [''Driver already started'']
                 # retuning_steps env d animation_script True
                     (tr @ [Log Warn [''Driver already started'']]))"
  using assms
  by (auto simp add: EdgeSeleniumDriver_start_def Selenium_start_def configureEdgePerformance_def
      Selenium_executeScript_def Selenium_ensureStarted_def set_window_rect_def prog_defs
      retuning_steps_def split: sum.splits)

lemma Firefox_second_start:
  assumes "isStarted d"
  shows "FirefoxSeleniumDriver_start env (d, tr)
           = (Inr Undefined,
              d\<lparr>options := (options d)\<lparr>firefoxSpecific :=
                  Some (spread_over browser_specific_defaults (firefoxSpecific (options d)))\<rparr>\<rparr>,
              tr @ Log Warn [''Driver already started'']
                 # retuning_steps env d animation_script False
                     (tr @ [Log Warn [''Driver already started'']]))"
  using assms
  by (auto simp add: FirefoxSeleniumDriver_start_def Selenium_start_def configureFirefoxPerformance_def
      Selenium_executeScript_def Selenium_ensureStarted_def prog_defs
      retuning_steps_def split: sum.splits)

lemma retuning_opens_nothing:
  "sessions_opened (tr @ Log Warn [''Driver already started'']
                      # retuning_steps env d script resize tr1) = sessions_opened tr"
  by (simp add: sessions_opened_def retuning_steps_def split: sum.splits)

text \<open>
  Claim C3, as the code has it. \<^verbatim>\<open>start()\<close> of \<^verbatim>\<open>BaseSeleniumDriver\<close> and of
  \<^verbatim>\<open>PlaywrightDriver\<close> on a started driver returns at once: it logs the warning
  \<^verbatim>\<open>Driver already started\<close>, makes no call into the engine (so no further
  session is opened) and leaves the state as it is. \<^verbatim>\<open>quit()\<close> of either driver
  on a driver that is not started (never started, or already quit) logs a
  warning and returns without throwing, leaving the state as it is.
  \<^verbatim>\<open>start()\<close> of \<^verbatim>\<open>ChromeSeleniumDriver\<close>, \<^verbatim>\<open>EdgeSeleniumDriver\<close> and
  \<^verbatim>\<open>FirefoxSeleniumDriver\<close> on a started driver does not throw, logs the same
  warning, opens no further session and keeps the session fields; but it
  writes its one field of the options again (the subclass defaults merged with
  what the field held) and, when the driver holds a session, runs its page
  tuning again: an \<^verbatim>\<open>executeScript\<close> call into the engine and, for Chrome and
  Edge on a driver that is not headless, a window resize.
\<close>

theorem lifecycle_idempotent:
  "(isStarted d \<longrightarrow>
      Selenium_start env (d, tr) = (Inr Undefined, d, tr @ [Log Warn [''Driver already started'']]))
   \<and> (isStarted p \<longrightarrow>
      Playwright_start env (p, tr) = (Inr Undefined, p, tr @ [Log Warn [''Driver already started'']]))
   \<and> (\<not> (isStarted d \<and> truthy (driver d)) \<longrightarrow>
      Selenium_quit env (d, tr)
        = (Inr Undefined, d, tr @ [Log Warn [''Driver not started or already quit'']]))
   \<and> (\<not> isStarted p \<longrightarrow>
      Playwright_quit env (p, tr)
        = (Inr Undefined, p, tr @ [Log Warn [''Driver not started or already quit'']]))
   \<and> (isStarted d \<longrightarrow>
      sessions_opened (snd (snd (Selenium_start env (d, tr)))) = sessions_opened tr)
   \<and> (isStarted p \<longrightarrow>
      sessions_opened (snd (snd (Playwright_start env (p, tr)))) = sessions_opened tr)
   \<and> (isStarted d \<longrightarrow>
      ChromeSeleniumDriver_start env (d, tr)
        = (Inr Undefined,
           d\<lparr>options := (options d)\<lparr>chromeSpecific :=
               Some (spread_over chrome_specific_defaults (chromeSpecific (options d)))\<rparr>\<rparr>,
           tr @ Log Warn [''Driver already started'']
              # retuning_steps env d chrome_animation_script True
                  (tr @ [Log Warn [''Driver already started'']]))
      \<and> sessions_opened (snd (snd (ChromeSeleniumDriver_start env (d, tr)))) = sessions_opened tr)
   \<and> (isStarted d \<longrightarrow>
      EdgeSeleniumDriver_start env (d, tr)
        = (Inr Undefined,
           d\<lparr>options := (options d)\<lparr>edgeSpecific :=
               Some (spread_over browser_specific_defaults (edgeSpecific (options d)))\<rparr>\<rparr>,
           tr @ Log Warn [''Driver already started'']
              # retuning_steps env d animation_script True
                  (tr @ [Log Warn [''Driver already started'']]))
      \<and> sessions_opened (snd (snd (EdgeSeleniumDriver_start env (d, tr)))) = sessions_opened tr)
   \<and> (isStarted d \<longrightarrow>
      FirefoxSeleniumDriver_start env (d, tr)
        = (Inr Undefined,
           d\<lparr>options := (options d)\<lparr>firefoxSpecific :=
               Some (spread_over browser_specific_defaults (firefoxSpecific (options d)))\<rparr>\<rparr>,
           tr @ Log Warn [''Driver already started'']
              # retuning_steps env d animation_script False
                  (tr @ [Log Warn [''Driver already started'']]))
      \<and> sessions_opened (snd (snd (FirefoxSeleniumDriver_start env (d, tr)))) = sessions_opened tr)"
proof -
  have base: "(isStarted d \<longrightarrow>
      Selenium_start env (d, tr) = (Inr Undefined, d, tr @ [Log Warn [''Driver already started'']]))
   \<and> (isStarted p \<longrightarrow>
      Playwright_start env (p, tr) = (Inr Undefined, p, tr @ [Log Warn [''Driver already started'']]))
   \<and> (\<not> (isStarted d \<and> truthy (driver d)) \<longrightarrow>
      Selenium_quit env (d, tr)
        = (Inr Undefined, d, tr @ [Log Warn [''Driver not started or already quit'']]))
   \<and> (\<not> isStarted p \<longrightarrow>
      Playwright_quit env (p, tr)
        = (Inr Undefined, p, tr @ [Log Warn [''Driver not started or already quit'']]))
   \<and> (isStarted d \<longrightarrow>
      sessions_opened (snd (snd (Selenium_start env (d, tr)))) = sessions_opened tr)
   \<and> (isStarted p \<longrightarrow>
      sessions_opened (snd (snd (Playwright_start env (p, tr)))) = sessions_opened tr)"
    by (simp add: Selenium_start_def Playwright_start_def Selenium_quit_def Playwright_quit_def
        prog_defs sessions_opened_def)
  have sub: "(isStarted d \<longrightarrow>
      ChromeSeleniumDriver_start env (d, tr)
        = (Inr Undefined,
           d\<lparr>options := (options d)\<lparr>chromeSpecific :=
               Some (spread_over chrome_specific_defaults (chromeSpecific (options d)))\<rparr>\<rparr>,
           tr @ Log Warn [''Driver already started'']
              # retuning_steps env d chrome_animation_script True
                  (tr @ [Log Warn [''Driver already started'']]))
      \<and> sessions_opened (snd (snd (ChromeSeleniumDriver_start env (d, tr)))) = sessions_opened tr)
   \<and> (isStarted d \<longrightarrow>
      EdgeSeleniumDriver_start env (d, tr)
        = (Inr Undefined,
           d\<lparr>options := (options d)\<lparr>edgeSpecific :=
               Some (spread_over browser_specific_defaults (edgeSpecific (options d)))\<rparr>\<rparr>,
           tr @ Log Warn [''Driver already started'']
              # retuning_steps env d animation_script True
                  (tr @ [Log Warn [''Driver already started'']]))
      \<and> sessions_opened (snd (snd (EdgeSeleniumDriver_start env (d, tr)))) = sessions_opened tr)
   \<and> (isStarted d \<longrightarrow>
      FirefoxSeleniumDriver_start env (d, tr)
        = (Inr Undefined,
           d\<lparr>options := (options d)\<lparr>firefoxSpecific :=
               Some (spread_over browser_specific_defaults (firefoxSpecific (options d)))\<rparr>\<rparr>,
           tr @ Log Warn [''Driver already started'']
              # retuning_steps env d animation_script False
                  (tr @ [Log Warn [''Driver already started'']]))
      \<and> sessions_opened (snd (snd (FirefoxSeleniumDriver_start env (d, tr)))) = sessions_opened tr)"
    by (simp add: Chrome_second_start Edge_second_start Firefox_second_start
        retuning_opens_nothing)
  show ?thesis
    using base sub by blast
qed

text \<open>
  Instances of C3 on sample drivers: the base drivers, and a
  \<^verbatim>\<open>ChromeSeleniumDriver\<close> in the state its first \<^verbatim>\<open>start()\<close> reaches, whose second
  \<^verbatim>\<open>start()\<close> opens no session and calls the engine again.
\<close>

theorem lifecycle_idempotent_witness:
  "Selenium_start (local_env no_vars) (started_selenium, [])
     = (Inr Undefined, started_selenium, [Log Warn [''Driver already started'']])
   \<and> Playwright_start (local_env no_vars) (started_playwright, [])
     = (Inr Undefined, started_playwright, [Log Warn [''Driver already started'']])
   \<and> Selenium_quit (local_env no_vars) (fresh_selenium, [])
     = (Inr Undefined, fresh_selenium, [Log Warn [''Driver not started or already quit'']])
   \<and> Playwright_quit (local_env no_vars) (fresh_playwright, [])
     = (Inr Undefined, fresh_playwright, [Log Warn [''Driver not started or already quit'']])
   \<and> ChromeSeleniumDriver_start (local_env no_vars) (started_chrome, [])
     = (Inr Undefined, started_chrome,
        [Log Warn [''Driver already started''],
         Invoke (Ref 3) ''executeScript'' [Str chrome_animation_script]])
   \<and> sessions_opened
       (snd (snd (ChromeSeleniumDriver_start (local_env no_vars) (started_chrome, [])))) = 0"
proof -
  have a: "isStarted started_selenium" "isStarted started_playwright"
    "\<not> isStarted fresh_selenium" "\<not> isStarted fresh_playwright"
    by (simp_all add: sample_defs)
  have c: "isStarted started_chrome" "truthy (driver started_chrome)"
    "driver started_chrome = Ref 3"
    "started_chrome\<lparr>options := (options started_chrome)\<lparr>chromeSpecific :=
        Some (spread_over chrome_specific_defaults (chromeSpecific (options started_chrome)))\<rparr>\<rparr>
       = started_chrome"
    by (simp_all add: started_chrome_def spread_over_def obj_merge_def chrome_specific_defaults_def)
  have e: "retuning_steps (local_env no_vars) started_chrome chrome_animation_script True tr
             = [Invoke (Ref 3) ''executeScript'' [Str chrome_animation_script]]" for tr
    by (simp add: retuning_steps_def c(3) env_defs started_chrome_def sample_defs)
  show ?thesis
    using lifecycle_idempotent [of started_selenium "local_env no_vars" "[]" started_playwright]
      lifecycle_idempotent [of fresh_selenium "local_env no_vars" "[]" fresh_playwright]
      lifecycle_idempotent [of started_chrome "local_env no_vars" "[]" started_playwright]
      a c(1,4)
    by (simp add: e sessions_opened_def)
qed

text \<open>The state of a \<^verbatim>\<open>ChromeSeleniumDriver\<close> after its first \<^verbatim>\<open>start()\<close>.\<close>

lemma first_chrome_start:
  "fst (snd (ChromeSeleniumDriver_start (local_env no_vars) (fresh_selenium, []))) = started_chrome"
  by (simp add: ChromeSeleniumDriver_start_def Selenium_start_def Selenium_start_body_def
      startup_handler_def builder_setup_def fs_mkdir_def starting_text_def bool_text_def
      configureChromePerformance_def Selenium_executeScript_def Selenium_ensureStarted_def
      set_window_rect_def toLowerCase_def lower_char_def prog_defs Let_def
      local_env_def obliging_respond_def sample_defs started_chrome_def spread_over_def)

text \<open>
  Claim C3 as stated makes \<^verbatim>\<open>start()\<close> on a started driver a no-op that returns
  immediately. On a \<^verbatim>\<open>ChromeSeleniumDriver\<close> that its first \<^verbatim>\<open>start()\<close> has
  started, the second \<^verbatim>\<open>start()\<close> warns and then calls the engine to tune the
  page again.
\<close>

theorem subclass_restart_counterexample:
  "fst (snd (ChromeSeleniumDriver_start (local_env no_vars) (fresh_selenium, []))) = started_chrome
   \<and> isStarted started_chrome
   \<and> ChromeSeleniumDriver_start (local_env no_vars) (started_chrome, [])
     = (Inr Undefined, started_chrome,
        [Log Warn [''Driver already started''],
         Invoke (Ref 3) ''executeScript'' [Str chrome_animation_script]])
   \<and> ChromeSeleniumDriver_start (local_env no_vars) (started_chrome, [])
     \<noteq> (Inr Undefined, started_chrome, [Log Warn [''Driver already started'']])"
proof -
  have "ChromeSeleniumDriver_start (local_env no_vars) (started_chrome, [])
     = (Inr Undefined, started_chrome,
        [Log Warn [''Driver already started''],
         Invoke (Ref 3) ''executeScript'' [Str chrome_animation_script]])"
    by (simp add: ChromeSeleniumDriver_start_def Selenium_start_def configureChromePerformance_def
        Selenium_executeScript_def Selenium_ensureStarted_def set_window_rect_def
        prog_defs env_defs sample_defs started_chrome_def spread_over_def obj_merge_def
        chrome_specific_defaults_def)
  moreover have "isStarted started_chrome" by (simp add: started_chrome_def)
  ultimately show ?thesis using first_chrome_start by simp
qed

text \<open>
  Two \<^verbatim>\<open>start()\<close> calls in a row on a fresh driver, in an environment where
  every call succeeds: one session is opened, and the last trace entry is the
  warning of the second call.
\<close>

lemma start_twice_one_session:
  "sessions_opened (snd (run_all (Selenium_perform (local_env no_vars)) [Start, Start]
       (fresh_selenium, []))) = 1
   \<and> isStarted (fst (run_all (Selenium_perform (local_env no_vars)) [Start, Start]
       (fresh_selenium, [])))
   \<and> last (snd (run_all (Selenium_perform (local_env no_vars)) [Start, Start]
       (fresh_selenium, []))) = Log Warn [''Driver already started'']"
  by (simp add: Selenium_start_def Selenium_start_body_def startup_handler_def builder_setup_def fs_mkdir_def
      starting_text_def bool_text_def
      toLowerCase_def lower_char_def prog_defs Let_def sessions_opened_def
      local_env_def obliging_respond_def sample_defs)

text \<open>
  Claim C4. On a started driver, for every selector, \<open>findElements\<close> never
  throws: it returns what the engine found (an empty collection when nothing
  matches), and an empty collection when the engine call throws. \<open>findElement\<close>
  throws \<^verbatim>\<open>Element not found: <selector>\<close> whenever the engine does not locate
  the element. Both hold for \<^verbatim>\<open>BaseSeleniumDriver\<close> and for \<^verbatim>\<open>PlaywrightDriver\<close>.
  (Before \<^verbatim>\<open>start()\<close> both operations throw the not-started error, see C2.)
\<close>

theorem find_plural_recovers_singular_propagates:
  "(isStarted d \<and> truthy (driver d) \<longrightarrow>
      fst (Selenium_findElements env sel (d, tr))
        = (case respond env tr (driver d) ''findElements'' [Locator (findElements_by sel)] of
             Inl e \<Rightarrow> Inr (Arr [])
           | Inr found \<Rightarrow> Inr found)
      \<and> (isl (respond env tr (driver d) ''wait''
                 [Str ''elementLocated'', Locator (findElement_by sel),
                  Num (or_default t (timeout (options d)))]) \<longrightarrow>
           fst (Selenium_findElement env sel t (d, tr)) = Inl (Error (''Element not found: '' @ sel))))
   \<and> (isStarted p \<and> truthy (page_handle p) \<longrightarrow>
      fst (Playwright_findElements env sel (p, tr))
        = (case respond env tr (page_handle p) ''locator().all'' [Str sel] of
             Inl e \<Rightarrow> Inr (Arr [])
           | Inr found \<Rightarrow> Inr found)
      \<and> ((case respond env tr (page_handle p) ''waitForSelector''
                 [Str sel, Obj [timeout_option p t, (''state'', Str ''attached'')]] of
             Inl e \<Rightarrow> True
           | Inr element \<Rightarrow> \<not> truthy element) \<longrightarrow>
           fst (Playwright_findElement env sel t (p, tr)) = Inl (Error (''Element not found: '' @ sel))))"
  by (auto simp add: Selenium_findElements_def Selenium_findElement_def
      Playwright_findElements_def Playwright_findElement_def Selenium_ensureStarted_def
      Playwright_ensureStarted_def prog_defs Let_def isl_def split: sum.splits)

text \<open>Instances of C4 in an environment where every engine call throws.\<close>

theorem find_plural_recovers_singular_propagates_witness:
  "fst (Selenium_findElements (failing_env no_vars) ''.row'' (started_selenium, [])) = Inr (Arr [])
   \<and> fst (Selenium_findElement (failing_env no_vars) ''.row'' None (started_selenium, []))
       = Inl (Error ''Element not found: .row'')
   \<and> fst (Playwright_findElements (failing_env no_vars) ''.row'' (started_playwright, []))
       = Inr (Arr [])
   \<and> fst (Playwright_findElement (failing_env no_vars) ''.row'' None (started_playwright, []))
       = Inl (Error ''Element not found: .row'')"
proof -
  have a: "isStarted started_selenium \<and> truthy (driver started_selenium)"
    "isStarted started_playwright \<and> truthy (page_handle started_playwright)"
    by (simp_all add: sample_defs)
  show ?thesis
    using find_plural_recovers_singular_propagates
      [of started_selenium "failing_env no_vars" "''.row''" "[]" None started_playwright] a
    by (simp add: failing_env_def)
qed

section \<open>The options after construction\<close>

lemma run_all_stable:
  assumes "\<And>op. stable P (perform op)" and "P st"
  shows "P (run_all perform ops st)"
  using assms(2)
proof (induction ops arbitrary: st)
  case Nil
  then show ?case by simp
next
  case (Cons op ops)
  have "P (snd (perform op st))" using assms(1) [of op] Cons.prems unfolding stable_def by blast
  then show ?case using Cons.IH by simp
qed

lemma options_stable_configure:
  "stable (\<lambda>st. options (fst st) = v) (configureChromePerformance env)"
  "stable (\<lambda>st. options (fst st) = v) (configureEdgePerformance env)"
  "stable (\<lambda>st. options (fst st) = v) (configureFirefoxPerformance env)"
  unfolding configureChromePerformance_def configureEdgePerformance_def
    configureFirefoxPerformance_def set_window_rect_def Selenium_op_defs
  by ((intro stable_intros; simp)+)

lemma options_after_assign:
  assumes "\<And>v. stable (\<lambda>st. options (fst st) = v) n"
  shows "options (fst (snd (andThen (assign f) n (s, tr)))) = options (f s)"
  using assms [of "options (f s)"]
  by (simp add: andThen_def bind_def assign_def stable_def)

lemma options_stable_after_start:
  "stable (\<lambda>st. options (fst st) = v)
     (andThen (Selenium_start env)
        (bind this (\<lambda>d. if isStarted d then andThen (tune env) (ret Undefined) else ret Undefined)))"
  if "stable (\<lambda>st. options (fst st) = v) (tune env)"
  using that options_stable_Selenium_perform [of v env Start]
  by (intro stable_intros) simp_all

lemma Chrome_start_options:
  "options (fst (snd (ChromeSeleniumDriver_start env (d, tr))))
     = (options d)\<lparr>chromeSpecific :=
         Some (spread_over chrome_specific_defaults (chromeSpecific (options d)))\<rparr>"
  unfolding ChromeSeleniumDriver_start_def
  by (subst options_after_assign)
     (simp_all add: options_stable_after_start options_stable_configure)

lemma Edge_start_options:
  "options (fst (snd (EdgeSeleniumDriver_start env (d, tr))))
     = (options d)\<lparr>edgeSpecific :=
         Some (spread_over browser_specific_defaults (edgeSpecific (options d)))\<rparr>"
  unfolding EdgeSeleniumDriver_start_def
  by (subst options_after_assign)
     (simp_all add: options_stable_after_start options_stable_configure)

lemma Firefox_start_options:
  "options (fst (snd (FirefoxSeleniumDriver_start env (d, tr))))
     = (options d)\<lparr>firefoxSpecific :=
         Some (spread_over browser_specific_defaults (firefoxSpecific (options d)))\<rparr>"
  unfolding FirefoxSeleniumDriver_start_def
  by (subst options_after_assign)
     (simp_all add: options_stable_after_start options_stable_configure)

text \<open>
  Claim C9 (as amended). No operation of \<^verbatim>\<open>BaseSeleniumDriver\<close> or of
  \<^verbatim>\<open>PlaywrightDriver\<close> changes the options: after every sequence of operations
  (start, navigation, interaction, capture, quit), whatever the engine
  answers, the options are the ones the driver was constructed with. The
  \<^verbatim>\<open>start()\<close> of the browser-specific subclasses \<^verbatim>\<open>ChromeSeleniumDriver\<close>,
  \<^verbatim>\<open>EdgeSeleniumDriver\<close> and \<^verbatim>\<open>FirefoxSeleniumDriver\<close> writes one field of the
  options (\<^verbatim>\<open>chromeSpecific\<close>, \<^verbatim>\<open>edgeSpecific\<close>, \<^verbatim>\<open>firefoxSpecific\<close>: the
  subclass defaults merged with what the field held) and leaves every other
  option as it was.
\<close>

theorem options_after_operations:
  "options (fst (run_all (Selenium_perform env) ops (d, tr))) = options d
   \<and> options (fst (run_all (Playwright_perform env) ops (p, tr))) = options p
   \<and> options (fst (snd (ChromeSeleniumDriver_start env (d, tr))))
       = (options d)\<lparr>chromeSpecific :=
           Some (spread_over chrome_specific_defaults (chromeSpecific (options d)))\<rparr>
   \<and> options (fst (snd (EdgeSeleniumDriver_start env (d, tr))))
       = (options d)\<lparr>edgeSpecific :=
           Some (spread_over browser_specific_defaults (edgeSpecific (options d)))\<rparr>
   \<and> options (fst (snd (FirefoxSeleniumDriver_start env (d, tr))))
       = (options d)\<lparr>firefoxSpecific :=
           Some (spread_over browser_specific_defaults (firefoxSpecific (options d)))\<rparr>"
proof -
  have "options (fst (run_all (Selenium_perform env) ops (d, tr))) = options d"
    by (rule run_all_stable [where P = "\<lambda>st. options (fst st) = options d"])
       (simp_all add: options_stable_Selenium_perform)
  moreover have "options (fst (run_all (Playwright_perform env) ops (p, tr))) = options p"
    by (rule run_all_stable [where P = "\<lambda>st. options (fst st) = options p"])
       (simp_all add: options_stable_Playwright_perform)
  ultimately show ?thesis
    using Chrome_start_options Edge_start_options Firefox_start_options by simp
qed

text \<open>Instances of C9 on fresh drivers.\<close>

theorem options_after_operations_witness:
  "options (fst (run_all (Selenium_perform (local_env no_vars))
       [Start, NavigateTo ''https://example.com'', GetText ''h1'' None,
        TakeScreenshot (Some ''a.png'') True None None, Quit] (fresh_selenium, [])))
     = selenium_defaults
   \<and> options (fst (run_all (Playwright_perform (local_env no_vars))
       [Start, NavigateTo ''https://example.com'', GetText ''h1'' None,
        TakeScreenshot (Some ''a.png'') True None None, Quit] (fresh_playwright, [])))
     = playwright_defaults
   \<and> options (fst (snd (ChromeSeleniumDriver_start (local_env no_vars) (fresh_selenium, []))))
     = selenium_defaults\<lparr>chromeSpecific := Some chrome_specific_defaults\<rparr>"
proof -
  have a: "options fresh_selenium = selenium_defaults" "options fresh_playwright = playwright_defaults"
    by (simp_all add: fresh_selenium_def fresh_playwright_def BaseSeleniumDriver_def
        PlaywrightDriver_def)
  have b: "chromeSpecific selenium_defaults = None" by (simp add: selenium_defaults_def)
  show ?thesis
    using options_after_operations [of "local_env no_vars"
        "[Start, NavigateTo ''https://example.com'', GetText ''h1'' None,
          TakeScreenshot (Some ''a.png'') True None None, Quit]"
        fresh_selenium "[]" fresh_playwright] a b
    by (simp add: spread_over_def)
qed

text \<open>
  Claim C9 as stated says the options are never mutated after construction.
  \<^verbatim>\<open>ChromeSeleniumDriver.start()\<close> on a fresh driver sets
  \<^verbatim>\<open>options.chromeSpecific\<close>, which was \<^verbatim>\<open>undefined\<close>.
\<close>

theorem chrome_start_mutates_options_counterexample:
  "chromeSpecific (options fresh_selenium) = None
   \<and> chromeSpecific (options (fst (snd (ChromeSeleniumDriver_start (local_env no_vars)
         (fresh_selenium, []))))) = Some chrome_specific_defaults
   \<and> options (fst (snd (ChromeSeleniumDriver_start (local_env no_vars) (fresh_selenium, []))))
       \<noteq> options fresh_selenium"
proof -
  have a: "chromeSpecific (options fresh_selenium) = None"
    by (simp add: fresh_selenium_def BaseSeleniumDriver_def selenium_defaults_def)
  have b: "chromeSpecific (options (fst (snd (ChromeSeleniumDriver_start (local_env no_vars)
         (fresh_selenium, []))))) = Some chrome_specific_defaults"
    by (simp add: Chrome_start_options a spread_over_def)
  show ?thesis using a b by auto
qed

section \<open>Acquiring the browser at start\<close>

lemma bind_this: "bind this f (s, tr) = f s (s, tr)"
  by (simp add: bind_def this_def)

lemma andThen_logger: "andThen (logger lv args) n (s, tr) = n (s, tr @ [Log lv args])"
  by (simp add: andThen_def bind_def logger_def emit_def)

lemma try_catch_bind_this: "try_catch (bind this f) h (s, tr) = try_catch (f s) h (s, tr)"
  by (simp add: try_catch_def bind_this)

lemma try_catch_bind_returns:
  "m st = (Inr x, st') \<Longrightarrow> try_catch (bind m f) h st = try_catch (f x) h st'"
  by (cases st') (simp add: try_catch_def bind_def)

lemma try_catch_bind_throws:
  "m st = (Inl e, st') \<Longrightarrow> try_catch (bind m f) h st = h e st'"
  by (cases st') (simp add: try_catch_def bind_def)

lemma launch_is_recorded:
  assumes "\<And>x. stable (\<lambda>st. prefix (tr @ [Invoke recv meth args]) (snd st)) (f x)"
    and "\<And>e. stable (\<lambda>st. prefix (tr @ [Invoke recv meth args]) (snd st)) (h e)"
  shows "prefix (tr @ [Invoke recv meth args])
           (snd (snd (try_catch (bind (invoke env recv meth args) f) h (s, tr))))"
proof -
  let ?P = "\<lambda>st::'a \<times> effect list. prefix (tr @ [Invoke recv meth args]) (snd st)"
  let ?reply = "(\<lambda>st. (respond env tr recv meth args, st)) :: (jsval, 'a) prog"
  have "stable ?P ?reply" by (simp add: stable_def)
  then have "stable ?P (try_catch (bind ?reply f) h)"
    using assms by (intro stable_try_catch stable_bind)
  then have "?P (snd (try_catch (bind ?reply f) h (s, tr @ [Invoke recv meth args])))"
    by (simp add: stable_def)
  moreover have "try_catch (bind (invoke env recv meth args) f) h (s, tr)
      = try_catch (bind ?reply f) h (s, tr @ [Invoke recv meth args])"
    by (simp add: try_catch_def bind_def invoke_def)
  ultimately show ?thesis by simp
qed

lemma acquire_local_custom:
  assumes "\<not> isLambda env"
    and "process_env env ''PLAYWRIGHT_CHROMIUM_EXECUTABLE_PATH'' = Some exe" and "exe \<noteq> []"
    and "is_chromium_option b"
  shows "acquire_executable env b (s, tr)
    = (Inr (Some (Str exe), []), s, tr @ [Log Info [''Using custom Chromium executable: '' @ exe]])"
  using assms by (simp add: acquire_executable_def andThen_logger ret_def)

lemma acquire_local_default:
  assumes "\<not> isLambda env"
    and "\<not> (env_set env ''PLAYWRIGHT_CHROMIUM_EXECUTABLE_PATH'' \<and> is_chromium_option b)"
  shows "acquire_executable env b (s, tr)
    = (Inr (None, []), s, tr @ [Log Info [''Using default Playwright browser installation'']])"
  using assms
  by (auto simp add: acquire_executable_def andThen_logger ret_def env_set_def
      split: option.splits)

lemma acquire_lambda_stable:
  "stable (\<lambda>st. fst st = s \<and> sessions_opened (snd st) = n) (acquire_executable env b)"
  unfolding acquire_executable_def
  by ((intro stable_intros; simp add: sessions_opened_def)+)

lemma acquire_lambda_error:
  assumes "isLambda env" and "acquire_executable env b st = (Inl e, st')"
  shows "e = lambda_unavailable_error"
  using assms
  by (cases st) (auto simp add: acquire_executable_def try_catch_def andThen_def bind_def
      logger_def emit_def throw_def split: sum.splits prod.splits)

text \<open>
  In a sandbox, acquiring the executable fails exactly when the environment
  makes the serverless Chromium unavailable.
\<close>

lemma acquire_lambda_fails_iff:
  assumes "isLambda env"
  shows "isl (fst (acquire_executable env b (s, tr))) = serverless_chromium_unavailable env tr"
  using assms
  unfolding acquire_executable_def serverless_chromium_unavailable_def spreadable_args_def
  by (auto simp add: try_catch_def bind_def invoke_def andThen_logger throw_def ret_def
      get_prop_def spread_array_def split: sum.splits jsval.splits option.splits)

lemma chromium_option_engine:
  "is_chromium_option b \<Longrightarrow> browserEngine b = Some (Module ''chromium'')"
  by (auto simp add: is_chromium_option_def browserEngine_def toLowerCase_def lower_char_def)

lemma start_reaches_body:
  assumes "\<not> isStarted d" and "browserEngine (browser (options d)) = Some engine"
  shows "Playwright_start env (d, tr)
    = try_catch
        (bind (acquire_executable env (browser (options d)))
           (\<lambda>(exe, args).
              bind (invoke env engine ''launch'' [launch_options (options d) exe args])
                (Playwright_after_launch env d)))
        startup_handler
        (d, tr @ [Log Info [starting_text (options d)]])"
  using assms
  by (simp add: Playwright_start_def Playwright_start_body_def bind_this andThen_logger
      try_catch_bind_this)

lemma grows_after_launch:
  "stable (\<lambda>st. prefix tr0 (snd st)) (Playwright_after_launch env d b)"
  unfolding Playwright_after_launch_def helper_defs
  by ((intro stable_intros; simp)+)

lemma grows_startup_handler: "stable (\<lambda>st. prefix tr0 (snd st)) (startup_handler e)"
  unfolding startup_handler_def
  by ((intro stable_intros; simp)+)

lemma start_lambda_unavailable:
  assumes "\<not> isStarted d" and "browserEngine (browser (options d)) = Some engine"
    and "isLambda env"
    and "serverless_chromium_unavailable env (tr @ [Log Info [starting_text (options d)]])"
  shows "fst (Playwright_start env (d, tr))
      = Inl (Error ''Driver startup failed: Lambda environment detected but serverless Chromium not available. Install @sparticuz/chromium package.'')"
    and "fst (snd (Playwright_start env (d, tr))) = d"
    and "sessions_opened (snd (snd (Playwright_start env (d, tr)))) = sessions_opened tr"
proof -
  let ?tr0 = "tr @ [Log Info [starting_text (options d)]]"
  obtain e d' tr' where acq:
    "acquire_executable env (browser (options d)) (d, ?tr0) = (Inl e, d', tr')"
    using assms(4) acquire_lambda_fails_iff [OF assms(3), of "browser (options d)" d ?tr0]
    by (cases "acquire_executable env (browser (options d)) (d, ?tr0)") (auto simp add: isl_def)
  have e: "e = lambda_unavailable_error" using acquire_lambda_error [OF assms(3) acq] .
  have "fst (d', tr') = d \<and> sessions_opened (snd (d', tr')) = sessions_opened ?tr0"
    by (rule stableD [OF acquire_lambda_stable _ acq]) simp
  then have st: "d' = d" "sessions_opened tr' = sessions_opened tr"
    by (simp_all add: sessions_opened_def)
  have run: "Playwright_start env (d, tr) = startup_handler e (d', tr')"
    unfolding start_reaches_body [OF assms(1,2)] by (rule try_catch_bind_throws
          [where m = "acquire_executable env (browser (options d))", OF acq])
  show "fst (Playwright_start env (d, tr))
      = Inl (Error ''Driver startup failed: Lambda environment detected but serverless Chromium not available. Install @sparticuz/chromium package.'')"
    unfolding run e
    by (simp add: startup_handler_def andThen_logger throw_def lambda_unavailable_error_def)
  show "fst (snd (Playwright_start env (d, tr))) = d"
    unfolding run by (simp add: startup_handler_def andThen_logger throw_def st)
  show "sessions_opened (snd (snd (Playwright_start env (d, tr)))) = sessions_opened tr"
    unfolding run
    using st(2) by (simp add: startup_handler_def andThen_logger throw_def sessions_opened_def)
qed

lemma start_local_custom:
  assumes "\<not> isStarted d" and "browserEngine (browser (options d)) = Some engine"
    and "\<not> isLambda env"
    and "process_env env ''PLAYWRIGHT_CHROMIUM_EXECUTABLE_PATH'' = Some exe" and "exe \<noteq> []"
    and "is_chromium_option (browser (options d))"
  shows "prefix (tr @ [Log Info [starting_text (options d)],
                       Log Info [''Using custom Chromium executable: '' @ exe],
                       Invoke engine ''launch'' [launch_options (options d) (Some (Str exe)) []]])
           (snd (snd (Playwright_start env (d, tr))))"
proof -
  let ?tr1 = "tr @ [Log Info [starting_text (options d)]]
                @ [Log Info [''Using custom Chromium executable: '' @ exe]]"
  have "Playwright_start env (d, tr)
      = try_catch
          (bind (invoke env engine ''launch'' [launch_options (options d) (Some (Str exe)) []])
             (Playwright_after_launch env d))
          startup_handler (d, ?tr1)"
    unfolding start_reaches_body [OF assms(1,2)]
    by (subst try_catch_bind_returns
          [where m = "acquire_executable env (browser (options d))",
            OF acquire_local_custom [OF assms(3,4,5,6)]]) simp
  moreover have "prefix (?tr1 @ [Invoke engine ''launch''
                                   [launch_options (options d) (Some (Str exe)) []]])
      (snd (snd (try_catch
          (bind (invoke env engine ''launch'' [launch_options (options d) (Some (Str exe)) []])
             (Playwright_after_launch env d))
          startup_handler (d, ?tr1))))"
    by (rule launch_is_recorded) (rule grows_after_launch grows_startup_handler)+
  ultimately show ?thesis by simp
qed

lemma start_local_default:
  assumes "\<not> isStarted d" and "browserEngine (browser (options d)) = Some engine"
    and "\<not> isLambda env"
    and "\<not> (env_set env ''PLAYWRIGHT_CHROMIUM_EXECUTABLE_PATH''
             \<and> is_chromium_option (browser (options d)))"
  shows "prefix (tr @ [Log Info [starting_text (options d)],
                       Log Info [''Using default Playwright browser installation''],
                       Invoke engine ''launch'' [launch_options (options d) None []]])
           (snd (snd (Playwright_start env (d, tr))))"
proof -
  let ?tr1 = "tr @ [Log Info [starting_text (options d)]]
                @ [Log Info [''Using default Playwright browser installation'']]"
  have "Playwright_start env (d, tr)
      = try_catch
          (bind (invoke env engine ''launch'' [launch_options (options d) None []])
             (Playwright_after_launch env d))
          startup_handler (d, ?tr1)"
    unfolding start_reaches_body [OF assms(1,2)]
    by (subst try_catch_bind_returns
          [where m = "acquire_executable env (browser (options d))",
            OF acquire_local_default [OF assms(3,4)]]) simp
  moreover have "prefix (?tr1 @ [Invoke engine ''launch'' [launch_options (options d) None []]])
      (snd (snd (try_catch
          (bind (invoke env engine ''launch'' [launch_options (options d) None []])
             (Playwright_after_launch env d))
          startup_handler (d, ?tr1))))"
    by (rule launch_is_recorded) (rule grows_after_launch grows_startup_handler)+
  ultimately show ?thesis by simp
qed

lemma start_engine_default:
  assumes "\<not> isStarted d" and "browserEngine (browser (options d)) = Some engine"
    and "\<not> isLambda env"
    and "\<not> env_set env ''PLAYWRIGHT_CHROMIUM_EXECUTABLE_PATH'' \<or> engine \<noteq> Module ''chromium''"
  shows "prefix (tr @ [Log Info [starting_text (options d)],
                       Log Info [''Using default Playwright browser installation''],
                       Invoke engine ''launch'' [launch_options (options d) None []]])
           (snd (snd (Playwright_start env (d, tr))))"
proof -
  have "\<not> (env_set env ''PLAYWRIGHT_CHROMIUM_EXECUTABLE_PATH''
             \<and> is_chromium_option (browser (options d)))"
    using assms(2,4) chromium_option_engine [of "browser (options d)"] by auto
  then show ?thesis by (rule start_local_default [OF assms(1,2,3)])
qed

text \<open>
  Claim C6, as the code has it. Take a \<^verbatim>\<open>PlaywrightDriver\<close> that is not started
  and whose browser option names a supported engine. With a sandbox marker set
  (\<^verbatim>\<open>AWS_LAMBDA_FUNCTION_NAME\<close> or \<^verbatim>\<open>AWS_EXECUTION_ENV\<close>), if the environment
  makes the serverless Chromium unavailable (loading the package throws, or
  the package's \<^verbatim>\<open>executablePath()\<close> throws, or its \<^verbatim>\<open>args\<close> cannot be spread),
  \<^verbatim>\<open>start()\<close> throws \<^verbatim>\<open>Driver startup failed: Lambda environment detected but
  serverless Chromium not available...\<close>, launches nothing and leaves the
  driver as it was. With no sandbox marker, if
  \<^verbatim>\<open>PLAYWRIGHT_CHROMIUM_EXECUTABLE_PATH\<close> is set and the browser option is
  \<^verbatim>\<open>chromium\<close> or \<^verbatim>\<open>chrome\<close>, the engine is launched with that executable path;
  if the variable is unset or empty, or the engine is not Chromium, the engine
  is launched without an executable path (its default installation). A
  Chromium engine named in another spelling (\<^verbatim>\<open>Chrome\<close>, \<^verbatim>\<open>CHROMIUM\<close>) with the
  variable set is not covered by this statement.
\<close>

theorem environment_aware_acquisition:
  assumes "\<not> isStarted d" and "browserEngine (browser (options d)) = Some engine"
  shows
    "(isLambda env
       \<and> serverless_chromium_unavailable env (tr @ [Log Info [starting_text (options d)]]) \<longrightarrow>
        fst (Playwright_start env (d, tr))
          = Inl (Error ''Driver startup failed: Lambda environment detected but serverless Chromium not available. Install @sparticuz/chromium package.'')
        \<and> fst (snd (Playwright_start env (d, tr))) = d
        \<and> sessions_opened (snd (snd (Playwright_start env (d, tr)))) = sessions_opened tr)
     \<and> (\<not> isLambda env \<and> process_env env ''PLAYWRIGHT_CHROMIUM_EXECUTABLE_PATH'' = Some exe
          \<and> exe \<noteq> [] \<and> is_chromium_option (browser (options d)) \<longrightarrow>
        prefix (tr @ [Log Info [starting_text (options d)],
                      Log Info [''Using custom Chromium executable: '' @ exe],
                      Invoke engine ''launch'' [launch_options (options d) (Some (Str exe)) []]])
          (snd (snd (Playwright_start env (d, tr)))))
     \<and> (\<not> isLambda env
          \<and> (\<not> env_set env ''PLAYWRIGHT_CHROMIUM_EXECUTABLE_PATH''
               \<or> engine \<noteq> Module ''chromium'') \<longrightarrow>
        prefix (tr @ [Log Info [starting_text (options d)],
                      Log Info [''Using default Playwright browser installation''],
                      Invoke engine ''launch'' [launch_options (options d) None []]])
          (snd (snd (Playwright_start env (d, tr)))))"
  using start_lambda_unavailable [OF assms] start_local_custom [OF assms]
    start_engine_default [OF assms]
  by blast

lemma fresh_playwright_facts:
  "\<not> isStarted fresh_playwright"
  "browserEngine (browser (options fresh_playwright)) = Some (Module ''chromium'')"
  "is_chromium_option (browser (options fresh_playwright))"
  "starting_text (options fresh_playwright) = ''Starting chromium browser (headless: true)''"
  "launch_options (options fresh_playwright) exe []
     = Obj ([(''headless'', Bool True), (''slowMo'', Num 0), (''args'', Arr chromium_flags)]
            @ (case exe of None \<Rightarrow> [] | Some p \<Rightarrow> [(''executablePath'', p)]))"
  by (simp_all add: sample_defs browserEngine_def toLowerCase_def lower_char_def
      is_chromium_option_def starting_text_def bool_text_def launch_options_def)

lemma firefox_playwright_facts:
  "\<not> isStarted firefox_playwright"
  "browserEngine (browser (options firefox_playwright)) = Some (Module ''firefox'')"
  "\<not> is_chromium_option (browser (options firefox_playwright))"
  "starting_text (options firefox_playwright) = ''Starting firefox browser (headless: true)''"
  "launch_options (options firefox_playwright) None []
     = Obj [(''headless'', Bool True), (''slowMo'', Num 0), (''args'', Arr [])]"
  by (simp_all add: sample_defs browserEngine_def toLowerCase_def lower_char_def
      is_chromium_option_def starting_text_def bool_text_def launch_options_def)

lemma sandbox_without_chromium:
  "isLambda (failing_env lambda_vars)"
  "serverless_chromium_unavailable (failing_env lambda_vars) tr"
  "isLambda (no_executable_env lambda_vars)"
  "serverless_chromium_unavailable (no_executable_env lambda_vars) tr"
  by (simp_all add: env_defs no_executable_env_def serverless_chromium_unavailable_def)

lemma no_executable_acquire:
  "acquire_executable (no_executable_env lambda_vars) b (s, tr)
     = (Inl lambda_unavailable_error, s,
        tr @ [Invoke (Module ''require'') ''require'' [Str ''@sparticuz/chromium''],
              Invoke (Obj [(''args'', Arr [Str ''--single-process''])]) ''executablePath'' [],
              Log Warn [''Serverless Chromium not available in Lambda: no chromium binary'']])"
proof -
  have r: "respond (no_executable_env lambda_vars) tr0 recv ''require'' args
             = Inr (Obj [(''args'', Arr [Str ''--single-process''])])"
    "respond (no_executable_env lambda_vars) tr0 recv ''executablePath'' args
             = Inl (Error ''no chromium binary'')" for tr0 recv args
    by (simp_all add: no_executable_env_def)
  show ?thesis
    using sandbox_without_chromium(3)
    by (simp add: acquire_executable_def try_catch_def bind_def invoke_def r andThen_logger
        throw_def)
qed

text \<open>
  Instances of C6: a sandbox where the package does not load, a sandbox where
  the package loads and has no executable, a configured path, no path, and a
  configured path with the Firefox engine.
\<close>

theorem environment_aware_acquisition_witness:
  "fst (Playwright_start (failing_env lambda_vars) (fresh_playwright, []))
     = Inl (Error ''Driver startup failed: Lambda environment detected but serverless Chromium not available. Install @sparticuz/chromium package.'')
   \<and> sessions_opened (snd (snd (Playwright_start (failing_env lambda_vars) (fresh_playwright, []))))
     = 0
   \<and> Playwright_start (no_executable_env lambda_vars) (fresh_playwright, [])
     = (Inl (Error ''Driver startup failed: Lambda environment detected but serverless Chromium not available. Install @sparticuz/chromium package.''),
        fresh_playwright,
        [Log Info [''Starting chromium browser (headless: true)''],
         Invoke (Module ''require'') ''require'' [Str ''@sparticuz/chromium''],
         Invoke (Obj [(''args'', Arr [Str ''--single-process''])]) ''executablePath'' [],
         Log Warn [''Serverless Chromium not available in Lambda: no chromium binary''],
         Log Err [''Failed to start browser driver:'', ''Lambda environment detected but serverless Chromium not available. Install @sparticuz/chromium package.'']])
   \<and> prefix [Log Info [''Starting chromium browser (headless: true)''],
              Log Info [''Using custom Chromium executable: /usr/bin/chromium''],
              Invoke (Module ''chromium'') ''launch''
                [Obj [(''headless'', Bool True), (''slowMo'', Num 0),
                      (''args'', Arr chromium_flags),
                      (''executablePath'', Str ''/usr/bin/chromium'')]]]
        (snd (snd (Playwright_start (local_env chromium_path_vars) (fresh_playwright, []))))
   \<and> prefix [Log Info [''Starting chromium browser (headless: true)''],
              Log Info [''Using default Playwright browser installation''],
              Invoke (Module ''chromium'') ''launch''
                [Obj [(''headless'', Bool True), (''slowMo'', Num 0),
                      (''args'', Arr chromium_flags)]]]
        (snd (snd (Playwright_start (local_env no_vars) (fresh_playwright, []))))
   \<and> prefix [Log Info [''Starting firefox browser (headless: true)''],
              Log Info [''Using default Playwright browser installation''],
              Invoke (Module ''firefox'') ''launch''
                [Obj [(''headless'', Bool True), (''slowMo'', Num 0), (''args'', Arr [])]]]
        (snd (snd (Playwright_start (local_env no_vars) (firefox_playwright, []))))"
proof -
  note t = environment_aware_acquisition [OF fresh_playwright_facts(1,2)]
  note f = environment_aware_acquisition [OF firefox_playwright_facts(1,2)]
  have a: "\<not> isLambda (local_env chromium_path_vars)" "\<not> isLambda (local_env no_vars)"
    "process_env (local_env chromium_path_vars) ''PLAYWRIGHT_CHROMIUM_EXECUTABLE_PATH''
       = Some ''/usr/bin/chromium''"
    "\<not> env_set (local_env no_vars) ''PLAYWRIGHT_CHROMIUM_EXECUTABLE_PATH''"
    by (simp_all add: env_defs)
  have w1: "fst (Playwright_start (failing_env lambda_vars) (fresh_playwright, []))
     = Inl (Error ''Driver startup failed: Lambda environment detected but serverless Chromium not available. Install @sparticuz/chromium package.'')
   \<and> sessions_opened (snd (snd (Playwright_start (failing_env lambda_vars) (fresh_playwright, []))))
     = 0"
    using t [of "failing_env lambda_vars" "[]"]
    by (simp add: sandbox_without_chromium sessions_opened_def)
  have w1': "fst (Playwright_start (no_executable_env lambda_vars) (fresh_playwright, []))
     = Inl (Error ''Driver startup failed: Lambda environment detected but serverless Chromium not available. Install @sparticuz/chromium package.'')
   \<and> fst (snd (Playwright_start (no_executable_env lambda_vars) (fresh_playwright, [])))
     = fresh_playwright"
    using t [of "no_executable_env lambda_vars" "[]"]
    by (simp add: sandbox_without_chromium)
  have tr: "snd (snd (Playwright_start (no_executable_env lambda_vars) (fresh_playwright, [])))
     = [Log Info [''Starting chromium browser (headless: true)''],
        Invoke (Module ''require'') ''require'' [Str ''@sparticuz/chromium''],
        Invoke (Obj [(''args'', Arr [Str ''--single-process''])]) ''executablePath'' [],
        Log Warn [''Serverless Chromium not available in Lambda: no chromium binary''],
        Log Err [''Failed to start browser driver:'', ''Lambda environment detected but serverless Chromium not available. Install @sparticuz/chromium package.'']]"
    unfolding start_reaches_body [OF fresh_playwright_facts(1,2)]
    by (simp add: no_executable_acquire try_catch_def bind_def andThen_logger throw_def
        startup_handler_def lambda_unavailable_error_def fresh_playwright_facts(4))
  have w2: "prefix [Log Info [''Starting chromium browser (headless: true)''],
              Log Info [''Using custom Chromium executable: /usr/bin/chromium''],
              Invoke (Module ''chromium'') ''launch''
                [Obj [(''headless'', Bool True), (''slowMo'', Num 0),
                      (''args'', Arr chromium_flags),
                      (''executablePath'', Str ''/usr/bin/chromium'')]]]
        (snd (snd (Playwright_start (local_env chromium_path_vars) (fresh_playwright, []))))"
    using t [of "local_env chromium_path_vars" "[]" "''/usr/bin/chromium''"]
    by (simp add: a fresh_playwright_facts(3,4,5))
  have w3: "prefix [Log Info [''Starting chromium browser (headless: true)''],
              Log Info [''Using default Playwright browser installation''],
              Invoke (Module ''chromium'') ''launch''
                [Obj [(''headless'', Bool True), (''slowMo'', Num 0),
                      (''args'', Arr chromium_flags)]]]
        (snd (snd (Playwright_start (local_env no_vars) (fresh_playwright, []))))"
    using t [of "local_env no_vars" "[]" "[]"]
    by (simp add: a fresh_playwright_facts(3,4,5))
  have w4: "prefix [Log Info [''Starting firefox browser (headless: true)''],
              Log Info [''Using default Playwright browser installation''],
              Invoke (Module ''firefox'') ''launch''
                [Obj [(''headless'', Bool True), (''slowMo'', Num 0), (''args'', Arr [])]]]
        (snd (snd (Playwright_start (local_env no_vars) (firefox_playwright, []))))"
    using f [of "local_env no_vars" "[]" "[]"]
    by (simp add: a firefox_playwright_facts(3,4,5))
  have w1'': "Playwright_start (no_executable_env lambda_vars) (fresh_playwright, [])
     = (Inl (Error ''Driver startup failed: Lambda environment detected but serverless Chromium not available. Install @sparticuz/chromium package.''),
        fresh_playwright,
        [Log Info [''Starting chromium browser (headless: true)''],
         Invoke (Module ''require'') ''require'' [Str ''@sparticuz/chromium''],
         Invoke (Obj [(''args'', Arr [Str ''--single-process''])]) ''executablePath'' [],
         Log Warn [''Serverless Chromium not available in Lambda: no chromium binary''],
         Log Err [''Failed to start browser driver:'', ''Lambda environment detected but serverless Chromium not available. Install @sparticuz/chromium package.'']])"
    using w1' tr by (simp add: prod_eq_iff)
  show ?thesis using w1 w1'' w2 w3 w4 by blast
qed

text \<open>
  Claim C6 as stated prefers a configured executable path whenever there is
  no sandbox marker. With the path configured and the browser option
  \<^verbatim>\<open>firefox\<close>, the launch options carry no executable path.
\<close>

theorem configured_path_ignored_counterexample:
  "\<not> isLambda (local_env chromium_path_vars)
   \<and> process_env (local_env chromium_path_vars) ''PLAYWRIGHT_CHROMIUM_EXECUTABLE_PATH''
       = Some ''/usr/bin/chromium''
   \<and> browser (options firefox_playwright) = ''firefox''
   \<and> prefix [Log Info [''Starting firefox browser (headless: true)''],
              Log Info [''Using default Playwright browser installation''],
              Invoke (Module ''firefox'') ''launch''
                [Obj [(''headless'', Bool True), (''slowMo'', Num 0), (''args'', Arr [])]]]
        (snd (snd (Playwright_start (local_env chromium_path_vars) (firefox_playwright, []))))"
proof -
  have a: "\<not> isLambda (local_env chromium_path_vars)"
    "process_env (local_env chromium_path_vars) ''PLAYWRIGHT_CHROMIUM_EXECUTABLE_PATH''
       = Some ''/usr/bin/chromium''"
    by (simp_all add: env_defs)
  have b: "browser (options firefox_playwright) = ''firefox''"
    by (simp add: sample_defs)
  show ?thesis
    using start_local_default [OF firefox_playwright_facts(1,2) a(1), of "[]"]
      firefox_playwright_facts(3,4,5) a b
    by simp
qed

section \<open>Retrying a click\<close>

text \<open>
  An attempt that the engine fails runs the attempt body up to the failing
  call and throws the engine's error; the session state is not touched.
\<close>

lemma attempt_failure_runs:
  assumes "attempt_failure env drv selector tr = Some (steps, e)"
  shows "click_attempt env drv selector (s, tr) = (Inl e, s, tr @ steps)"
  using assms
  unfolding attempt_failure_def click_attempt_def smartWaitForClickable_def attempt_steps_def
    locate_call_def
  by (auto simp add: prog_defs Let_def split: sum.splits)

lemma attempt_failure_shape:
  assumes "attempt_failure env drv selector tr = Some (steps, e)"
  shows "filter (\<lambda>x. x = locate_call drv selector) steps = [locate_call drv selector]"
    and "filter is_warning steps = []"
  using assms
  unfolding attempt_failure_def attempt_steps_def locate_call_def
  by (auto simp add: Let_def split: sum.splits)

lemma never_clickable_attempt:
  assumes "never_clickable env drv selector"
  shows "\<exists>steps e. attempt_failure env drv selector tr = Some (steps, e)
           \<and> filter is_sleep steps = [] \<and> filter is_scroll_or_click steps = []"
  using assms [unfolded never_clickable_def, rule_format, of tr]
  unfolding attempt_failure_def attempt_steps_def locate_call_def
  by (auto simp add: Let_def isl_def split: sum.splits)

lemma safeClick_from_step:
  assumes "click_attempt env drv selector (s, tr) = (Inl e, s, tr1)" and "attempt \<le> maxRetries"
  shows "safeClick_from env drv selector maxRetries retryDelay attempt (s, tr)
    = (if attempt < maxRetries then
         safeClick_from env drv selector maxRetries retryDelay (Suc attempt)
           (s, tr1 @ [Log Warn [attempt_failed_message attempt maxRetries selector e],
                      Sleep retryDelay])
       else (Inl (click_exhausted_error selector maxRetries), s,
             tr1 @ [Log Warn [attempt_failed_message attempt maxRetries selector e]]))"
  using assms
  by (subst safeClick_from.simps) (simp add: logger_def emit_def wait_ms_def throw_def)

lemma safeClick_from_exhausted:
  assumes fails: "\<forall>tr. attempt_failure env drv selector tr \<noteq> None"
    and "left \<le> maxRetries"
  shows "safeClick_from env drv selector maxRetries retryDelay (maxRetries - left) (s, tr)
          = (Inl (click_exhausted_error selector maxRetries), s,
             tr @ exhausted_steps env drv selector maxRetries retryDelay (Suc left) tr)"
  using assms(2)
proof (induction left arbitrary: tr)
  case 0
  obtain steps e where f: "attempt_failure env drv selector tr = Some (steps, e)"
    using fails [rule_format, of tr] by auto
  show ?case
    using safeClick_from_step [OF attempt_failure_runs [OF f], of maxRetries maxRetries retryDelay s]
    by (simp add: f)
next
  case (Suc left)
  obtain steps e where f: "attempt_failure env drv selector tr = Some (steps, e)"
    using fails [rule_format, of tr] by auto
  let ?a = "maxRetries - Suc left"
  let ?tr2 = "tr @ steps @ [Log Warn [attempt_failed_message ?a maxRetries selector e]]
                @ [Sleep retryDelay]"
  have next_attempt: "Suc ?a = maxRetries - left" using Suc.prems by simp
  have unfold: "exhausted_steps env drv selector maxRetries retryDelay (Suc (Suc left)) tr
      = steps @ [Log Warn [attempt_failed_message ?a maxRetries selector e]] @ [Sleep retryDelay]
        @ exhausted_steps env drv selector maxRetries retryDelay (Suc left) ?tr2"
    by (subst exhausted_steps.simps(2)) (simp add: f Let_def del: exhausted_steps.simps)
  have "safeClick_from env drv selector maxRetries retryDelay ?a (s, tr)
      = safeClick_from env drv selector maxRetries retryDelay (Suc ?a) (s, ?tr2)"
    using safeClick_from_step [OF attempt_failure_runs [OF f], of ?a maxRetries retryDelay s]
      Suc.prems
    by simp
  also have "\<dots> = (Inl (click_exhausted_error selector maxRetries), s,
             ?tr2 @ exhausted_steps env drv selector maxRetries retryDelay (Suc left) ?tr2)"
    unfolding next_attempt using Suc.IH [of ?tr2] Suc.prems by simp
  finally show ?case unfolding unfold by (simp del: exhausted_steps.simps)
qed

lemma exhausted_steps_unfold:
  "attempt_failure env drv selector tr = Some (steps, e) \<Longrightarrow>
   exhausted_steps env drv selector maxRetries retryDelay (Suc left) tr =
     (if left = 0
      then steps @ [Log Warn [attempt_failed_message (maxRetries - left) maxRetries selector e]]
      else steps @ [Log Warn [attempt_failed_message (maxRetries - left) maxRetries selector e]]
           @ [Sleep retryDelay]
           @ exhausted_steps env drv selector maxRetries retryDelay left
               (tr @ steps
                   @ [Log Warn [attempt_failed_message (maxRetries - left) maxRetries selector e]]
                   @ [Sleep retryDelay]))"
  by (subst exhausted_steps.simps(2)) (simp add: Let_def del: exhausted_steps.simps)

lemma exhausted_steps_locates:
  assumes fails: "\<forall>tr. attempt_failure env drv selector tr \<noteq> None"
  shows "length (filter (\<lambda>x. x = locate_call drv selector)
                  (exhausted_steps env drv selector maxRetries retryDelay left tr)) = left"
proof (induction left arbitrary: tr)
  case 0
  show ?case by simp
next
  case (Suc left)
  obtain steps e where f: "attempt_failure env drv selector tr = Some (steps, e)"
    using fails [rule_format, of tr] by auto
  have one: "length (filter (\<lambda>x. x = locate_call drv selector) steps) = 1"
    using attempt_failure_shape(1) [OF f] by simp
  show ?case
    using Suc.IH one
    by (simp add: exhausted_steps_unfold [OF f] locate_call_def del: exhausted_steps.simps)
qed

lemma exhausted_steps_warnings:
  assumes fails: "\<forall>tr. attempt_failure env drv selector tr \<noteq> None"
  shows "length (filter is_warning
                  (exhausted_steps env drv selector maxRetries retryDelay left tr)) = left"
proof (induction left arbitrary: tr)
  case 0
  show ?case by simp
next
  case (Suc left)
  obtain steps e where f: "attempt_failure env drv selector tr = Some (steps, e)"
    using fails [rule_format, of tr] by auto
  have none: "filter is_warning steps = []"
    using attempt_failure_shape(2) [OF f] by simp
  show ?case
    using Suc.IH
    by (simp add: exhausted_steps_unfold [OF f] none del: exhausted_steps.simps)
qed

lemma never_clickable_fails:
  "never_clickable env drv selector \<Longrightarrow> \<forall>tr. attempt_failure env drv selector tr \<noteq> None"
  using never_clickable_attempt by fastforce

lemma exhausted_steps_sleeps:
  assumes never: "never_clickable env drv selector"
  shows "filter is_sleep (exhausted_steps env drv selector maxRetries retryDelay left tr)
           = replicate (left - 1) (Sleep retryDelay)"
proof (induction left arbitrary: tr)
  case 0
  show ?case by simp
next
  case (Suc left)
  obtain steps e where f: "attempt_failure env drv selector tr = Some (steps, e)"
    and q: "filter is_sleep steps = []"
    using never_clickable_attempt [OF never, of tr] by blast
  show ?case
  proof (cases left)
    case 0
    then show ?thesis
      by (simp add: exhausted_steps_unfold [OF f] q del: exhausted_steps.simps)
  next
    case (Suc k)
    then show ?thesis
      using Suc.IH
      by (simp add: exhausted_steps_unfold [OF f] q del: exhausted_steps.simps)
  qed
qed

lemma exhausted_steps_untouched:
  assumes never: "never_clickable env drv selector"
  shows "filter is_scroll_or_click
           (exhausted_steps env drv selector maxRetries retryDelay left tr) = []"
proof (induction left arbitrary: tr)
  case 0
  show ?case by simp
next
  case (Suc left)
  obtain steps e where f: "attempt_failure env drv selector tr = Some (steps, e)"
    and q: "filter is_scroll_or_click steps = []"
    using never_clickable_attempt [OF never, of tr] by blast
  show ?case
    using Suc.IH
    by (simp add: exhausted_steps_unfold [OF f] q del: exhausted_steps.simps)
qed

text \<open>
  Claim C5, as the code has it. The retry count is a whole number, at least 1.
  Suppose the engine fails every attempt on the selector, whatever happened
  before: one of the four engine calls of an attempt (locate, wait until
  enabled, scroll to the viewport centre, click) throws. Then \<open>safeClick\<close>
  throws \<^verbatim>\<open>Failed to click <selector> after <maxRetries> attempts\<close> without
  touching the state, and what it adds to the trace is exactly \<open>maxRetries\<close>
  failed attempts: each locates the element again (the locate call occurs
  \<open>maxRetries\<close> times) and runs the steps in order up to the call that
  throws, each is followed by its warning (\<open>maxRetries\<close> warnings), and
  consecutive attempts are separated by one sleep of \<open>retryDelay\<close>
  milliseconds, with no sleep after the last. If the element never becomes
  clickable (it is not located, or is located and never enabled), the only
  sleeps are these \<open>maxRetries - 1\<close> delays and no attempt scrolls or clicks.
\<close>

theorem safeClick_exhausts_retries:
  assumes "\<forall>tr. attempt_failure env drv selector tr \<noteq> None"
    and "0 < maxRetries"
  shows "safeClick env drv selector maxRetries retryDelay (s, tr)
           = (Inl (Error (''Failed to click '' @ selector @ '' after '' @ decimal maxRetries
                          @ '' attempts'')),
              s, tr @ exhausted_steps env drv selector maxRetries retryDelay maxRetries tr)
       \<and> length (filter (\<lambda>x. x = locate_call drv selector)
                   (exhausted_steps env drv selector maxRetries retryDelay maxRetries tr))
           = maxRetries
       \<and> length (filter is_warning
                   (exhausted_steps env drv selector maxRetries retryDelay maxRetries tr))
           = maxRetries
       \<and> (never_clickable env drv selector \<longrightarrow>
            filter is_sleep (exhausted_steps env drv selector maxRetries retryDelay maxRetries tr)
              = replicate (maxRetries - 1) (Sleep retryDelay)
          \<and> filter is_scroll_or_click
              (exhausted_steps env drv selector maxRetries retryDelay maxRetries tr) = [])"
proof -
  have first: "maxRetries - (maxRetries - 1) = 1" and all: "Suc (maxRetries - 1) = maxRetries"
    using assms(2) by simp_all
  have "safeClick_from env drv selector maxRetries retryDelay (maxRetries - (maxRetries - 1)) (s, tr)
          = (Inl (click_exhausted_error selector maxRetries), s,
             tr @ exhausted_steps env drv selector maxRetries retryDelay
                    (Suc (maxRetries - 1)) tr)"
    by (rule safeClick_from_exhausted [OF assms(1)]) simp
  then have run: "safeClick env drv selector maxRetries retryDelay (s, tr)
           = (Inl (Error (''Failed to click '' @ selector @ '' after '' @ decimal maxRetries
                          @ '' attempts'')),
              s, tr @ exhausted_steps env drv selector maxRetries retryDelay maxRetries tr)"
    unfolding first all safeClick_def click_exhausted_error_def .
  show ?thesis
    using run exhausted_steps_locates [OF assms(1)] exhausted_steps_warnings [OF assms(1)]
      exhausted_steps_sleeps exhausted_steps_untouched
    by (simp del: exhausted_steps.simps)
qed

lemmas retry_env_defs = disabled_env_def intercepted_env_def

lemma small_decimals:
  "decimal 0 = ''0''" "decimal (Suc 0) = ''1''" "decimal (Suc (Suc 0)) = ''2''"
  "decimal (Suc (Suc (Suc 0))) = ''3''"
  by (simp_all add: decimal.simps digit_char_def)

lemma go_selector: "getSmartSelector ''#go'' = By_id ''go''"
  by (simp add: getSmartSelector_def selector_eval)

lemma disabled_env_never_clickable: "never_clickable disabled_env drv selector"
  by (simp add: never_clickable_def disabled_env_def)

lemma disabled_env_attempt:
  "attempt_failure disabled_env drv selector tr
     = Some ([locate_call drv selector,
              Invoke drv ''wait'' [Str ''elementIsEnabled'', Ref 7, Num 5000]],
             Error ''element not interactable'')"
  by (simp add: attempt_failure_def disabled_env_def attempt_steps_def locate_call_def Let_def)

lemma intercepted_env_attempt:
  "attempt_failure intercepted_env drv selector tr
     = Some (attempt_steps drv selector (Ref 7), Error ''element click intercepted'')"
  by (simp add: attempt_failure_def intercepted_env_def Let_def)

text \<open>
  Instances of C5: the defaults (3 attempts, 1000 ms) on an element that is
  located and never enabled, and 2 attempts 250 ms apart on an element whose
  click is intercepted every time.
\<close>

theorem safeClick_exhausts_retries_witness:
  "never_clickable disabled_env (Ref 1) ''#go''
   \<and> safeClick_default disabled_env (Ref 1) ''#go'' ((), [])
     = (Inl (Error ''Failed to click #go after 3 attempts''), (),
        [Invoke (Ref 1) ''wait'' [Str ''elementLocated'', Locator (By_id ''go''), Num 5000],
         Invoke (Ref 1) ''wait'' [Str ''elementIsEnabled'', Ref 7, Num 5000],
         Log Warn [''Click attempt 1/3 failed for #go: element not interactable''],
         Sleep 1000,
         Invoke (Ref 1) ''wait'' [Str ''elementLocated'', Locator (By_id ''go''), Num 5000],
         Invoke (Ref 1) ''wait'' [Str ''elementIsEnabled'', Ref 7, Num 5000],
         Log Warn [''Click attempt 2/3 failed for #go: element not interactable''],
         Sleep 1000,
         Invoke (Ref 1) ''wait'' [Str ''elementLocated'', Locator (By_id ''go''), Num 5000],
         Invoke (Ref 1) ''wait'' [Str ''elementIsEnabled'', Ref 7, Num 5000],
         Log Warn [''Click attempt 3/3 failed for #go: element not interactable'']])
   \<and> safeClick intercepted_env (Ref 1) ''#go'' 2 250 ((), [])
     = (Inl (Error ''Failed to click #go after 2 attempts''), (),
        [Invoke (Ref 1) ''wait'' [Str ''elementLocated'', Locator (By_id ''go''), Num 5000],
         Invoke (Ref 1) ''wait'' [Str ''elementIsEnabled'', Ref 7, Num 5000],
         Invoke (Ref 1) ''executeScript'' [Str scroll_into_view_script, Ref 7],
         Sleep 500,
         Invoke (Ref 7) ''click'' [],
         Log Warn [''Click attempt 1/2 failed for #go: element click intercepted''],
         Sleep 250,
         Invoke (Ref 1) ''wait'' [Str ''elementLocated'', Locator (By_id ''go''), Num 5000],
         Invoke (Ref 1) ''wait'' [Str ''elementIsEnabled'', Ref 7, Num 5000],
         Invoke (Ref 1) ''executeScript'' [Str scroll_into_view_script, Ref 7],
         Sleep 500,
         Invoke (Ref 7) ''click'' [],
         Log Warn [''Click attempt 2/2 failed for #go: element click intercepted'']])"
proof -
  have a: "\<forall>tr. attempt_failure disabled_env (Ref 1) ''#go'' tr \<noteq> None"
    by (simp add: disabled_env_attempt)
  have b: "\<forall>tr. attempt_failure intercepted_env (Ref 1) ''#go'' tr \<noteq> None"
    by (simp add: intercepted_env_attempt)
  have w1: "safeClick disabled_env (Ref 1) ''#go'' 3 1000 ((), [])
     = (Inl (Error (''Failed to click '' @ ''#go'' @ '' after '' @ decimal 3 @ '' attempts'')), (),
        [] @ exhausted_steps disabled_env (Ref 1) ''#go'' 3 1000 3 [])"
    using safeClick_exhausts_retries [OF a, of 3 1000 "()" "[]"] disabled_env_never_clickable
    by (simp del: exhausted_steps.simps)
  have w2: "safeClick intercepted_env (Ref 1) ''#go'' 2 250 ((), [])
     = (Inl (Error (''Failed to click '' @ ''#go'' @ '' after '' @ decimal 2 @ '' attempts'')), (),
        [] @ exhausted_steps intercepted_env (Ref 1) ''#go'' 2 250 2 [])"
    using safeClick_exhausts_retries [OF b, of 2 250 "()" "[]"]
    by (simp del: exhausted_steps.simps)
  show ?thesis
    unfolding safeClick_default_def w1 w2
    by (simp add: disabled_env_never_clickable eval_nat_numeral disabled_env_attempt intercepted_env_attempt small_decimals
        attempt_failed_message_def attempt_steps_def locate_call_def go_selector)
qed

lemma safeClick_zero_retries:
  "safeClick env drv selector 0 retryDelay (s, tr) = (Inr False, s, tr)"
  unfolding safeClick_def by (subst safeClick_from.simps) (simp add: ret_def)

text \<open>
  Claim C5 as stated fails in two places. With a retry count of 0 the loop
  body never runs and \<open>safeClick\<close> returns \<^verbatim>\<open>false\<close> without throwing. And on an
  element that never becomes clickable because it is never enabled, no attempt
  scrolls or clicks: each stops at the wait for the enabled state.
\<close>

theorem safeClick_silent_or_unclicked_counterexample:
  "safeClick (failing_env no_vars) (Ref 1) ''#go'' 0 1000 ((), []) = (Inr False, (), [])
   \<and> never_clickable disabled_env (Ref 1) ''#go''
   \<and> filter is_scroll_or_click
       (snd (snd (safeClick disabled_env (Ref 1) ''#go'' 2 1000 ((), [])))) = []"
proof -
  have "safeClick disabled_env (Ref 1) ''#go'' 2 1000 ((), [])
     = (Inl (click_exhausted_error ''#go'' 2), (),
        [] @ exhausted_steps disabled_env (Ref 1) ''#go'' 2 1000 (Suc 1) [])"
    using safeClick_from_exhausted [of disabled_env "Ref 1" "''#go''" 1 2 1000 "()" "[]"]
    by (simp add: disabled_env_attempt safeClick_def del: exhausted_steps.simps)
  then show ?thesis
    by (simp add: safeClick_zero_retries disabled_env_never_clickable
        exhausted_steps_untouched [OF disabled_env_never_clickable] del: exhausted_steps.simps)
qed

text \<open>
  When the first attempt succeeds, its five steps appear in order and
  \<open>safeClick\<close> returns \<^verbatim>\<open>true\<close>.
\<close>

lemma safeClick_first_attempt_succeeds:
  "safeClick_default (local_env no_vars) (Ref 1) ''#go'' ((), [])
     = (Inr True, (),
        [Invoke (Ref 1) ''wait'' [Str ''elementLocated'', Locator (By_id ''go''), Num 5000],
         Invoke (Ref 1) ''wait'' [Str ''elementIsEnabled'', Ref 0, Num 5000],
         Invoke (Ref 1) ''executeScript'' [Str scroll_into_view_script, Ref 0],
         Sleep 500,
         Invoke (Ref 0) ''click'' [],
         Log Info [''Successfully clicked element: #go'']])"
proof -
  have sel: "getSmartSelector ''#go'' = By_id ''go''"
    by (simp add: getSmartSelector_def selector_eval)
  show ?thesis
    unfolding safeClick_default_def safeClick_def
    by (subst safeClick_from.simps)
       (simp add: click_attempt_def smartWaitForClickable_def prog_defs Let_def sel env_defs)
qed

end
